theory Spec2Isabelle
  imports Complex_Main
begin

section \<open>JavaScript values\<close>

text \<open>
  The backend is JavaScript: payloads from the messaging platform and configuration
  values are dynamically typed. A value is one of the JSON shapes plus \<open>undefined\<close>.
  Numbers are restricted to integers that \<open>String\<close> prints digit by digit (user ids, unix
  seconds; magnitude below \<open>10^21\<close>); an object is the list of its properties in enumeration
  order.
\<close>

datatype jsval =
    JUndefined
  | JNull
  | JBool bool
  | JNum int
  | JStr string
  | JArr "jsval list"
  | JObj "(string \<times> jsval) list"

text \<open>Truthiness, as \<open>Boolean(v)\<close>, \<open>!v\<close>, \<open>a || b\<close> and \<open>a && b\<close> read it.\<close>

fun truthy :: "jsval \<Rightarrow> bool" where
  "truthy JUndefined = False"
| "truthy JNull = False"
| "truthy (JBool b) = b"
| "truthy (JNum n) = (n \<noteq> 0)"
| "truthy (JStr s) = (s \<noteq> [])"
| "truthy (JArr xs) = True"
| "truthy (JObj kvs) = True"

definition js_or :: "jsval \<Rightarrow> jsval \<Rightarrow> jsval" where
  "js_or a b = (if truthy a then a else b)"

definition js_and :: "jsval \<Rightarrow> jsval \<Rightarrow> jsval" where
  "js_and a b = (if truthy a then b else a)"

text \<open>
  Property access \<open>v.k\<close> for the property names the code uses (none of them is a built-in
  property of strings, numbers or arrays). Reading a property of \<open>undefined\<close> or \<open>null\<close>
  throws a \<open>TypeError\<close>; the source guards every such read by \<open>v && v.k\<close> except the one
  at the head of \<open>pickExecutor\<close>, which is modelled there. \<open>js_get\<close> is the read that does
  not throw.
\<close>

datatype js_error = TypeError

fun js_get :: "jsval \<Rightarrow> string \<Rightarrow> jsval" where
  "js_get (JObj kvs) k = (case map_of kvs k of Some v \<Rightarrow> v | None \<Rightarrow> JUndefined)"
| "js_get v k = JUndefined"

text \<open>\<open>String(v)\<close>: decimal digits for a number, the fixed tag for an object.\<close>

function digit_chars :: "int \<Rightarrow> string" where
  "digit_chars n =
     (if n < 10 then [char_of (48 + n)]
      else digit_chars (n div 10) @ [char_of (48 + n mod 10)])"
  by pat_completeness auto
termination
  by (relation "measure nat") auto

declare digit_chars.simps [simp del]

fun join_comma :: "string list \<Rightarrow> string" where
  "join_comma [] = []"
| "join_comma [s] = s"
| "join_comma (s # t # ss) = s @ '','' @ join_comma (t # ss)"

fun js_String :: "jsval \<Rightarrow> string" where
  "js_String JUndefined = ''undefined''"
| "js_String JNull = ''null''"
| "js_String (JBool b) = (if b then ''true'' else ''false'')"
| "js_String (JNum n) = (if n < 0 then CHR ''-'' # digit_chars (- n) else digit_chars n)"
| "js_String (JStr s) = s"
| "js_String (JArr xs) =
     join_comma (map (\<lambda>x. case x of JUndefined \<Rightarrow> [] | JNull \<Rightarrow> [] | _ \<Rightarrow> js_String x) xs)"
| "js_String (JObj kvs) = ''[object Object]''"

text \<open>
  \<open>String.prototype.trim\<close> strips the white space and the line terminators of ECMAScript
  at both ends of a string: U+0009 to U+000D, U+0020, U+00A0, U+1680, U+2000 to U+200A,
  U+2028, U+2029, U+202F, U+205F, U+3000 and U+FEFF. Strings are UTF-8 here, so each of
  these code points is the byte sequence that encodes it.
\<close>

definition white_space :: "string list" where
  "white_space =
     [[CHR 0x09], [CHR 0x0A], [CHR 0x0B], [CHR 0x0C], [CHR 0x0D], [CHR 0x20],
      [CHR 0xC2, CHR 0xA0],
      [CHR 0xE1, CHR 0x9A, CHR 0x80],
      [CHR 0xE2, CHR 0x80, CHR 0x80], [CHR 0xE2, CHR 0x80, CHR 0x81],
      [CHR 0xE2, CHR 0x80, CHR 0x82], [CHR 0xE2, CHR 0x80, CHR 0x83],
      [CHR 0xE2, CHR 0x80, CHR 0x84], [CHR 0xE2, CHR 0x80, CHR 0x85],
      [CHR 0xE2, CHR 0x80, CHR 0x86], [CHR 0xE2, CHR 0x80, CHR 0x87],
      [CHR 0xE2, CHR 0x80, CHR 0x88], [CHR 0xE2, CHR 0x80, CHR 0x89],
      [CHR 0xE2, CHR 0x80, CHR 0x8A],
      [CHR 0xE2, CHR 0x80, CHR 0xA8], [CHR 0xE2, CHR 0x80, CHR 0xA9],
      [CHR 0xE2, CHR 0x80, CHR 0xAF],
      [CHR 0xE2, CHR 0x81, CHR 0x9F],
      [CHR 0xE3, CHR 0x80, CHR 0x80],
      [CHR 0xEF, CHR 0xBB, CHR 0xBF]]"

definition starts_with :: "string \<Rightarrow> string \<Rightarrow> bool" where
  "starts_with s w = (w \<noteq> [] \<and> take (length w) s = w)"

text \<open>Strip, from the front, every leading occurrence of one of the given sequences.\<close>

function strip_start :: "string list \<Rightarrow> string \<Rightarrow> string" where
  "strip_start ws s =
     (case find (starts_with s) ws of
        None \<Rightarrow> s
      | Some w \<Rightarrow> strip_start ws (drop (length w) s))"
  by pat_completeness auto
termination
proof (relation "measure (\<lambda>(ws, s). length s)")
  show "wf (measure (\<lambda>(ws, s). length s))" by simp
next
  fix ws :: "string list" and s w :: string
  assume "find (starts_with s) ws = Some w"
  then have "starts_with s w" by (auto simp: find_Some_iff)
  then have "w \<noteq> []" and "take (length w) s = w" by (simp_all add: starts_with_def)
  then have "s \<noteq> []" and "0 < length w" by auto
  then show "((ws, drop (length w) s), (ws, s)) \<in> measure (\<lambda>(ws, s). length s)" by simp
qed

declare strip_start.simps [simp del]

text \<open>The white space at the end is the reversed white space at the front of the reversed string.\<close>

definition trim :: "string \<Rightarrow> string" where
  "trim s = rev (strip_start (map rev white_space) (rev (strip_start white_space s)))"

section \<open>Lifecycle rules (task-lifecycle.js)\<close>

definition TASK_STATUS_PENDING :: string where
  "TASK_STATUS_PENDING = ''PENDING''"

definition TASK_STATUS_WAITING_VERIFY :: string where
  "TASK_STATUS_WAITING_VERIFY = ''WAITING_VERIFY''"

definition TASK_STATUS_COMPLETED :: string where
  "TASK_STATUS_COMPLETED = ''COMPLETED''"

definition REMINDER_KIND_NONE :: string where
  "REMINDER_KIND_NONE = ''NONE''"

definition REMINDER_KIND_DUE_SOON :: string where
  "REMINDER_KIND_DUE_SOON = ''DUE_SOON''"

definition REMINDER_KIND_OVERDUE :: string where
  "REMINDER_KIND_OVERDUE = ''OVERDUE''"

text \<open>
  \<open>normalizeText\<close>: the first element of an array (recursively), the empty string for
  \<open>undefined\<close> and \<open>null\<close>, otherwise \<open>String(value).trim()\<close>.
\<close>

fun normalizeText :: "jsval \<Rightarrow> string" where
  "normalizeText (JArr []) = []"
| "normalizeText (JArr (x # xs)) = normalizeText x"
| "normalizeText JUndefined = []"
| "normalizeText JNull = []"
| "normalizeText v = trim (js_String v)"

text \<open>
  A row of the \<open>tasks\<close> table (models/db.js). A text or datetime column holds a string or
  NULL, \<open>redo_count\<close> an integer or NULL; \<open>col\<close> is the JavaScript value the driver hands
  out for a column.
\<close>

record task =
  id_col :: int
  wecom_schedule_id :: "string option"
  title :: "string option"
  description :: "string option"
  creator_userid :: "string option"
  executor_userid :: "string option"
  owner_userid :: "string option"
  owner_cal_id :: "string option"
  start_time :: "string option"
  end_time :: "string option"
  status :: "string option"
  completion_time :: "string option"
  verify_time :: "string option"
  reject_reason :: "string option"
  redo_count :: "int option"
  last_reminder_at :: "string option"
  last_reminder_kind :: "string option"
  completed_by_userid :: "string option"
  verified_by_userid :: "string option"
  updated_at :: "string option"
  created_at :: "string option"

definition col :: "string option \<Rightarrow> jsval" where
  "col c = (case c of None \<Rightarrow> JNull | Some s \<Rightarrow> JStr s)"

text \<open>
  \<open>toDateOrNull\<close>. The parser of \<open>new Date(text)\<close> is the runtime's, not the repository's:
  it is the parameter \<open>pd\<close>, giving the milliseconds since the epoch or \<open>None\<close> for an
  invalid date. A \<open>Date\<close> is its millisecond count.
\<close>

definition toDateOrNull :: "(string \<Rightarrow> int option) \<Rightarrow> jsval \<Rightarrow> int option" where
  "toDateOrNull pd value =
     (let normalized = normalizeText value
      in if normalized = [] then None else pd normalized)"

definition canUserCompleteTask :: "task option \<Rightarrow> jsval \<Rightarrow> bool" where
  "canUserCompleteTask task userId =
     (case task of
        None \<Rightarrow> False
      | Some t \<Rightarrow>
          (let normalizedUserId = normalizeText userId;
               executorId = normalizeText (col (executor_userid t));
               statusText = normalizeText (col (status t))
           in normalizedUserId \<noteq> [] \<and> executorId \<noteq> [] \<and>
              normalizedUserId = executorId \<and> statusText = TASK_STATUS_PENDING))"

definition canUserVerifyTask :: "task option \<Rightarrow> jsval \<Rightarrow> jsval list \<Rightarrow> bool" where
  "canUserVerifyTask task userId globalVerifiers =
     (case task of
        None \<Rightarrow> False
      | Some t \<Rightarrow>
          (let normalizedUserId = normalizeText userId;
               creatorId = normalizeText (col (creator_userid t));
               statusText = normalizeText (col (status t));
               verifierSet = set (filter (\<lambda>s. s \<noteq> []) (map normalizeText globalVerifiers))
           in if normalizedUserId = [] \<or> statusText \<noteq> TASK_STATUS_WAITING_VERIFY then False
              else normalizedUserId = creatorId \<or> normalizedUserId \<in> verifierSet))"

definition getReminderKind :: "(string \<Rightarrow> int option) \<Rightarrow> task option \<Rightarrow> int \<Rightarrow> string" where
  "getReminderKind pd task now =
     (case task of
        None \<Rightarrow> REMINDER_KIND_NONE
      | Some t \<Rightarrow>
          if normalizeText (col (status t)) \<noteq> TASK_STATUS_PENDING then REMINDER_KIND_NONE
          else (case toDateOrNull pd (col (end_time t)) of
                  None \<Rightarrow> REMINDER_KIND_NONE
                | Some endTime \<Rightarrow>
                    (let diffMs = endTime - now
                     in if diffMs < 0 then REMINDER_KIND_OVERDUE
                        else if diffMs \<le> 24 * 60 * 60 * 1000 then REMINDER_KIND_DUE_SOON
                        else REMINDER_KIND_NONE)))"

definition shouldSendReminder ::
  "(string \<Rightarrow> int option) \<Rightarrow> task option \<Rightarrow> string \<Rightarrow> int \<Rightarrow> int \<Rightarrow> bool" where
  "shouldSendReminder pd task reminderKind now cooldownHours =
     (case task of
        None \<Rightarrow> False
      | Some t \<Rightarrow>
          if reminderKind = REMINDER_KIND_NONE then False
          else (let previousKind = normalizeText (col (last_reminder_kind t))
                in if previousKind = [] \<or> previousKind \<noteq> reminderKind then True
                   else (case toDateOrNull pd (col (last_reminder_at t)) of
                           None \<Rightarrow> True
                         | Some previousReminderAt \<Rightarrow>
                             (let elapsedMs = now - previousReminderAt
                              in elapsedMs \<ge> cooldownHours * 60 * 60 * 1000))))"

definition isTaskOverdue :: "(string \<Rightarrow> int option) \<Rightarrow> task option \<Rightarrow> int \<Rightarrow> bool" where
  "isTaskOverdue pd task now =
     (case task of
        None \<Rightarrow> False
      | Some t \<Rightarrow>
          (case toDateOrNull pd (col (end_time t)) of
             None \<Rightarrow> False
           | Some endTime \<Rightarrow>
               if normalizeText (col (status t)) = TASK_STATUS_COMPLETED then False
               else endTime < now))"

definition isTaskDueSoon :: "(string \<Rightarrow> int option) \<Rightarrow> task option \<Rightarrow> int \<Rightarrow> bool" where
  "isTaskDueSoon pd task now =
     (case task of
        None \<Rightarrow> False
      | Some t \<Rightarrow>
          (case toDateOrNull pd (col (end_time t)) of
             None \<Rightarrow> False
           | Some endTime \<Rightarrow>
               if normalizeText (col (status t)) \<noteq> TASK_STATUS_PENDING then False
               else (let diffMs = endTime - now
                     in diffMs \<ge> 0 \<and> diffMs \<le> 24 * 60 * 60 * 1000)))"

text \<open>
  \<open>mapTaskRowToApi\<close>. \<open>options.now\<close> is used when it is a \<open>Date\<close>, otherwise the clock is
  read (\<open>clock\<close>); \<open>options.globalVerifiers\<close> is used when it is an array.
\<close>

record map_options =
  opt_now :: "int option"
  opt_currentUserId :: jsval
  opt_globalVerifiers :: jsval

record api_task =
  api_row :: task
  api_redo_count :: int
  can_complete :: bool
  can_verify :: bool
  is_due_soon :: bool
  is_overdue :: bool

definition mapTaskRowToApi ::
  "(string \<Rightarrow> int option) \<Rightarrow> int \<Rightarrow> task \<Rightarrow> map_options \<Rightarrow> api_task" where
  "mapTaskRowToApi pd clock row options =
     (let now = (case opt_now options of Some d \<Rightarrow> d | None \<Rightarrow> clock);
          currentUserId = normalizeText (opt_currentUserId options);
          globalVerifiers = (case opt_globalVerifiers options of JArr vs \<Rightarrow> vs | _ \<Rightarrow> [])
      in \<lparr> api_row = row,
           api_redo_count = (case redo_count row of None \<Rightarrow> 0 | Some n \<Rightarrow> n),
           can_complete = canUserCompleteTask (Some row) (JStr currentUserId),
           can_verify = canUserVerifyTask (Some row) (JStr currentUserId) globalVerifiers,
           is_due_soon = isTaskDueSoon pd (Some row) now,
           is_overdue = isTaskOverdue pd (Some row) now \<rparr>)"

text \<open>
  \<open>buildTaskKpi\<close>. The two rates are \<open>Number(((a / b) * 100).toFixed(2))\<close> on the numbers
  of JavaScript, which are IEEE 754 doubles. A double is the rational number it stands for.
  The quotient and the product are the exact results rounded to the nearest double, a tie
  going to the even significand: \<open>expo\<close> is the binary exponent of a positive number, and
  a double has 53 significant bits. The counts are below \<open>2^32\<close> (the length of an array), so
  they are doubles themselves, and the quotient and the product are in the normal range of
  the doubles: neither overflow nor underflow arises. \<open>toFixed(2)\<close> of a non-negative
  double is the nearest multiple of 1/100 to its exact value, the larger one at a tie, and
  \<open>Number\<close> reads that decimal back: a rate is the decimal that \<open>toFixed\<close> printed.
\<close>

function expo :: "rat \<Rightarrow> int" where
  "expo x =
     (if x \<le> 0 then 0
      else if 2 \<le> x then expo (x / 2) + 1
      else if x < 1 then expo (x * 2) - 1
      else 0)"
  by pat_completeness auto
termination
proof (relation "measure (\<lambda>x. if 1 \<le> x then nat \<lfloor>x\<rfloor> else nat \<lceil>1 / x\<rceil>)")
  show "wf (measure (\<lambda>x. if 1 \<le> x then nat \<lfloor>x\<rfloor> else nat \<lceil>1 / x\<rceil>))" by simp
next
  fix x :: rat
  assume "\<not> x \<le> 0" and "2 \<le> x"
  then have "\<lfloor>x / 2\<rfloor> < \<lfloor>x\<rfloor>" by linarith
  moreover have "0 < \<lfloor>x\<rfloor>" using \<open>2 \<le> x\<close> by linarith
  ultimately show "(x / 2, x) \<in> measure (\<lambda>x. if 1 \<le> x then nat \<lfloor>x\<rfloor> else nat \<lceil>1 / x\<rceil>)"
    using \<open>2 \<le> x\<close> by simp
next
  fix x :: rat
  assume pos: "\<not> x \<le> 0" and "\<not> 2 \<le> x" and lt: "x < 1"
  have inv: "1 < 1 / x" using pos lt by simp
  then have c2: "2 \<le> \<lceil>1 / x\<rceil>" by linarith
  show "(x * 2, x) \<in> measure (\<lambda>x. if 1 \<le> x then nat \<lfloor>x\<rfloor> else nat \<lceil>1 / x\<rceil>)"
  proof (cases "1 \<le> x * 2")
    case True
    then have "\<lfloor>x * 2\<rfloor> = 1" using lt by linarith
    with True c2 lt show ?thesis by simp
  next
    case False
    have "1 / (x * 2) = (1 / x) / 2" by simp
    moreover have "2 < 1 / x" using pos False by (simp add: field_simps)
    ultimately have "\<lceil>1 / (x * 2)\<rceil> < \<lceil>1 / x\<rceil>" by linarith
    with False lt c2 pos show ?thesis by simp
  qed
qed

declare expo.simps [simp del]

definition round_half_even :: "rat \<Rightarrow> int" where
  "round_half_even y =
     (let f = \<lfloor>y\<rfloor>; r = y - of_int f
      in if r < 1 / 2 then f else if 1 / 2 < r then f + 1 else if even f then f else f + 1)"

definition to_double :: "rat \<Rightarrow> rat" where
  "to_double x =
     (if x = 0 then 0
      else (let ulp = 2 powi (expo \<bar>x\<bar> - 52) in of_int (round_half_even (x / ulp)) * ulp))"

text \<open>The operators \<open>/\<close> and \<open>*\<close> on doubles.\<close>

definition js_div :: "rat \<Rightarrow> rat \<Rightarrow> rat" where
  "js_div a b = to_double (a / b)"

definition js_mul :: "rat \<Rightarrow> rat \<Rightarrow> rat" where
  "js_mul a b = to_double (a * b)"

record kpi =
  total_tasks :: nat
  completed_tasks :: nat
  waiting_verify_tasks :: nat
  overdue_tasks :: nat
  due_soon_tasks :: nat
  completion_rate :: rat
  on_time_rate :: rat

definition toFixed2 :: "rat \<Rightarrow> rat" where
  "toFixed2 x = of_int \<lfloor>x * 100 + 1 / 2\<rfloor> / 100"

text \<open>The callback that counts the on-time completions in \<open>buildTaskKpi\<close>.\<close>

definition isOnTimeCompleted :: "(string \<Rightarrow> int option) \<Rightarrow> task \<Rightarrow> bool" where
  "isOnTimeCompleted pd item =
     (if normalizeText (col (status item)) \<noteq> TASK_STATUS_COMPLETED then False
      else (case toDateOrNull pd (js_or (col (completion_time item)) (col (verify_time item))) of
              None \<Rightarrow> False
            | Some completionTime \<Rightarrow>
                (case toDateOrNull pd (col (end_time item)) of
                   None \<Rightarrow> False
                 | Some endTime \<Rightarrow> completionTime \<le> endTime)))"

definition buildTaskKpi :: "(string \<Rightarrow> int option) \<Rightarrow> task list \<Rightarrow> int \<Rightarrow> kpi" where
  "buildTaskKpi pd taskRows now =
     (let totalCount = length taskRows;
          completedCount =
            length (filter (\<lambda>item. normalizeText (col (status item)) = TASK_STATUS_COMPLETED) taskRows);
          waitingVerifyCount =
            length (filter (\<lambda>item. normalizeText (col (status item)) = TASK_STATUS_WAITING_VERIFY) taskRows);
          overdueCount = length (filter (\<lambda>item. isTaskOverdue pd (Some item) now) taskRows);
          dueSoonCount = length (filter (\<lambda>item. isTaskDueSoon pd (Some item) now) taskRows);
          onTimeCompletedCount = length (filter (isOnTimeCompleted pd) taskRows);
          completionRate =
            (if totalCount > 0
             then toFixed2 (js_mul (js_div (of_nat completedCount) (of_nat totalCount)) 100) else 0);
          onTimeRate =
            (if completedCount > 0
             then toFixed2 (js_mul (js_div (of_nat onTimeCompletedCount) (of_nat completedCount)) 100)
             else 0)
      in \<lparr> total_tasks = totalCount,
           completed_tasks = completedCount,
           waiting_verify_tasks = waitingVerifyCount,
           overdue_tasks = overdueCount,
           due_soon_tasks = dueSoonCount,
           completion_rate = completionRate,
           on_time_rate = onTimeRate \<rparr>)"

text \<open>
  \<open>parseGlobalVerifiers\<close>: \<open>split(',')\<close>, trimmed, blanks dropped, and the \<open>Set\<close> keeps
  the first occurrence of each id in insertion order.
\<close>

fun split_on :: "char \<Rightarrow> string \<Rightarrow> string list" where
  "split_on c [] = [[]]"
| "split_on c (x # xs) =
     (if x = c then [] # split_on c xs
      else (case split_on c xs of [] \<Rightarrow> [[x]] | r # rs \<Rightarrow> (x # r) # rs))"

definition set_add :: "'a list \<Rightarrow> 'a \<Rightarrow> 'a list" where
  "set_add xs x = (if x \<in> set xs then xs else xs @ [x])"

definition parseGlobalVerifiers :: "jsval \<Rightarrow> string list" where
  "parseGlobalVerifiers rawValue =
     (let normalized = normalizeText rawValue
      in if normalized = [] then []
         else foldl set_add []
                (filter (\<lambda>s. s \<noteq> [])
                   (map (\<lambda>item. normalizeText (JStr item)) (split_on CHR '','' normalized))))"

section \<open>Calendar mapping resolver (calendar-mapping.js)\<close>

record calendar_target =
  user_id :: string
  cal_id :: string
  source :: string

text \<open>The JavaScript object a mapping record is, when it is handed on as input.\<close>

definition target_js :: "calendar_target \<Rightarrow> jsval" where
  "target_js r =
     JObj [(''user_id'', JStr (user_id r)), (''cal_id'', JStr (cal_id r)), (''source'', JStr (source r))]"

definition toCalendarMappingRecord :: "jsval \<Rightarrow> string \<Rightarrow> calendar_target option" where
  "toCalendarMappingRecord input fallbackSource =
     (let userId = normalizeText
            (js_and input
               (js_or (js_or (js_or (js_or (js_get input ''user_id'') (js_get input ''userid''))
                                (js_get input ''userId'')) (js_get input ''user''))
                  (js_get input ''organizer'')));
          calId = normalizeText
            (js_and input
               (js_or (js_or (js_or (js_get input ''cal_id'') (js_get input ''calId''))
                         (js_get input ''calendar_id'')) (js_get input ''calendarId'')));
          sourceText = normalizeText (js_and input (js_get input ''source''));
          sourceN = (if sourceText = [] then fallbackSource else sourceText)
      in if calId = [] then None
         else Some \<lparr> user_id = userId, cal_id = calId, source = sourceN \<rparr>)"

text \<open>\<open>.filter((item) => item && item.user_id)\<close>, on the records that are not \<open>null\<close>.\<close>

definition keepWithUser :: "calendar_target option list \<Rightarrow> calendar_target list" where
  "keepWithUser items =
     List.map_filter (\<lambda>item. case item of
                          None \<Rightarrow> None
                        | Some r \<Rightarrow> if user_id r = [] then None else Some r) items"

definition parseUserCalendarMapFromJson :: "jsval \<Rightarrow> calendar_target list" where
  "parseUserCalendarMapFromJson parsed =
     (case parsed of
        JArr items \<Rightarrow> keepWithUser (map (\<lambda>item. toCalendarMappingRecord item ''env_map'') items)
      | JObj entries \<Rightarrow>
          keepWithUser
            (map (\<lambda>(userId, calId).
                    toCalendarMappingRecord
                      (JObj [(''user_id'', JStr userId), (''cal_id'', calId), (''source'', JStr ''env_map'')])
                      ''env_map'') entries)
      | _ \<Rightarrow> [])"

text \<open>\<open>indexOf\<close> of a character, \<open>-1\<close> when it does not occur.\<close>

fun index_of :: "char \<Rightarrow> string \<Rightarrow> int" where
  "index_of c [] = - 1"
| "index_of c (x # xs) =
     (if x = c then 0 else (let i = index_of c xs in if i < 0 then - 1 else i + 1))"

text \<open>The callback of \<open>parseUserCalendarMapFromPairs\<close> for one \<open>user:cal\<close> or \<open>user=cal\<close> item.\<close>

definition parsePair :: "string \<Rightarrow> calendar_target option" where
  "parsePair item =
     (let separatorIndex =
            (if CHR '':'' \<in> set item then index_of CHR '':'' item else index_of CHR ''='' item)
      in if separatorIndex \<le> 0 then None
         else (let userId = normalizeText (JStr (take (nat separatorIndex) item));
                   calId = normalizeText (JStr (drop (nat (separatorIndex + 1)) item))
               in toCalendarMappingRecord
                    (JObj [(''user_id'', JStr userId), (''cal_id'', JStr calId), (''source'', JStr ''env_map'')])
                    ''env_map''))"

definition parseUserCalendarMapFromPairs :: "string \<Rightarrow> calendar_target list" where
  "parseUserCalendarMapFromPairs normalizedRaw =
     keepWithUser
       (map parsePair
          (filter (\<lambda>s. s \<noteq> [])
             (map (\<lambda>item. normalizeText (JStr item)) (split_on CHR '','' normalizedRaw))))"

text \<open>
  \<open>mergeCalendarMappingsByUser\<close>. A JavaScript \<open>Map\<close> keeps a key at the position of its
  first insertion and overwrites its value on a later \<open>set\<close>.
\<close>

fun map_set :: "(string \<times> 'v) list \<Rightarrow> string \<Rightarrow> 'v \<Rightarrow> (string \<times> 'v) list" where
  "map_set [] k v = [(k, v)]"
| "map_set ((k', v') # m) k v = (if k' = k then (k, v) # m else (k', v') # map_set m k v)"

text \<open>\<open>normalizeText(row && row.source) || fallback\<close>, the fallback source handed on.\<close>

definition sourceOr :: "jsval \<Rightarrow> string \<Rightarrow> string" where
  "sourceOr row fallback =
     (let s = normalizeText (js_and row (js_get row ''source'')) in if s = [] then fallback else s)"

text \<open>The body of the \<open>forEach\<close> in \<open>mergeCalendarMappingsByUser\<close>.\<close>

definition mergeStep ::
  "(string \<times> calendar_target) list \<Rightarrow> jsval \<Rightarrow> (string \<times> calendar_target) list" where
  "mergeStep merged row =
     (case toCalendarMappingRecord row (sourceOr row ''db'') of
        None \<Rightarrow> merged
      | Some normalized \<Rightarrow>
          if user_id normalized = [] then merged
          else map_set merged (user_id normalized) normalized)"

definition mergeCalendarMappingsByUser :: "jsval list \<Rightarrow> calendar_target list" where
  "mergeCalendarMappingsByUser rows = map snd (foldl mergeStep [] rows)"

text \<open>
  The \<open>forEach\<close> of \<open>deduplicateCalendarTargetsByCalId\<close>, with the set of calendar ids seen
  and the result list built so far.
\<close>

fun dedupEach :: "jsval list \<Rightarrow> string set \<Rightarrow> calendar_target list \<Rightarrow> calendar_target list" where
  "dedupEach [] seenCalIds result = result"
| "dedupEach (target # targets) seenCalIds result =
     (case toCalendarMappingRecord target (sourceOr target ''default'') of
        None \<Rightarrow> dedupEach targets seenCalIds result
      | Some normalized \<Rightarrow>
          if cal_id normalized \<in> seenCalIds then dedupEach targets seenCalIds result
          else dedupEach targets (insert (cal_id normalized) seenCalIds) (result @ [normalized]))"

definition deduplicateCalendarTargetsByCalId :: "jsval list \<Rightarrow> calendar_target list" where
  "deduplicateCalendarTargetsByCalId targets = dedupEach targets {} []"

text \<open>
  \<open>parseUserCalendarMap\<close>. \<open>JSON.parse\<close> is the runtime's: the parameter \<open>jp\<close>, \<open>None\<close> when it
  throws (then the pair syntax is tried).
\<close>

definition parseUserCalendarMap :: "(string \<Rightarrow> jsval option) \<Rightarrow> jsval \<Rightarrow> calendar_target list" where
  "parseUserCalendarMap jp rawValue =
     (let normalizedRaw = normalizeText rawValue
      in if normalizedRaw = [] then []
         else (let firstChar = hd normalizedRaw;
                   parsedRows =
                     (if firstChar = CHR ''{'' \<or> firstChar = CHR ''[''
                      then (case jp normalizedRaw of
                              Some parsed \<Rightarrow> parseUserCalendarMapFromJson parsed
                            | None \<Rightarrow> parseUserCalendarMapFromPairs normalizedRaw)
                      else parseUserCalendarMapFromPairs normalizedRaw)
               in mergeCalendarMappingsByUser (map target_js parsedRows)))"

record sync_options =
  defaultCalId :: jsval
  userCalendarMapRaw :: jsval
  userCalendarRows :: jsval

text \<open>
  \<open>buildSyncCalendarTargets\<close>. \<open>rowsArray\<close> is \<open>Array.isArray(rows) ? rows : []\<close>, and
  \<open>mergedByUser\<close> the local of that name: the configured and the stored rows, merged by user.
\<close>

definition rowsArray :: "jsval \<Rightarrow> jsval list" where
  "rowsArray v = (case v of JArr xs \<Rightarrow> xs | _ \<Rightarrow> [])"

definition mergedByUser :: "(string \<Rightarrow> jsval option) \<Rightarrow> sync_options \<Rightarrow> calendar_target list" where
  "mergedByUser jp options =
     (let envMapRows = parseUserCalendarMap jp (userCalendarMapRaw options);
          dbRows = mergeCalendarMappingsByUser (rowsArray (js_or (userCalendarRows options) (JArr [])))
      in mergeCalendarMappingsByUser (map target_js (envMapRows @ dbRows)))"

definition defaultTarget :: "string \<Rightarrow> calendar_target" where
  "defaultTarget calId = \<lparr> user_id = [], cal_id = calId, source = ''default'' \<rparr>"

definition buildSyncCalendarTargets ::
  "(string \<Rightarrow> jsval option) \<Rightarrow> sync_options \<Rightarrow> calendar_target list" where
  "buildSyncCalendarTargets jp options =
     (let defaultCal = normalizeText (defaultCalId options);
          targets = deduplicateCalendarTargetsByCalId (map target_js (mergedByUser jp options));
          targets2 = (if defaultCal \<noteq> [] then targets @ [defaultTarget defaultCal] else targets)
      in deduplicateCalendarTargetsByCalId (map target_js targets2))"

section \<open>Task service (task.js)\<close>

text \<open>
  What the service reads from outside the repository is gathered in one record: the date
  parser, the clock (\<open>new Date()\<close>), SQLite's \<open>datetime('now')\<close> and
  \<open>datetime(Number(v), 'unixepoch')\<close>, whether the platform call behind
  \<open>wecom.sendTemplateCard\<close> resolves (otherwise it rejects), and the environment variable
  \<open>GLOBAL_VERIFIERS\<close>. The database itself does not fail here.
\<close>

datatype card_heading =
    NewTaskCard
  | OverdueReminderCard
  | DueSoonReminderCard
  | ApprovedCard
  | RejectedCard

text \<open>
  An outbound template card: the recipient, the task it refers to, which of the fixed
  titles it carries and the ids of its buttons. The free text on the card is not modelled.
\<close>

record card =
  touser :: string
  card_task_id :: "string option"
  heading :: card_heading
  buttons :: "string list"

record env =
  date_parse :: "string \<Rightarrow> int option"
  clock_ms :: int
  sql_now :: string
  sql_unixepoch :: "jsval \<Rightarrow> string option"
  card_delivered :: "card \<Rightarrow> bool"
  GLOBAL_VERIFIERS :: jsval

text \<open>
  The state the service works on: the rows of the \<open>tasks\<close> table in rowid order, the last
  id the table handed out, and the cards the platform has accepted.
\<close>

record world =
  tasks :: "task list"
  last_id :: int
  outbox :: "card list"

datatype task_error =
    TASK_NOT_FOUND
  | TASK_COMPLETE_FORBIDDEN
  | TASK_VERIFY_FORBIDDEN
  | TASK_STATUS_CONFLICT

text \<open>\<open>runSql\<close> for an UPDATE: the rows the WHERE clause selects are rewritten, and
  \<open>changes\<close> is their number.\<close>

definition runUpdate :: "(task \<Rightarrow> bool) \<Rightarrow> (task \<Rightarrow> task) \<Rightarrow> world \<Rightarrow> world \<times> nat" where
  "runUpdate whereClause setClause w =
     (w\<lparr> tasks := map (\<lambda>t. if whereClause t then setClause t else t) (tasks w) \<rparr>,
      length (filter whereClause (tasks w)))"

definition getGlobalVerifiers :: "env \<Rightarrow> string list" where
  "getGlobalVerifiers e = parseGlobalVerifiers (js_or (GLOBAL_VERIFIERS e) (JStr []))"

definition getTaskByScheduleId :: "world \<Rightarrow> string \<Rightarrow> task option" where
  "getTaskByScheduleId w wecomScheduleId =
     find (\<lambda>t. wecom_schedule_id t = Some wecomScheduleId) (tasks w)"

definition listPendingTasks :: "world \<Rightarrow> task list" where
  "listPendingTasks w = filter (\<lambda>t. status t = Some TASK_STATUS_PENDING) (tasks w)"

text \<open>
  \<open>sendExecutorActionCard\<close>: returns without sending when the executor id is blank;
  otherwise the card goes out. \<open>None\<close> is the rejected promise.
\<close>

definition sendExecutorActionCard ::
  "env \<Rightarrow> world \<Rightarrow> task \<Rightarrow> card_heading \<Rightarrow> string list \<Rightarrow> world option" where
  "sendExecutorActionCard e w t cardTitle cardButtons =
     (let recipient = normalizeText (col (executor_userid t))
      in if recipient = [] then Some w
         else (let c = \<lparr> touser = recipient, card_task_id = wecom_schedule_id t,
                          heading = cardTitle, buttons = cardButtons \<rparr>
               in if card_delivered e c then Some (w\<lparr> outbox := outbox w @ [c] \<rparr>) else None))"

definition sendVerificationResultCard :: "env \<Rightarrow> world \<Rightarrow> task \<Rightarrow> bool \<Rightarrow> world option" where
  "sendVerificationResultCard e w t isApproved =
     sendExecutorActionCard e w t
       (if isApproved then ApprovedCard else RejectedCard)
       (if isApproved then [] else [''ACTION_COMPLETE''])"

definition ensureTaskForVerify :: "env \<Rightarrow> task option \<Rightarrow> jsval \<Rightarrow> task_error option" where
  "ensureTaskForVerify e task userId =
     (case task of
        None \<Rightarrow> Some TASK_NOT_FOUND
      | Some t \<Rightarrow>
          if \<not> canUserVerifyTask (Some t) userId (map JStr (getGlobalVerifiers e))
          then Some TASK_VERIFY_FORBIDDEN else None)"

text \<open>The default reject reason, the UTF-8 bytes of the source's literal.\<close>

definition DEFAULT_REJECT_REASON :: string where
  "DEFAULT_REJECT_REASON =
     [CHR 0xE9, CHR 0xA2, CHR 0x86, CHR 0xE5, CHR 0xAF, CHR 0xBC,
      CHR 0xE9, CHR 0xA9, CHR 0xB3, CHR 0xE5, CHR 0x9B, CHR 0x9E]"

text \<open>
  The UPDATE of \<open>verifyTask\<close>: \<open>COALESCE(redo_count, 0)\<close>, its WHERE clause and its SET
  clause for the two decisions.
\<close>

definition coalesce0 :: "int option \<Rightarrow> int" where
  "coalesce0 v = (case v of None \<Rightarrow> 0 | Some n \<Rightarrow> n)"

definition verifyWhere :: "string \<Rightarrow> task \<Rightarrow> bool" where
  "verifyWhere wecomScheduleId t =
     (wecom_schedule_id t = Some wecomScheduleId \<and> status t = Some TASK_STATUS_WAITING_VERIFY)"

definition verifySet :: "env \<Rightarrow> jsval \<Rightarrow> bool \<Rightarrow> string \<Rightarrow> task \<Rightarrow> task" where
  "verifySet e managerId isApproved normalizedReason t =
     (if isApproved
      then t\<lparr> status := Some TASK_STATUS_COMPLETED,
              verify_time := Some (sql_now e),
              verified_by_userid := Some (normalizeText managerId),
              reject_reason := None,
              updated_at := Some (sql_now e) \<rparr>
      else t\<lparr> status := Some TASK_STATUS_PENDING,
              verify_time := Some (sql_now e),
              verified_by_userid := Some (normalizeText managerId),
              reject_reason := Some normalizedReason,
              redo_count := Some (coalesce0 (redo_count t) + 1),
              updated_at := Some (sql_now e) \<rparr>)"

datatype verify_message = MsgApproved | MsgRejected

record verify_result =
  vr_message :: verify_message
  vr_task :: "task option"

text \<open>
  \<open>verifyTask\<close> awaits the read of the task, then checks the permission on the row it
  read, then issues the conditional UPDATE. Other requests can run between the read and
  the UPDATE, so the part after the read is a function of the row read (\<open>task\<close>) and of the
  store the UPDATE meets (\<open>w\<close>); \<open>verifyTask\<close> itself is the run with nothing in between.
\<close>

definition verifyTaskAfterRead ::
  "env \<Rightarrow> task option \<Rightarrow> world \<Rightarrow> string \<Rightarrow> jsval \<Rightarrow> bool \<Rightarrow> jsval
     \<Rightarrow> task_error + (world \<times> verify_result)" where
  "verifyTaskAfterRead e task w wecomScheduleId managerId isApproved rejectReason =
     (case ensureTaskForVerify e task managerId of
        Some err \<Rightarrow> Inl err
      | None \<Rightarrow>
          (let normalizedReason =
                 (if normalizeText rejectReason = [] then DEFAULT_REJECT_REASON
                  else normalizeText rejectReason);
               updateResult =
                 runUpdate (verifyWhere wecomScheduleId)
                   (verifySet e managerId isApproved normalizedReason) w
           in if snd updateResult = 0 then Inl TASK_STATUS_CONFLICT
              else (let w1 = fst updateResult;
                        updatedTask = getTaskByScheduleId w1 wecomScheduleId;
                        w2 = (case updatedTask of
                                None \<Rightarrow> w1
                              | Some t \<Rightarrow>
                                  (case sendVerificationResultCard e w1 t isApproved of
                                     None \<Rightarrow> w1
                                   | Some w' \<Rightarrow> w'))
                    in Inr (w2, \<lparr> vr_message = (if isApproved then MsgApproved else MsgRejected),
                                  vr_task = updatedTask \<rparr>))))"

definition verifyTask ::
  "env \<Rightarrow> world \<Rightarrow> string \<Rightarrow> jsval \<Rightarrow> bool \<Rightarrow> jsval \<Rightarrow> task_error + (world \<times> verify_result)" where
  "verifyTask e w wecomScheduleId managerId isApproved rejectReason =
     verifyTaskAfterRead e (getTaskByScheduleId w wecomScheduleId) w
       wecomScheduleId managerId isApproved rejectReason"

text \<open>
  \<open>pickExecutor\<close>. \<open>organizerOf\<close> is the expression the source writes twice, for the
  organizer here and for \<open>creator_userid\<close> in \<open>syncScheduleTask\<close>; \<open>attendeesOf\<close> the
  attendee array under either property name; \<open>attendeeId\<close> the callback of the \<open>map\<close>.
  \<open>find\<close> gives \<open>undefined\<close> (\<open>None\<close>) or a string, as does indexing the first element;
  \<open>a || b\<close> on such a value takes \<open>b\<close> when \<open>a\<close> is \<open>undefined\<close> or empty.
  The function starts by reading \<open>schedule.organizer\<close>, which throws when the schedule is
  \<open>undefined\<close> or \<open>null\<close>; \<open>executorOf\<close> is the function past that read.
\<close>

definition organizerOf :: "jsval \<Rightarrow> string" where
  "organizerOf schedule =
     normalizeText
       (js_or (js_or (js_and (js_get schedule ''organizer'')
                             (js_get (js_get schedule ''organizer'') ''userid''))
                     (js_get schedule ''organizer''))
              (js_get schedule ''creator_userid''))"

definition attendeesOf :: "jsval \<Rightarrow> jsval list" where
  "attendeesOf schedule =
     (case js_get schedule ''attendees'' of
        JArr xs \<Rightarrow> xs
      | _ \<Rightarrow> (case js_get schedule ''attendee'' of JArr ys \<Rightarrow> ys | _ \<Rightarrow> []))"

definition attendeeId :: "jsval \<Rightarrow> string" where
  "attendeeId item = normalizeText (js_or (js_and item (js_get item ''userid'')) item)"

definition str_or :: "string option \<Rightarrow> string option \<Rightarrow> string option" where
  "str_or a b = (case a of None \<Rightarrow> b | Some s \<Rightarrow> if s = [] then b else Some s)"

definition first_elem :: "'a list \<Rightarrow> 'a option" where
  "first_elem xs = (case xs of [] \<Rightarrow> None | x # _ \<Rightarrow> Some x)"

definition executorOf :: "jsval \<Rightarrow> string" where
  "executorOf schedule =
     (let organizer = organizerOf schedule;
          attendees = attendeesOf schedule;
          attendeeUserIds = filter (\<lambda>s. s \<noteq> []) (map attendeeId attendees);
          primaryAttendee = find (\<lambda>item. item \<noteq> organizer) attendeeUserIds
      in case str_or (str_or primaryAttendee (first_elem attendeeUserIds)) (Some organizer) of
           Some s \<Rightarrow> s
         | None \<Rightarrow> [])"

definition pickExecutor :: "jsval \<Rightarrow> js_error + string" where
  "pickExecutor schedule =
     (if schedule = JUndefined \<or> schedule = JNull then Inl TypeError
      else Inr (executorOf schedule))"

text \<open>The default title, the UTF-8 bytes of the source's literal.\<close>

definition DEFAULT_TITLE :: string where
  "DEFAULT_TITLE =
     [CHR 0xE6, CHR 0x9C, CHR 0xAA, CHR 0xE5, CHR 0x91, CHR 0xBD, CHR 0xE5, CHR 0x90, CHR 0x8D,
      CHR 0xE4, CHR 0xBB, CHR 0xBB, CHR 0xE5, CHR 0x8A, CHR 0xA1]"

text \<open>
  \<open>syncScheduleTask\<close>. The calendar context is an object with the properties \<open>user_id\<close> and
  \<open>cal_id\<close>, either of which may be \<open>undefined\<close>; \<open>taskPayload\<close> is built as in the
  source, the start and end time kept as the values \<open>schedule.start_time || 0\<close> and
  \<open>schedule.end_time || 0\<close> that the INSERT and the UPDATE hand to SQLite. The payload is
  built only past the check of the schedule id, and a schedule that is \<open>undefined\<close> or
  \<open>null\<close> has none: \<open>pickExecutor\<close> cannot throw there, and its result is \<open>executorOf\<close>.
\<close>

record calendar_context =
  ctx_user_id :: jsval
  ctx_cal_id :: jsval

record task_payload =
  p_wecom_schedule_id :: string
  p_title :: string
  p_description :: string
  p_creator_userid :: string
  p_executor_userid :: string
  p_owner_userid :: string
  p_start_time :: jsval
  p_end_time :: jsval
  p_owner_cal_id :: string

definition buildTaskPayload :: "string \<Rightarrow> jsval \<Rightarrow> calendar_context \<Rightarrow> task_payload" where
  "buildTaskPayload scheduleId schedule calendarContext =
     (let executorUserId = executorOf schedule
      in \<lparr> p_wecom_schedule_id = scheduleId,
           p_title = (if normalizeText (js_get schedule ''summary'') = [] then DEFAULT_TITLE
                      else normalizeText (js_get schedule ''summary'')),
           p_description = normalizeText (js_get schedule ''description''),
           p_creator_userid = organizerOf schedule,
           p_executor_userid = executorUserId,
           p_owner_userid = (if normalizeText (ctx_user_id calendarContext) = [] then executorUserId
                             else normalizeText (ctx_user_id calendarContext)),
           p_start_time = js_or (js_get schedule ''start_time'') (JNum 0),
           p_end_time = js_or (js_get schedule ''end_time'') (JNum 0),
           p_owner_cal_id =
             normalizeText (js_or (js_or (js_get schedule ''cal_id'') (js_get schedule ''calendar_id''))
                                  (ctx_cal_id calendarContext)) \<rparr>)"

record sync_result =
  inserted :: bool
  updated :: bool
  skipped :: bool
  reason :: "string option"
  result_task :: "task option"

definition skipResult :: "string \<Rightarrow> sync_result" where
  "skipResult why =
     \<lparr> inserted = False, updated = False, skipped = True, reason = Some why, result_task = None \<rparr>"

text \<open>The INSERT: the columns it names, the table's defaults for the others.\<close>

definition insertedRow :: "env \<Rightarrow> int \<Rightarrow> task_payload \<Rightarrow> task" where
  "insertedRow e newId p =
     \<lparr> id_col = newId,
       wecom_schedule_id = Some (p_wecom_schedule_id p),
       title = Some (p_title p),
       description = Some (p_description p),
       creator_userid = Some (p_creator_userid p),
       executor_userid = Some (p_executor_userid p),
       owner_userid = Some (p_owner_userid p),
       owner_cal_id = Some (p_owner_cal_id p),
       start_time = sql_unixepoch e (p_start_time p),
       end_time = sql_unixepoch e (p_end_time p),
       status = Some TASK_STATUS_PENDING,
       completion_time = None,
       verify_time = None,
       reject_reason = None,
       redo_count = Some 0,
       last_reminder_at = None,
       last_reminder_kind = None,
       completed_by_userid = None,
       verified_by_userid = None,
       updated_at = Some (sql_now e),
       created_at = Some (sql_now e) \<rparr>"

text \<open>The row gets the next id of the table.\<close>

definition runInsert :: "env \<Rightarrow> task_payload \<Rightarrow> world \<Rightarrow> world" where
  "runInsert e p w =
     w\<lparr> tasks := tasks w @ [insertedRow e (last_id w + 1) p], last_id := last_id w + 1 \<rparr>"

text \<open>The SET clause of the UPDATE in \<open>syncScheduleTask\<close>.\<close>

definition syncSet :: "env \<Rightarrow> task_payload \<Rightarrow> task \<Rightarrow> task" where
  "syncSet e p t =
     t\<lparr> title := Some (p_title p),
        description := Some (p_description p),
        creator_userid := Some (p_creator_userid p),
        executor_userid := Some (p_executor_userid p),
        owner_userid := Some (p_owner_userid p),
        owner_cal_id := Some (p_owner_cal_id p),
        start_time := sql_unixepoch e (p_start_time p),
        end_time := sql_unixepoch e (p_end_time p),
        updated_at := Some (sql_now e) \<rparr>"

definition syncScheduleTask ::
  "env \<Rightarrow> world \<Rightarrow> jsval \<Rightarrow> calendar_context \<Rightarrow> world \<times> sync_result" where
  "syncScheduleTask e w schedule calendarContext =
     (let scheduleId = normalizeText (js_and schedule (js_get schedule ''schedule_id''))
      in if scheduleId = [] then (w, skipResult ''missing_schedule_id'')
         else (let taskPayload = buildTaskPayload scheduleId schedule calendarContext
               in if p_creator_userid taskPayload = [] \<or> p_executor_userid taskPayload = []
                  then (w, skipResult ''missing_creator_or_executor'')
                  else (case getTaskByScheduleId w scheduleId of
                          None \<Rightarrow>
                            (let w1 = runInsert e taskPayload w;
                                 insertedTask = getTaskByScheduleId w1 scheduleId;
                                 w2 = (case insertedTask of
                                         None \<Rightarrow> w1
                                       | Some t \<Rightarrow>
                                           (case sendExecutorActionCard e w1 t NewTaskCard
                                                   [''ACTION_COMPLETE''] of
                                              None \<Rightarrow> w1
                                            | Some w' \<Rightarrow> w'))
                             in (w2, \<lparr> inserted = True, updated = False, skipped = False,
                                       reason = None, result_task = insertedTask \<rparr>))
                        | Some existedTask \<Rightarrow>
                            (let w1 = fst (runUpdate (\<lambda>t. wecom_schedule_id t = Some scheduleId)
                                             (syncSet e taskPayload) w);
                                 updatedTask = getTaskByScheduleId w1 scheduleId
                             in (w1, \<lparr> inserted = False, updated = True, skipped = False,
                                       reason = None, result_task = updatedTask \<rparr>)))))"

text \<open>
  \<open>dispatchTaskReminder\<close>. Both lifecycle calls read the clock through their default
  argument; the two reads are the same instant here. A rejected send is caught and
  logged, and then nothing is stamped.
\<close>

record reminder_result =
  sent :: bool
  kind :: string

definition reminderSet :: "env \<Rightarrow> string \<Rightarrow> task \<Rightarrow> task" where
  "reminderSet e reminderKind t =
     t\<lparr> last_reminder_at := Some (sql_now e),
        last_reminder_kind := Some reminderKind,
        updated_at := Some (sql_now e) \<rparr>"

definition dispatchTaskReminder :: "env \<Rightarrow> world \<Rightarrow> task \<Rightarrow> world \<times> reminder_result" where
  "dispatchTaskReminder e w t =
     (let reminderKind = getReminderKind (date_parse e) (Some t) (clock_ms e)
      in if \<not> shouldSendReminder (date_parse e) (Some t) reminderKind (clock_ms e) 12
         then (w, \<lparr> sent = False, kind = reminderKind \<rparr>)
         else (case sendExecutorActionCard e w t
                      (if reminderKind = REMINDER_KIND_OVERDUE then OverdueReminderCard
                       else DueSoonReminderCard)
                      [''ACTION_COMPLETE''] of
                 None \<Rightarrow> (w, \<lparr> sent = False, kind = reminderKind \<rparr>)
               | Some w1 \<Rightarrow>
                   (fst (runUpdate (\<lambda>r. id_col r = id_col t) (reminderSet e reminderKind) w1),
                    \<lparr> sent = True, kind = reminderKind \<rparr>)))"

section \<open>Rules as the specification words them\<close>

text \<open>
  The executor rule, word for word: the first listed attendee whose normalized id
  differs from the organizer's, else the first attendee, else the organizer.
\<close>

definition specExecutor :: "jsval \<Rightarrow> string" where
  "specExecutor schedule =
     (case find (\<lambda>a. attendeeId a \<noteq> organizerOf schedule) (attendeesOf schedule) of
        Some a \<Rightarrow> attendeeId a
      | None \<Rightarrow> (case attendeesOf schedule of a # _ \<Rightarrow> attendeeId a | [] \<Rightarrow> organizerOf schedule))"

text \<open>
  Deduplication by calendar id, keeping the entry met first: an entry stays, and every
  later entry with its calendar id goes.
\<close>

fun keepFirstByCal :: "calendar_target list \<Rightarrow> calendar_target list" where
  "keepFirstByCal [] = []"
| "keepFirstByCal (x # xs) = x # keepFirstByCal (filter (\<lambda>y. cal_id y \<noteq> cal_id x) xs)"

text \<open>
  The on-time rule, word for word: the completion timestamp, or the verify timestamp when
  the completion timestamp is absent (NULL or empty), is at most the end time. A timestamp
  that does not parse is at most nothing.
\<close>

definition specOnTime :: "(string \<Rightarrow> int option) \<Rightarrow> task \<Rightarrow> bool" where
  "specOnTime pd r =
     (let stamp = (if completion_time r = None \<or> completion_time r = Some [] then verify_time r
                   else completion_time r)
      in case toDateOrNull pd (col stamp) of
           None \<Rightarrow> False
         | Some completed \<Rightarrow>
             (case toDateOrNull pd (col (end_time r)) of
                None \<Rightarrow> False
              | Some ended \<Rightarrow> completed \<le> ended))"

text \<open>
  Rounded to two decimals, as \<open>round2\<close> is commonly read: the nearest multiple of 1/100,
  a tie going up.
\<close>

definition round2 :: "rat \<Rightarrow> rat" where
  "round2 x = of_int \<lfloor>x * 100 + 1 / 2\<rfloor> / 100"

section \<open>Records in normal form\<close>

text \<open>
  A mapping record in normal form, as \<open>toCalendarMappingRecord\<close> produces it: its fields
  are trimmed, and the calendar id and the source are not empty.
\<close>

definition normalTarget :: "calendar_target \<Rightarrow> bool" where
  "normalTarget r =
     (trim (user_id r) = user_id r \<and> trim (cal_id r) = cal_id r \<and> cal_id r \<noteq> []
      \<and> trim (source r) = source r \<and> source r \<noteq> [])"

section \<open>Plain ids\<close>

text \<open>
  An id written with letters, digits and the characters \<open>_\<close>, \<open>-\<close>, \<open>.\<close> and \<open>@\<close> only, at least
  one of them.
\<close>

definition id_char :: "char \<Rightarrow> bool" where
  "id_char c = (c \<in> set ''abcdefghijklmnopqrstuvwxyzABCDEFGHIJKLMNOPQRSTUVWXYZ0123456789_-.@'')"

definition idText :: "string \<Rightarrow> bool" where
  "idText s = (s \<noteq> [] \<and> list_all id_char s)"

section \<open>Sample data\<close>

text \<open>
  Concrete values for the scenarios below: a row with every column NULL, and an
  environment with a given date parser and clock in which every card is delivered.
\<close>

definition blankRow :: task where
  "blankRow =
     \<lparr> id_col = 1, wecom_schedule_id = None, title = None, description = None,
       creator_userid = None, executor_userid = None, owner_userid = None, owner_cal_id = None,
       start_time = None, end_time = None, status = None, completion_time = None,
       verify_time = None, reject_reason = None, redo_count = None, last_reminder_at = None,
       last_reminder_kind = None, completed_by_userid = None, verified_by_userid = None,
       updated_at = None, created_at = None \<rparr>"

definition fixedEnv :: "(string \<Rightarrow> int option) \<Rightarrow> int \<Rightarrow> env" where
  "fixedEnv pd now =
     \<lparr> date_parse = pd, clock_ms = now, sql_now = ''2026-02-12 12:00:00'',
       sql_unixepoch = (\<lambda>v. Some (js_String v)), card_delivered = (\<lambda>c. True),
       GLOBAL_VERIFIERS = JStr ''leader-x'' \<rparr>"

definition emptyWorld :: world where
  "emptyWorld = \<lparr> tasks = [], last_id = 0, outbox = [] \<rparr>"

definition noContext :: calendar_context where
  "noContext = \<lparr> ctx_user_id = JUndefined, ctx_cal_id = JUndefined \<rparr>"

definition noDates :: "string \<Rightarrow> int option" where
  "noDates s = None"

text \<open>A schedule payload organised by \<open>mgr\<close> with the given attendee entries.\<close>

definition mgrSchedule :: "jsval list \<Rightarrow> jsval" where
  "mgrSchedule attendees =
     JObj [(''schedule_id'', JStr ''s-1''), (''organizer'', JStr ''mgr''), (''attendees'', JArr attendees)]"

text \<open>A schedule payload that names no organizer, with one attendee.\<close>

definition orphanSchedule :: jsval where
  "orphanSchedule = JObj [(''schedule_id'', JStr ''s-2''), (''attendees'', JArr [JStr ''exec1''])]"

text \<open>A date parser that knows the texts \<open>T0\<close> (the epoch) and \<open>T1\<close>, \<open>T2\<close>, \<open>T11\<close> (1, 2 and 11
  hours later).\<close>

definition epochDates :: "string \<Rightarrow> int option" where
  "epochDates s =
     (if s = ''T0'' then Some 0
      else if s = ''T1'' then Some 3600000
      else if s = ''T2'' then Some 7200000
      else if s = ''T11'' then Some 39600000
      else None)"

text \<open>
  A task waiting for verification, created by \<open>manager-a\<close> and executed by \<open>executor-a\<close>,
  that has been sent back twice already.
\<close>

definition waitingRow :: task where
  "waitingRow =
     blankRow\<lparr> wecom_schedule_id := Some ''s-1'', creator_userid := Some ''manager-a'',
               executor_userid := Some ''executor-a'', status := Some ''WAITING_VERIFY'',
               redo_count := Some 2 \<rparr>"

definition waitingWorld :: world where
  "waitingWorld = \<lparr> tasks = [waitingRow], last_id = 1, outbox = [] \<rparr>"

text \<open>A pending task that ended at the epoch and has no executor.\<close>

definition unassignedRow :: task where
  "unassignedRow = blankRow\<lparr> status := Some ''PENDING'', end_time := Some ''T0'' \<rparr>"

definition unassignedWorld :: world where
  "unassignedWorld = \<lparr> tasks = [unassignedRow], last_id = 1, outbox = [] \<rparr>"

text \<open>A table of 160 tasks, 23 of them completed, none with a date.\<close>

definition tieTable :: "task list" where
  "tieTable =
     replicate 23 (blankRow\<lparr> status := Some ''COMPLETED'' \<rparr>)
     @ replicate 137 (blankRow\<lparr> status := Some ''PENDING'' \<rparr>)"

text \<open>The environment ten minutes later.\<close>

definition laterEnv :: env where
  "laterEnv = (fixedEnv noDates 600000)\<lparr> sql_now := ''2026-02-12 12:10:00'' \<rparr>"

text \<open>
  The schedule \<open>s-1\<close> of organizer \<open>mgr\<close> with the attendees \<open>mgr\<close> and \<open>exec1\<close>, and the store
  after its first reconciliation into an empty store.
\<close>

definition exec1Schedule :: jsval where
  "exec1Schedule = mgrSchedule [JStr ''mgr'', JStr ''exec1'']"

definition syncedWorld :: world where
  "syncedWorld = fst (syncScheduleTask (fixedEnv noDates 0) emptyWorld exec1Schedule noContext)"

text \<open>
  A configuration in which \<open>JSON.parse\<close> is never reached or always throws, with the users
  \<open>A\<close> and \<open>B\<close> mapped to calendar \<open>X\<close>, two stored mappings, and a default calendar
  that one of the stored mappings covers already.
\<close>

definition noJson :: "string \<Rightarrow> jsval option" where
  "noJson s = None"

text \<open>
  What \<open>JSON.parse\<close> makes of two configuration texts, an object and an array that map
  \<open>zhang\<close> and \<open>li\<close> to calendar \<open>X\<close>; it throws on every other text.
\<close>

definition objectText :: string where
  "objectText = ''{\"zhang\":\"X\",\"li\":\"X\"}''"

definition arrayText :: string where
  "arrayText = ''[{\"user_id\":\"zhang\",\"cal_id\":\"X\"},{\"user_id\":\"li\",\"cal_id\":\"X\"}]''"

definition sampleJson :: "string \<Rightarrow> jsval option" where
  "sampleJson s =
     (if s = objectText then Some (JObj [(''zhang'', JStr ''X''), (''li'', JStr ''X'')])
      else if s = arrayText
      then Some (JArr [JObj [(''user_id'', JStr ''zhang''), (''cal_id'', JStr ''X'')],
                       JObj [(''user_id'', JStr ''li''), (''cal_id'', JStr ''X'')]])
      else None)"

text \<open>Stored mappings under each of the property names that the resolver reads.\<close>

definition aliasOptions :: sync_options where
  "aliasOptions =
     \<lparr> defaultCalId = JStr ''c2'',
       userCalendarMapRaw = JUndefined,
       userCalendarRows =
         JArr [JObj [(''userid'', JStr ''u1''), (''calId'', JStr ''c1'')],
               JObj [(''userId'', JStr ''u2''), (''calendar_id'', JStr ''c2'')],
               JObj [(''user'', JStr ''u3''), (''calendarId'', JStr ''c3'')],
               JObj [(''organizer'', JStr ''u4''), (''cal_id'', JStr ''c1''), (''source'', JStr ''manual'')],
               JObj [(''user_id'', JStr ''u5''), (''cal_id'', JStr ''c5''), (''source'', JStr ''manual'')]] \<rparr>"

definition sampleOptions :: sync_options where
  "sampleOptions =
     \<lparr> defaultCalId = JStr ''cal-a'',
       userCalendarMapRaw = JStr ''A:X,B:X'',
       userCalendarRows =
         JArr [JObj [(''user_id'', JStr ''zhangsan''), (''cal_id'', JStr ''cal-a''), (''source'', JStr ''db'')],
               JObj [(''user_id'', JStr ''lisi''), (''cal_id'', JStr ''cal-b''), (''source'', JStr ''db'')]] \<rparr>"

section \<open>Facts about the lifecycle rules\<close>

lemma canUserCompleteTask_status:
  "canUserCompleteTask (Some t) u \<Longrightarrow> normalizeText (col (status t)) = TASK_STATUS_PENDING"
  by (simp add: canUserCompleteTask_def Let_def)

lemma canUserVerifyTask_status:
  "canUserVerifyTask (Some t) u gv \<Longrightarrow> normalizeText (col (status t)) = TASK_STATUS_WAITING_VERIFY"
  by (simp add: canUserVerifyTask_def Let_def split: if_splits)

lemma pending_not_waiting: "TASK_STATUS_PENDING \<noteq> TASK_STATUS_WAITING_VERIFY"
  by (simp add: TASK_STATUS_PENDING_def TASK_STATUS_WAITING_VERIFY_def)

lemma getReminderKind_none:
  "normalizeText (col (status t)) \<noteq> TASK_STATUS_PENDING \<or> toDateOrNull pd (col (end_time t)) = None
   \<Longrightarrow> getReminderKind pd (Some t) now = REMINDER_KIND_NONE"
  by (auto simp: getReminderKind_def)

lemma shouldSendReminder_none: "\<not> shouldSendReminder pd task REMINDER_KIND_NONE now hours"
  by (simp add: shouldSendReminder_def split: option.splits)

section \<open>Facts about \<open>trim\<close>\<close>

lemma strip_start_none: "find (starts_with s) ws = None \<Longrightarrow> strip_start ws s = s"
  by (subst strip_start.simps) simp

lemma strip_start_Nil: "strip_start ws [] = []"
  by (rule strip_start_none) (simp add: find_None_iff starts_with_def)

lemma strip_start_clean: "find (starts_with (strip_start ws s)) ws = None"
proof (induction ws s rule: strip_start.induct)
  case (1 ws s)
  show ?case
  proof (cases "find (starts_with s) ws")
    case None
    then show ?thesis by (simp add: strip_start_none)
  next
    case (Some w)
    then have "strip_start ws s = strip_start ws (drop (length w) s)"
      by (subst strip_start.simps) simp
    with 1 Some show ?thesis by simp
  qed
qed

lemma strip_start_suffix: "\<exists>p. s = p @ strip_start ws s"
proof (induction ws s rule: strip_start.induct)
  case (1 ws s)
  show ?case
  proof (cases "find (starts_with s) ws")
    case None
    then show ?thesis by (simp add: strip_start_none)
  next
    case (Some w)
    then have eq: "strip_start ws s = strip_start ws (drop (length w) s)"
      by (subst strip_start.simps) simp
    from 1 Some obtain p where "drop (length w) s = p @ strip_start ws (drop (length w) s)" by blast
    then have "s = (take (length w) s @ p) @ strip_start ws s"
      using eq by (metis append_assoc append_take_drop_id)
    then show ?thesis by blast
  qed
qed

lemma starts_with_append: "starts_with b w \<Longrightarrow> starts_with (b @ x) w"
  by (auto simp: starts_with_def)
     (metis append_eq_conv_conj append_take_drop_id length_take min.absorb2 nat_le_linear take_all)

lemma trim_Nil: "trim [] = []"
  by (simp add: trim_def strip_start_Nil)

lemma trim_idem: "trim (trim s) = trim s"
proof -
  let ?a = "strip_start white_space s"
  let ?rb = "strip_start (map rev white_space) (rev ?a)"
  have b: "trim s = rev ?rb" by (simp add: trim_def)
  obtain p where p: "rev ?a = p @ ?rb" using strip_start_suffix by blast
  then have a: "?a = trim s @ rev p" using b by (metis rev_append rev_rev_ident)
  have "find (starts_with ?a) white_space = None" by (rule strip_start_clean)
  then have "find (starts_with (trim s)) white_space = None"
    unfolding a by (auto simp: find_None_iff dest: starts_with_append)
  then have "strip_start white_space (trim s) = trim s" by (rule strip_start_none)
  moreover have "strip_start (map rev white_space) ?rb = ?rb"
    by (rule strip_start_none) (rule strip_start_clean)
  ultimately show ?thesis by (simp add: trim_def)
qed

text \<open>A string that begins and ends with a byte no white space begins or ends with is trimmed.\<close>

lemma trim_plain:
  assumes "s \<noteq> []"
    and "hd s \<notin> {CHR 0x09, CHR 0x0A, CHR 0x0B, CHR 0x0C, CHR 0x0D, CHR 0x20,
                  CHR 0xC2, CHR 0xE1, CHR 0xE2, CHR 0xE3, CHR 0xEF}"
    and "last s \<notin> {CHR 0x09, CHR 0x0A, CHR 0x0B, CHR 0x0C, CHR 0x0D, CHR 0x20, CHR 0xA0,
                  CHR 0x80, CHR 0x81, CHR 0x82, CHR 0x83, CHR 0x84, CHR 0x85, CHR 0x86, CHR 0x87,
                  CHR 0x88, CHR 0x89, CHR 0x8A, CHR 0xA8, CHR 0xA9, CHR 0xAF, CHR 0x9F, CHR 0xBF}"
  shows "trim s = s"
proof -
  have h: "\<And>w. starts_with s w \<Longrightarrow> hd w = hd s"
    using assms(1) by (auto simp: starts_with_def) (metis hd_take length_greater_0_conv)
  have "find (starts_with s) white_space = None"
    using assms(2) by (auto simp: find_None_iff white_space_def dest!: h)
  then have a: "strip_start white_space s = s" by (rule strip_start_none)
  have h2: "\<And>w. starts_with (rev s) w \<Longrightarrow> hd w = last s"
    using assms(1)
    by (auto simp: starts_with_def) (metis hd_rev hd_take length_greater_0_conv rev_is_Nil_conv)
  have "find (starts_with (rev s)) (map rev white_space) = None"
    using assms(3) by (auto simp: find_None_iff white_space_def dest!: h2)
  then have "strip_start (map rev white_space) (rev s) = rev s" by (rule strip_start_none)
  with a show ?thesis by (simp add: trim_def)
qed

text \<open>Strings of white space only.\<close>

lemma trim_blank:
  "trim '' '' = []"
  "trim [CHR 0xC2, CHR 0xA0] = []"
  "trim [CHR 0xE3, CHR 0x80, CHR 0x80] = []"
  by code_simp+

section \<open>Facts about lists\<close>

lemma find_filter: "find P (filter Q xs) = find (\<lambda>x. Q x \<and> P x) xs"
  by (induction xs) auto

lemma first_elem_filter: "first_elem (filter Q xs) = find Q xs"
  by (induction xs) (auto simp: first_elem_def)

lemma length_filter_conj_le: "length (filter (\<lambda>x. P x \<and> Q x) xs) \<le> length (filter P xs)"
  by (induction xs) auto

lemma find_SomeD: "find P xs = Some x \<Longrightarrow> P x \<and> x \<in> set xs"
  by (induction xs) (auto split: if_splits)

lemma find_append_case:
  "find P (xs @ ys) = (case find P xs of Some x \<Rightarrow> Some x | None \<Rightarrow> find P ys)"
  by (induction xs) auto

section \<open>Facts about the reconciliation\<close>

lemma executorOf_cases:
  "executorOf schedule =
     (case find (\<lambda>u. u \<noteq> [] \<and> u \<noteq> organizerOf schedule) (map attendeeId (attendeesOf schedule)) of
        Some u \<Rightarrow> u
      | None \<Rightarrow>
          (case find (\<lambda>u. u \<noteq> []) (map attendeeId (attendeesOf schedule)) of
             Some u \<Rightarrow> u
           | None \<Rightarrow> organizerOf schedule))"
proof -
  let ?ids = "map attendeeId (attendeesOf schedule)"
  let ?org = "organizerOf schedule"
  have unfold: "executorOf schedule =
      (case str_or (str_or (find (\<lambda>u. u \<noteq> [] \<and> u \<noteq> ?org) ?ids) (find (\<lambda>u. u \<noteq> []) ?ids)) (Some ?org) of
         Some s \<Rightarrow> s | None \<Rightarrow> [])"
    by (simp add: executorOf_def Let_def find_filter first_elem_filter)
  show ?thesis
  proof (cases "find (\<lambda>u. u \<noteq> [] \<and> u \<noteq> ?org) ?ids")
    case None
    show ?thesis
    proof (cases "find (\<lambda>u. u \<noteq> []) ?ids")
      case n2: None
      with None unfold show ?thesis by (simp add: str_or_def)
    next
      case (Some v)
      then have "v \<noteq> []" by (auto dest: find_SomeD)
      with None Some unfold show ?thesis by (simp add: str_or_def)
    qed
  next
    case (Some u)
    then have "u \<noteq> []" by (auto dest: find_SomeD)
    with Some unfold show ?thesis by (simp add: str_or_def)
  qed
qed

lemma executorOf_empty: "executorOf schedule = [] \<Longrightarrow> organizerOf schedule = []"
  by (auto simp: executorOf_cases split: option.splits dest: find_SomeD)

lemma schedule_with_id:
  "normalizeText (js_and schedule (js_get schedule ''schedule_id'')) \<noteq> []
   \<Longrightarrow> schedule \<noteq> JUndefined \<and> schedule \<noteq> JNull"
  by (auto simp: js_and_def)

lemma pickExecutor_with_id:
  "normalizeText (js_and schedule (js_get schedule ''schedule_id'')) \<noteq> []
   \<Longrightarrow> pickExecutor schedule = Inr (executorOf schedule)"
  using schedule_with_id[of schedule] by (simp add: pickExecutor_def)

lemma pickExecutor_blank: "pickExecutor schedule = Inr [] \<Longrightarrow> executorOf schedule = []"
  by (simp add: pickExecutor_def split: if_splits)

text \<open>The ids of an organizer and of attendees given as strings.\<close>

lemma organizerOf_text:
  "organizerOf (JObj [(''organizer'', JStr organizer), (''attendees'', JArr (map JStr attendees))])
     = trim organizer"
  by (simp add: organizerOf_def js_and_def js_or_def trim_Nil)

lemma attendeeId_text: "attendeeId (JStr a) = trim a"
  by (simp add: attendeeId_def js_and_def js_or_def)

lemma attendeesOf_text:
  "attendeesOf (JObj [(''organizer'', JStr organizer), (''attendees'', JArr (map JStr attendees))])
     = map JStr attendees"
  by (simp add: attendeesOf_def)

lemma syncScheduleTask_skip_id:
  "normalizeText (js_and schedule (js_get schedule ''schedule_id'')) = []
   \<Longrightarrow> syncScheduleTask e w schedule ctx = (w, skipResult ''missing_schedule_id'')"
  by (simp add: syncScheduleTask_def)

lemma syncScheduleTask_skip_actor:
  "normalizeText (js_and schedule (js_get schedule ''schedule_id'')) \<noteq> []
   \<Longrightarrow> organizerOf schedule = [] \<or> executorOf schedule = []
   \<Longrightarrow> syncScheduleTask e w schedule ctx = (w, skipResult ''missing_creator_or_executor'')"
  by (auto simp add: syncScheduleTask_def Let_def buildTaskPayload_def)

lemma getTask_after_insert:
  "getTaskByScheduleId w (p_wecom_schedule_id p) = None
   \<Longrightarrow> getTaskByScheduleId (runInsert e p w) (p_wecom_schedule_id p) = Some (insertedRow e (last_id w + 1) p)"
  by (simp add: getTaskByScheduleId_def runInsert_def find_append_case insertedRow_def)

lemma sendExecutorActionCard_tasks:
  "sendExecutorActionCard e w t h b = Some w' \<Longrightarrow> tasks w' = tasks w \<and> last_id w' = last_id w"
  by (auto simp: sendExecutorActionCard_def Let_def split: if_splits)

lemma syncScheduleTask_insert:
  assumes "normalizeText (js_and schedule (js_get schedule ''schedule_id'')) = scheduleId"
    and "scheduleId \<noteq> []" and "organizerOf schedule \<noteq> []" and "executorOf schedule \<noteq> []"
    and "getTaskByScheduleId w scheduleId = None"
  shows "tasks (fst (syncScheduleTask e w schedule ctx))
           = tasks w @ [insertedRow e (last_id w + 1) (buildTaskPayload scheduleId schedule ctx)]
         \<and> snd (syncScheduleTask e w schedule ctx)
           = \<lparr> inserted = True, updated = False, skipped = False, reason = None,
               result_task = Some (insertedRow e (last_id w + 1) (buildTaskPayload scheduleId schedule ctx)) \<rparr>"
proof -
  let ?p = "buildTaskPayload scheduleId schedule ctx"
  have pid: "p_wecom_schedule_id ?p = scheduleId" by (simp add: buildTaskPayload_def Let_def)
  have pc: "p_creator_userid ?p = organizerOf schedule" by (simp add: buildTaskPayload_def Let_def)
  have pe: "p_executor_userid ?p = executorOf schedule" by (simp add: buildTaskPayload_def Let_def)
  have g: "getTaskByScheduleId (runInsert e ?p w) scheduleId = Some (insertedRow e (last_id w + 1) ?p)"
    using getTask_after_insert[of w ?p e] assms(5) pid by simp
  have t1: "tasks (runInsert e ?p w) = tasks w @ [insertedRow e (last_id w + 1) ?p]"
    by (simp add: runInsert_def)
  show ?thesis
    using assms g t1 pc pe
    by (auto simp: syncScheduleTask_def Let_def split: option.splits dest: sendExecutorActionCard_tasks)
qed

lemma syncScheduleTask_update:
  assumes "normalizeText (js_and schedule (js_get schedule ''schedule_id'')) = scheduleId"
    and "scheduleId \<noteq> []" and "organizerOf schedule \<noteq> []" and "executorOf schedule \<noteq> []"
    and "getTaskByScheduleId w scheduleId = Some existed"
  shows "fst (syncScheduleTask e w schedule ctx)
           = w\<lparr> tasks := map (\<lambda>t. if wecom_schedule_id t = Some scheduleId
                                then syncSet e (buildTaskPayload scheduleId schedule ctx) t else t) (tasks w) \<rparr>
         \<and> inserted (snd (syncScheduleTask e w schedule ctx)) = False
         \<and> updated (snd (syncScheduleTask e w schedule ctx)) = True
         \<and> skipped (snd (syncScheduleTask e w schedule ctx)) = False
         \<and> reason (snd (syncScheduleTask e w schedule ctx)) = None"
proof -
  let ?p = "buildTaskPayload scheduleId schedule ctx"
  have pc: "p_creator_userid ?p = organizerOf schedule" by (simp add: buildTaskPayload_def Let_def)
  have pe: "p_executor_userid ?p = executorOf schedule" by (simp add: buildTaskPayload_def Let_def)
  show ?thesis
    using assms pc pe
    by (simp add: syncScheduleTask_def Let_def runUpdate_def)
qed

section \<open>Facts about verification\<close>

lemma set_foldl_set_add: "set (foldl set_add acc ys) = set acc \<union> set ys"
  by (induction ys arbitrary: acc) (auto simp: set_add_def)

lemma parseGlobalVerifiers_member:
  "x \<in> set (parseGlobalVerifiers raw) \<Longrightarrow> x \<noteq> [] \<and> trim x = x"
  by (auto simp: parseGlobalVerifiers_def Let_def set_foldl_set_add trim_idem split: if_splits)

lemma waiting_verify_text: "normalizeText (col (Some TASK_STATUS_WAITING_VERIFY)) = TASK_STATUS_WAITING_VERIFY"
  by (simp add: col_def TASK_STATUS_WAITING_VERIFY_def trim_plain)

lemma canUserVerifyTask_granted:
  assumes "status t = Some TASK_STATUS_WAITING_VERIFY"
    and "(normalizeText managerId \<noteq> [] \<and> normalizeText managerId = normalizeText (col (creator_userid t)))
         \<or> normalizeText managerId \<in> set (getGlobalVerifiers e)"
  shows "canUserVerifyTask (Some t) managerId (map JStr (getGlobalVerifiers e))"
proof -
  have st: "normalizeText (col (status t)) = TASK_STATUS_WAITING_VERIFY"
    using assms(1) waiting_verify_text by simp
  from assms(2) show ?thesis
  proof
    assume "normalizeText managerId \<noteq> [] \<and> normalizeText managerId = normalizeText (col (creator_userid t))"
    with st show ?thesis by (auto simp: canUserVerifyTask_def Let_def)
  next
    assume m: "normalizeText managerId \<in> set (getGlobalVerifiers e)"
    then have ne: "normalizeText managerId \<noteq> []" and tr: "trim (normalizeText managerId) = normalizeText managerId"
      using parseGlobalVerifiers_member by (auto simp: getGlobalVerifiers_def)
    have "normalizeText (JStr (normalizeText managerId)) = normalizeText managerId" using tr by simp
    with m have "normalizeText managerId \<in> normalizeText ` JStr ` set (getGlobalVerifiers e)"
      by (metis image_eqI)
    with ne st show ?thesis by (auto simp: canUserVerifyTask_def Let_def image_image)
  qed
qed

lemma ensureTaskForVerify_granted:
  assumes "status t = Some TASK_STATUS_WAITING_VERIFY"
    and "(normalizeText managerId \<noteq> [] \<and> normalizeText managerId = normalizeText (col (creator_userid t)))
         \<or> normalizeText managerId \<in> set (getGlobalVerifiers e)"
  shows "ensureTaskForVerify e (Some t) managerId = None"
  using canUserVerifyTask_granted[OF assms] by (simp add: ensureTaskForVerify_def)

lemma find_map_update:
  assumes "\<And>x. P (f x) = P x" and "\<And>x. Q x \<Longrightarrow> P x"
  shows "find P (map (\<lambda>x. if Q x then f x else x) xs)
         = map_option (\<lambda>x. if Q x then f x else x) (find P xs)"
  using assms by (induction xs) auto

lemma verifySet_keeps_id: "wecom_schedule_id (verifySet e m a r t) = wecom_schedule_id t"
  by (simp add: verifySet_def)

lemma verifyTaskAfterRead_granted:
  assumes "ensureTaskForVerify e task managerId = None"
  shows "verifyTaskAfterRead e task wu sid managerId isApproved rejectReason =
     (let normalizedReason = (if normalizeText rejectReason = [] then DEFAULT_REJECT_REASON
                              else normalizeText rejectReason);
          wr = wu\<lparr> tasks := map (\<lambda>x. if verifyWhere sid x
                                       then verifySet e managerId isApproved normalizedReason x else x)
                                (tasks wu) \<rparr>
      in if \<forall>x \<in> set (tasks wu). \<not> verifyWhere sid x then Inl TASK_STATUS_CONFLICT
         else Inr (case getTaskByScheduleId wr sid of
                     None \<Rightarrow> wr
                   | Some t' \<Rightarrow> (case sendVerificationResultCard e wr t' isApproved of
                                  None \<Rightarrow> wr | Some w' \<Rightarrow> w'),
                   \<lparr> vr_message = (if isApproved then MsgApproved else MsgRejected),
                     vr_task = getTaskByScheduleId wr sid \<rparr>))"
  using assms
  by (simp add: verifyTaskAfterRead_def Let_def runUpdate_def filter_empty_conv)


lemma verify_result_tasks:
  "tasks (case getTaskByScheduleId wr sid of
            None \<Rightarrow> wr
          | Some t' \<Rightarrow> (case sendVerificationResultCard e wr t' a of None \<Rightarrow> wr | Some w' \<Rightarrow> w'))
   = tasks wr"
  by (auto simp: sendVerificationResultCard_def split: option.splits dest: sendExecutorActionCard_tasks)

lemma no_waiting_after_update:
  "x \<in> set (map (\<lambda>x. if verifyWhere sid x then verifySet e m a r x else x) ts)
   \<Longrightarrow> \<not> verifyWhere sid x"
  by (auto simp: verifyWhere_def verifySet_def TASK_STATUS_WAITING_VERIFY_def
        TASK_STATUS_PENDING_def TASK_STATUS_COMPLETED_def split: if_splits)

lemma getTask_after_verify:
  assumes "getTaskByScheduleId w sid = Some t" and "status t = Some TASK_STATUS_WAITING_VERIFY"
  shows "getTaskByScheduleId
           (w\<lparr> tasks := map (\<lambda>x. if verifyWhere sid x then verifySet e m a r x else x) (tasks w) \<rparr>) sid
         = Some (verifySet e m a r t)"
proof -
  have q: "verifyWhere sid t"
    using assms find_SomeD[of "\<lambda>t. wecom_schedule_id t = Some sid" "tasks w" t]
    by (simp add: getTaskByScheduleId_def verifyWhere_def)
  have "find (\<lambda>t. wecom_schedule_id t = Some sid)
          (map (\<lambda>x. if verifyWhere sid x then verifySet e m a r x else x) (tasks w))
        = map_option (\<lambda>x. if verifyWhere sid x then verifySet e m a r x else x)
            (find (\<lambda>t. wecom_schedule_id t = Some sid) (tasks w))"
    by (rule find_map_update) (simp_all add: verifySet_keeps_id verifyWhere_def)
  with assms(1) q show ?thesis by (simp add: getTaskByScheduleId_def)
qed

lemma verifyTaskAfterRead_first:
  assumes found: "getTaskByScheduleId w sid = Some t"
    and waiting: "status t = Some TASK_STATUS_WAITING_VERIFY"
    and caller: "(normalizeText managerId \<noteq> [] \<and> normalizeText managerId = normalizeText (col (creator_userid t)))
         \<or> normalizeText managerId \<in> set (getGlobalVerifiers e)"
    and reason: "normalizedReason = (if normalizeText rejectReason = [] then DEFAULT_REJECT_REASON
                                     else normalizeText rejectReason)"
  shows "\<exists>w'. verifyTaskAfterRead e (Some t) w sid managerId isApproved rejectReason
                = Inr (w', \<lparr> vr_message = (if isApproved then MsgApproved else MsgRejected),
                             vr_task = Some (verifySet e managerId isApproved normalizedReason t) \<rparr>)
              \<and> tasks w' = map (\<lambda>x. if verifyWhere sid x
                                      then verifySet e managerId isApproved normalizedReason x else x)
                               (tasks w)
              \<and> getTaskByScheduleId w' sid = Some (verifySet e managerId isApproved normalizedReason t)"
proof -
  let ?upd = "\<lambda>x. if verifyWhere sid x then verifySet e managerId isApproved normalizedReason x else x"
  let ?wr = "w\<lparr> tasks := map ?upd (tasks w) \<rparr>"
  let ?w' = "case getTaskByScheduleId ?wr sid of
               None \<Rightarrow> ?wr
             | Some t' \<Rightarrow> (case sendVerificationResultCard e ?wr t' isApproved of
                            None \<Rightarrow> ?wr | Some w' \<Rightarrow> w')"
  have ens: "ensureTaskForVerify e (Some t) managerId = None"
    using waiting caller by (rule ensureTaskForVerify_granted)
  have q: "t \<in> set (tasks w) \<and> verifyWhere sid t"
    using found waiting find_SomeD[of "\<lambda>t. wecom_schedule_id t = Some sid" "tasks w" t]
    by (simp add: getTaskByScheduleId_def verifyWhere_def)
  have g: "getTaskByScheduleId ?wr sid = Some (verifySet e managerId isApproved normalizedReason t)"
    using found waiting by (rule getTask_after_verify)
  have tw: "tasks ?w' = tasks ?wr" by (rule verify_result_tasks)
  have r: "verifyTaskAfterRead e (Some t) w sid managerId isApproved rejectReason
           = Inr (?w', \<lparr> vr_message = (if isApproved then MsgApproved else MsgRejected),
                         vr_task = Some (verifySet e managerId isApproved normalizedReason t) \<rparr>)"
  proof -
    have nc: "\<not> (\<forall>x \<in> set (tasks w). \<not> verifyWhere sid x)" using q by blast
    have "verifyTaskAfterRead e (Some t) w sid managerId isApproved rejectReason
          = (if \<forall>x \<in> set (tasks w). \<not> verifyWhere sid x then Inl TASK_STATUS_CONFLICT
             else Inr (?w', \<lparr> vr_message = (if isApproved then MsgApproved else MsgRejected),
                             vr_task = getTaskByScheduleId ?wr sid \<rparr>))"
      by (simp only: verifyTaskAfterRead_granted[OF ens] Let_def reason[symmetric])
    with nc g show ?thesis by simp
  qed
  have g': "getTaskByScheduleId ?w' sid = Some (verifySet e managerId isApproved normalizedReason t)"
    using g tw by (simp add: getTaskByScheduleId_def)
  from r tw g' show ?thesis by (intro exI[of _ ?w']) simp
qed

lemma verifyTaskAfterRead_conflict_iff:
  assumes waiting: "status t = Some TASK_STATUS_WAITING_VERIFY"
    and caller: "(normalizeText managerId \<noteq> [] \<and> normalizeText managerId = normalizeText (col (creator_userid t)))
         \<or> normalizeText managerId \<in> set (getGlobalVerifiers e)"
  shows "(verifyTaskAfterRead e (Some t) wu sid managerId isApproved rejectReason = Inl TASK_STATUS_CONFLICT)
         \<longleftrightarrow> (\<forall>x \<in> set (tasks wu). \<not> verifyWhere sid x)"
proof -
  have ens: "ensureTaskForVerify e (Some t) managerId = None"
    using waiting caller by (rule ensureTaskForVerify_granted)
  show ?thesis by (simp add: verifyTaskAfterRead_granted[OF ens] Let_def)
qed

section \<open>Facts about the update in place\<close>

lemma syncSet_frame:
  "id_col (syncSet e p t) = id_col t"
  "wecom_schedule_id (syncSet e p t) = wecom_schedule_id t"
  "status (syncSet e p t) = status t"
  "completion_time (syncSet e p t) = completion_time t"
  "verify_time (syncSet e p t) = verify_time t"
  "reject_reason (syncSet e p t) = reject_reason t"
  "redo_count (syncSet e p t) = redo_count t"
  "last_reminder_at (syncSet e p t) = last_reminder_at t"
  "last_reminder_kind (syncSet e p t) = last_reminder_kind t"
  "completed_by_userid (syncSet e p t) = completed_by_userid t"
  "verified_by_userid (syncSet e p t) = verified_by_userid t"
  "created_at (syncSet e p t) = created_at t"
  by (simp_all add: syncSet_def)

lemma map_column_update:
  assumes "\<And>t. c (f t) = c t"
  shows "map c (map (\<lambda>t. if P t then f t else t) ts) = map c ts"
  using assms by (induction ts) auto

lemma getTask_after_sync:
  assumes "normalizeText (js_and schedule (js_get schedule ''schedule_id'')) = scheduleId"
    and "\<not> skipped (snd (syncScheduleTask e w schedule ctx))"
  shows "getTaskByScheduleId (fst (syncScheduleTask e w schedule ctx)) scheduleId \<noteq> None"
proof -
  have sid: "scheduleId \<noteq> []"
    using assms syncScheduleTask_skip_id[of schedule e w ctx] by (auto simp: skipResult_def)
  have act: "organizerOf schedule \<noteq> [] \<and> executorOf schedule \<noteq> []"
    using assms sid syncScheduleTask_skip_actor[of schedule e w ctx] by (auto simp: skipResult_def)
  show ?thesis
  proof (cases "getTaskByScheduleId w scheduleId")
    case None
    let ?row = "insertedRow e (last_id w + 1) (buildTaskPayload scheduleId schedule ctx)"
    have "tasks (fst (syncScheduleTask e w schedule ctx)) = tasks w @ [?row]"
      using syncScheduleTask_insert[OF assms(1) sid _ _ None, of e ctx] act by simp
    moreover have "wecom_schedule_id ?row = Some scheduleId"
      by (simp add: insertedRow_def buildTaskPayload_def Let_def)
    ultimately show ?thesis
      by (auto simp: getTaskByScheduleId_def find_None_iff)
  next
    case (Some existed)
    have "tasks (fst (syncScheduleTask e w schedule ctx))
          = map (\<lambda>t. if wecom_schedule_id t = Some scheduleId
                      then syncSet e (buildTaskPayload scheduleId schedule ctx) t else t) (tasks w)"
      using syncScheduleTask_update[OF assms(1) sid _ _ Some, of e ctx] act by simp
    moreover have "existed \<in> set (tasks w) \<and> wecom_schedule_id existed = Some scheduleId"
      using Some find_SomeD[of "\<lambda>t. wecom_schedule_id t = Some scheduleId" "tasks w" existed]
      by (simp add: getTaskByScheduleId_def)
    ultimately show ?thesis
      by (auto simp: getTaskByScheduleId_def find_None_iff syncSet_frame
            intro!: bexI[of _ existed])
  qed
qed

section \<open>Facts about the sample schedule\<close>

lemma exec1Schedule_id:
  "normalizeText (js_and exec1Schedule (js_get exec1Schedule ''schedule_id'')) = ''s-1''"
  by (simp add: exec1Schedule_def mgrSchedule_def js_and_def trim_plain)

lemma exec1Schedule_organizer: "organizerOf exec1Schedule = ''mgr''"
  by (simp add: exec1Schedule_def mgrSchedule_def organizerOf_def js_and_def js_or_def trim_plain)

lemma exec1Schedule_executor: "executorOf exec1Schedule = ''exec1''"
  by (simp add: executorOf_def exec1Schedule_def mgrSchedule_def organizerOf_def attendeesOf_def
        attendeeId_def js_or_def js_and_def trim_plain Let_def str_or_def first_elem_def)

lemma first_sync:
  "tasks syncedWorld
     = [insertedRow (fixedEnv noDates 0) 1 (buildTaskPayload ''s-1'' exec1Schedule noContext)]
   \<and> \<not> skipped (snd (syncScheduleTask (fixedEnv noDates 0) emptyWorld exec1Schedule noContext))"
proof -
  have g: "getTaskByScheduleId emptyWorld ''s-1'' = None"
    by (simp add: getTaskByScheduleId_def emptyWorld_def)
  show ?thesis
    using syncScheduleTask_insert[OF exec1Schedule_id _ _ _ g, of "fixedEnv noDates 0" noContext]
    by (simp add: exec1Schedule_organizer exec1Schedule_executor syncedWorld_def emptyWorld_def)
qed

lemma syncedWorld_holds: "getTaskByScheduleId syncedWorld ''s-1''
     = Some (insertedRow (fixedEnv noDates 0) 1 (buildTaskPayload ''s-1'' exec1Schedule noContext))"
  by (simp add: getTaskByScheduleId_def first_sync insertedRow_def buildTaskPayload_def Let_def)

section \<open>Facts about the calendar targets\<close>

lemma trim_normalizeText: "trim (normalizeText v) = normalizeText v"
  by (induction v rule: normalizeText.induct) (simp_all add: trim_idem trim_Nil)

lemma trim_sourceOr: "trim fb = fb \<Longrightarrow> trim (sourceOr row fb) = sourceOr row fb"
  by (simp add: sourceOr_def Let_def trim_normalizeText)

lemma sourceOr_nonempty: "fb \<noteq> [] \<Longrightarrow> sourceOr row fb \<noteq> []"
  by (simp add: sourceOr_def Let_def)

lemma toCalendarMappingRecord_normal:
  "toCalendarMappingRecord x fb = Some r \<Longrightarrow> trim fb = fb \<Longrightarrow> fb \<noteq> [] \<Longrightarrow> normalTarget r"
  by (auto simp: toCalendarMappingRecord_def Let_def normalTarget_def trim_normalizeText split: if_splits)

lemma toCalendarMappingRecord_target_js:
  assumes "normalTarget r"
  shows "toCalendarMappingRecord (target_js r) fb = Some r"
proof -
  have u: "normalizeText (js_and (target_js r)
               (js_or (js_or (js_or (js_or (js_get (target_js r) ''user_id'') (js_get (target_js r) ''userid''))
                                (js_get (target_js r) ''userId'')) (js_get (target_js r) ''user''))
                  (js_get (target_js r) ''organizer''))) = user_id r"
    using assms by (cases "user_id r = []") (simp_all add: target_js_def js_and_def js_or_def normalTarget_def)
  have c: "normalizeText (js_and (target_js r)
               (js_or (js_or (js_or (js_get (target_js r) ''cal_id'') (js_get (target_js r) ''calId''))
                         (js_get (target_js r) ''calendar_id'')) (js_get (target_js r) ''calendarId''))) = cal_id r"
    using assms by (simp add: target_js_def js_and_def js_or_def normalTarget_def)
  have s: "normalizeText (js_and (target_js r) (js_get (target_js r) ''source'')) = source r"
    using assms by (simp add: target_js_def js_and_def normalTarget_def)
  show ?thesis
    using assms by (simp add: toCalendarMappingRecord_def Let_def u c s normalTarget_def)
qed

lemma dedupEach_keepFirst:
  "\<forall>r \<in> set rs. normalTarget r \<Longrightarrow>
   dedupEach (map target_js rs) seen acc = acc @ keepFirstByCal (filter (\<lambda>r. cal_id r \<notin> seen) rs)"
proof (induction rs arbitrary: seen acc)
  case Nil
  then show ?case by simp
next
  case (Cons r rs)
  have n: "toCalendarMappingRecord (target_js r) (sourceOr (target_js r) ''default'') = Some r"
    using Cons.prems by (simp add: toCalendarMappingRecord_target_js)
  have f: "filter (\<lambda>y. cal_id y \<noteq> cal_id r) (filter (\<lambda>r. cal_id r \<notin> seen) rs)
           = filter (\<lambda>y. cal_id y \<notin> insert (cal_id r) seen) rs"
    by (induction rs) auto
  show ?case
    using Cons n f by simp
qed

lemma deduplicate_keepFirst:
  "\<forall>r \<in> set rs. normalTarget r \<Longrightarrow>
   deduplicateCalendarTargetsByCalId (map target_js rs) = keepFirstByCal rs"
  by (simp add: deduplicateCalendarTargetsByCalId_def dedupEach_keepFirst)


lemma map_set_values: "snd ` set (map_set m k v) \<subseteq> insert v (snd ` set m)"
  by (induction m k v rule: map_set.induct) auto

lemma mergeStep_normal:
  assumes "\<forall>v \<in> snd ` set m. normalTarget v"
  shows "\<forall>v \<in> snd ` set (mergeStep m row). normalTarget v"
proof (cases "toCalendarMappingRecord row (sourceOr row ''db'')")
  case None
  with assms show ?thesis by (simp add: mergeStep_def)
next
  case (Some n)
  have "trim (sourceOr row ''db'') = sourceOr row ''db''"
    by (rule trim_sourceOr) (simp add: trim_plain)
  moreover have "sourceOr row ''db'' \<noteq> []" by (rule sourceOr_nonempty) simp
  ultimately have nn: "normalTarget n" using Some toCalendarMappingRecord_normal by blast
  show ?thesis
  proof (cases "user_id n = []")
    case True
    with Some assms show ?thesis by (simp add: mergeStep_def)
  next
    case False
    with Some have "mergeStep m row = map_set m (user_id n) n" by (simp add: mergeStep_def)
    with map_set_values[of m "user_id n" n] assms nn show ?thesis by (metis insertE subsetD)
  qed
qed

lemma foldl_mergeStep_normal:
  "\<forall>v \<in> snd ` set m. normalTarget v \<Longrightarrow> \<forall>v \<in> snd ` set (foldl mergeStep m rows). normalTarget v"
proof (induction rows arbitrary: m)
  case Nil
  then show ?case by simp
next
  case (Cons row rows)
  from Cons.prems have "\<forall>v \<in> snd ` set (mergeStep m row). normalTarget v" by (rule mergeStep_normal)
  then show ?case using Cons.IH by simp
qed

lemma mergeCalendarMappingsByUser_normal:
  "\<forall>r \<in> set (mergeCalendarMappingsByUser rows). normalTarget r"
  using foldl_mergeStep_normal[of "[]" rows] by (simp add: mergeCalendarMappingsByUser_def)

lemma mergedByUser_normal: "\<forall>r \<in> set (mergedByUser jp options). normalTarget r"
  by (simp add: mergedByUser_def Let_def mergeCalendarMappingsByUser_normal)

lemma keepFirstByCal_subset: "set (keepFirstByCal xs) \<subseteq> set xs"
proof (induction xs rule: keepFirstByCal.induct)
  case 1
  then show ?case by simp
next
  case (2 x xs)
  then show ?case by auto
qed

lemma keepFirstByCal_distinct: "distinct (map cal_id (keepFirstByCal xs))"
proof (induction xs rule: keepFirstByCal.induct)
  case 1
  then show ?case by simp
next
  case (2 x xs)
  have "cal_id x \<notin> cal_id ` set (keepFirstByCal (filter (\<lambda>y. cal_id y \<noteq> cal_id x) xs))"
    using keepFirstByCal_subset[of "filter (\<lambda>y. cal_id y \<noteq> cal_id x) xs"] by auto
  with 2 show ?case by simp
qed

lemma find_filter_other:
  "c \<noteq> d \<Longrightarrow> find (\<lambda>t. cal_id t = c) (filter (\<lambda>y. cal_id y \<noteq> d) xs) = find (\<lambda>t. cal_id t = c) xs"
  by (induction xs) auto

lemma keepFirstByCal_find:
  "find (\<lambda>t. cal_id t = c) (keepFirstByCal xs) = find (\<lambda>t. cal_id t = c) xs"
proof (induction xs rule: keepFirstByCal.induct)
  case 1
  then show ?case by simp
next
  case (2 x xs)
  then show ?case by (simp add: find_filter_other)
qed

lemma distinct_count_one:
  "distinct (map f xs) \<Longrightarrow> x \<in> set xs \<Longrightarrow> length (filter (\<lambda>t. f t = f x) xs) = 1"
proof (induction xs)
  case Nil
  then show ?case by simp
next
  case (Cons a xs)
  show ?case
  proof (cases "f a = f x")
    case True
    with Cons.prems have "f x \<notin> f ` set xs" by simp
    then have "\<forall>t \<in> set xs. f t \<noteq> f x" by (metis imageI)
    then have "filter (\<lambda>t. f t = f x) xs = []" by (simp add: filter_empty_conv)
    with True show ?thesis by simp
  next
    case False
    with Cons show ?thesis by auto
  qed
qed


lemma trim_default: "trim ''default'' = ''default''"
  by (simp add: trim_plain)

lemma defaultTarget_normal: "normalizeText d \<noteq> [] \<Longrightarrow> normalTarget (defaultTarget (normalizeText d))"
  by (simp add: normalTarget_def defaultTarget_def trim_normalizeText trim_Nil trim_default)

lemma buildSyncCalendarTargets_keepFirst:
  "buildSyncCalendarTargets jp options
     = keepFirstByCal
         (keepFirstByCal (mergedByUser jp options)
          @ (if normalizeText (defaultCalId options) \<noteq> []
             then [defaultTarget (normalizeText (defaultCalId options))] else []))"
proof -
  let ?m = "mergedByUser jp options"
  let ?d = "normalizeText (defaultCalId options)"
  have nm: "\<forall>r \<in> set ?m. normalTarget r" by (rule mergedByUser_normal)
  have t1: "deduplicateCalendarTargetsByCalId (map target_js ?m) = keepFirstByCal ?m"
    using nm by (rule deduplicate_keepFirst)
  have nk: "\<forall>r \<in> set (keepFirstByCal ?m). normalTarget r"
    using nm keepFirstByCal_subset[of ?m] by blast
  show ?thesis
  proof (cases "?d = []")
    case True
    then show ?thesis
      using nk by (simp add: buildSyncCalendarTargets_def Let_def t1 deduplicate_keepFirst)
  next
    case False
    then have "\<forall>r \<in> set (keepFirstByCal ?m @ [defaultTarget ?d]). normalTarget r"
      using nk defaultTarget_normal by auto
    then have "deduplicateCalendarTargetsByCalId (map target_js (keepFirstByCal ?m @ [defaultTarget ?d]))
               = keepFirstByCal (keepFirstByCal ?m @ [defaultTarget ?d])"
      by (rule deduplicate_keepFirst)
    with False show ?thesis
      by (simp add: buildSyncCalendarTargets_def Let_def t1)
  qed
qed

lemma buildSyncCalendarTargets_distinct:
  "distinct (map cal_id (buildSyncCalendarTargets jp options))"
  by (simp only: buildSyncCalendarTargets_keepFirst keepFirstByCal_distinct)

lemma buildSyncCalendarTargets_first:
  assumes "x \<in> set (mergedByUser jp options)"
  shows "find (\<lambda>t. cal_id t = cal_id x) (buildSyncCalendarTargets jp options)
         = find (\<lambda>t. cal_id t = cal_id x) (mergedByUser jp options)"
    and "length (filter (\<lambda>t. cal_id t = cal_id x) (buildSyncCalendarTargets jp options)) = 1"
proof -
  let ?m = "mergedByUser jp options"
  let ?P = "\<lambda>t. cal_id t = cal_id x"
  obtain y where y: "find ?P ?m = Some y"
    using assms by (cases "find ?P ?m") (auto simp: find_None_iff)
  then have k: "find ?P (keepFirstByCal ?m) = Some y" by (simp add: keepFirstByCal_find)
  show f: "find ?P (buildSyncCalendarTargets jp options) = find ?P ?m"
    by (simp add: buildSyncCalendarTargets_keepFirst keepFirstByCal_find find_append_case k y)
  from f y have "y \<in> set (buildSyncCalendarTargets jp options) \<and> cal_id y = cal_id x"
    using find_SomeD[of ?P "buildSyncCalendarTargets jp options" y] by simp
  then show "length (filter ?P (buildSyncCalendarTargets jp options)) = 1"
    using distinct_count_one[OF buildSyncCalendarTargets_distinct, of y jp options] by simp
qed

section \<open>Two users of one calendar\<close>

lemma id_char_plain:
  assumes "id_char c"
  shows "c \<notin> {CHR 0x09, CHR 0x0A, CHR 0x0B, CHR 0x0C, CHR 0x0D, CHR 0x20,
              CHR 0xC2, CHR 0xE1, CHR 0xE2, CHR 0xE3, CHR 0xEF}"
    and "c \<notin> {CHR 0x09, CHR 0x0A, CHR 0x0B, CHR 0x0C, CHR 0x0D, CHR 0x20, CHR 0xA0,
              CHR 0x80, CHR 0x81, CHR 0x82, CHR 0x83, CHR 0x84, CHR 0x85, CHR 0x86, CHR 0x87,
              CHR 0x88, CHR 0x89, CHR 0x8A, CHR 0xA8, CHR 0xA9, CHR 0xAF, CHR 0x9F, CHR 0xBF}"
    and "c \<noteq> CHR '',''" and "c \<noteq> CHR '':''" and "c \<noteq> CHR ''=''"
    and "c \<noteq> CHR ''{''" and "c \<noteq> CHR ''[''"
  using assms by (auto simp: id_char_def)

lemma idText_chars: "idText s \<Longrightarrow> c \<in> set s \<Longrightarrow> id_char c"
  by (simp add: idText_def list_all_iff)

lemma idText_hd: "idText s \<Longrightarrow> id_char (hd s)"
  by (cases s) (simp_all add: idText_def)

lemma idText_last: "idText s \<Longrightarrow> id_char (last s)"
  using idText_chars[of s "last s"] by (simp add: idText_def)

text \<open>A string that begins and ends with a character of an id is trimmed.\<close>

lemma trim_between:
  assumes "id_char (hd s)" and "id_char (last s)" and "s \<noteq> []"
  shows "trim s = s"
  using assms id_char_plain(1)[of "hd s"] id_char_plain(2)[of "last s"] by (intro trim_plain)

lemma trim_idText: "idText s \<Longrightarrow> trim s = s"
  by (rule trim_between) (simp_all add: idText_hd idText_last idText_def)

lemma split_on_none: "c \<notin> set s \<Longrightarrow> split_on c s = [s]"
  by (induction s) auto

lemma split_on_append: "c \<notin> set s \<Longrightarrow> split_on c (s @ c # t) = s # split_on c t"
  by (induction s) auto

lemma index_of_append: "c \<notin> set s \<Longrightarrow> index_of c (s @ c # t) = int (length s)"
  by (induction s) (auto simp: Let_def)

text \<open>One \<open>user:calendar\<close> item of the pair syntax.\<close>

lemma parsePair_ids:
  assumes "idText A" and "idText X"
  shows "parsePair (A @ CHR '':'' # X)
          = Some \<lparr> user_id = A, cal_id = X, source = ''env_map'' \<rparr>"
proof -
  have nc: "CHR '':'' \<notin> set A" using assms(1) idText_chars id_char_plain(4) by blast
  have i: "index_of CHR '':'' (A @ CHR '':'' # X) = int (length A)"
    using nc by (rule index_of_append)
  have a: "A \<noteq> []" "X \<noteq> []" using assms by (simp_all add: idText_def)
  have t: "trim A = A" "trim X = X" using assms by (simp_all add: trim_idText)
  have e: "trim ''env_map'' = ''env_map''" by (simp add: trim_plain)
  have tk: "take (nat (int (length A))) (A @ CHR '':'' # X) = A" by simp
  have dr: "drop (nat (int (length A) + 1)) (A @ CHR '':'' # X) = X" by (simp add: nat_add_distrib)
  have r: "toCalendarMappingRecord
             (JObj [(''user_id'', JStr A), (''cal_id'', JStr X), (''source'', JStr ''env_map'')])
             ''env_map''
           = Some \<lparr> user_id = A, cal_id = X, source = ''env_map'' \<rparr>"
    using a by (simp add: toCalendarMappingRecord_def js_and_def js_or_def Let_def t e)
  have "parsePair (A @ CHR '':'' # X)
        = toCalendarMappingRecord
             (JObj [(''user_id'', JStr (trim A)), (''cal_id'', JStr (trim X)),
                    (''source'', JStr ''env_map'')]) ''env_map''"
    using a by (simp add: parsePair_def i Let_def nat_add_distrib)
  then show ?thesis by (simp add: t r)
qed

text \<open>The record of an object with the properties \<open>user_id\<close>, \<open>cal_id\<close> and \<open>source\<close>.\<close>

lemma record_of_entry:
  "toCalendarMappingRecord
     (JObj [(''user_id'', JStr A), (''cal_id'', JStr X), (''source'', JStr ''env_map'')]) fb
   = (if trim X = [] then None
      else Some \<lparr> user_id = trim A, cal_id = trim X, source = ''env_map'' \<rparr>)"
proof -
  have e: "trim ''env_map'' = ''env_map''" by (simp add: trim_plain)
  show ?thesis
    by (cases "A = []"; cases "X = []")
       (simp_all add: toCalendarMappingRecord_def js_and_def js_or_def Let_def trim_Nil e)
qed

lemma record_of_row:
  "toCalendarMappingRecord (JObj [(''user_id'', JStr A), (''cal_id'', JStr X)]) fb
   = (if trim X = [] then None
      else Some \<lparr> user_id = trim A, cal_id = trim X, source = fb \<rparr>)"
  by (cases "A = []"; cases "X = []")
     (simp_all add: toCalendarMappingRecord_def js_and_def js_or_def Let_def trim_Nil)

text \<open>Merging records that are in normal form already.\<close>

lemma mergeStep_target_js:
  "normalTarget r \<Longrightarrow> user_id r \<noteq> [] \<Longrightarrow> mergeStep m (target_js r) = map_set m (user_id r) r"
  by (simp add: mergeStep_def toCalendarMappingRecord_target_js)

lemma merge_one:
  "normalTarget r \<Longrightarrow> user_id r \<noteq> [] \<Longrightarrow> mergeCalendarMappingsByUser [target_js r] = [r]"
  by (simp add: mergeCalendarMappingsByUser_def mergeStep_target_js)

lemma merge_two:
  "normalTarget r \<Longrightarrow> user_id r \<noteq> [] \<Longrightarrow> normalTarget s \<Longrightarrow> user_id s \<noteq> []
   \<Longrightarrow> mergeCalendarMappingsByUser [target_js r, target_js s]
       = (if user_id r = user_id s then [s] else [r, s])"
  by (simp add: mergeCalendarMappingsByUser_def mergeStep_target_js)

lemma merge_none: "mergeCalendarMappingsByUser [] = []"
  by (simp add: mergeCalendarMappingsByUser_def)

text \<open>Mappings that all point to one calendar leave one target, the first.\<close>

lemma buildSyncCalendarTargets_same_calendar:
  assumes "mergedByUser jp options = r # rs" and "\<forall>y \<in> set rs. cal_id y = cal_id r"
  shows "buildSyncCalendarTargets jp options
         = r # (if normalizeText (defaultCalId options) \<noteq> []
                   \<and> normalizeText (defaultCalId options) \<noteq> cal_id r
                then [\<lparr> user_id = [], cal_id = normalizeText (defaultCalId options),
                         source = ''default'' \<rparr>]
                else [])"
proof -
  have "filter (\<lambda>y. cal_id y \<noteq> cal_id r) rs = []"
    using assms(2) by (simp add: filter_empty_conv)
  then have k: "keepFirstByCal (r # rs) = [r]" by simp
  have "buildSyncCalendarTargets jp options
        = keepFirstByCal
            ([r] @ (if normalizeText (defaultCalId options) \<noteq> []
                    then [defaultTarget (normalizeText (defaultCalId options))] else []))"
    unfolding buildSyncCalendarTargets_keepFirst assms(1) k ..
  then show ?thesis by (simp add: defaultTarget_def)
qed

lemma normalTarget_trimmed:
  "trim x \<noteq> [] \<Longrightarrow> trim s = s \<Longrightarrow> s \<noteq> []
   \<Longrightarrow> normalTarget \<lparr> user_id = trim a, cal_id = trim x, source = s \<rparr>"
  by (simp add: normalTarget_def trim_idem)

lemma keepFirst_two_users:
  assumes "normalTarget r" and "user_id r \<noteq> []" and "normalTarget s" and "cal_id s = cal_id r"
    and "mergedByUser jp options
         = mergeCalendarMappingsByUser
             (map target_js (if user_id s = [] then [r] else mergeCalendarMappingsByUser [target_js r, target_js s]))"
    and "user_id s = user_id r \<longrightarrow> s = r"
  shows "buildSyncCalendarTargets jp options
         = r # (if normalizeText (defaultCalId options) \<noteq> []
                   \<and> normalizeText (defaultCalId options) \<noteq> cal_id r
                then [\<lparr> user_id = [], cal_id = normalizeText (defaultCalId options),
                         source = ''default'' \<rparr>]
                else [])"
proof -
  have m: "mergedByUser jp options = (if user_id s = [] \<or> user_id s = user_id r then [r] else [r, s])"
    using assms by (auto simp: merge_one merge_two)
  show ?thesis
  proof (cases "user_id s = [] \<or> user_id s = user_id r")
    case True
    with m have "mergedByUser jp options = r # []" by simp
    then show ?thesis by (rule buildSyncCalendarTargets_same_calendar) simp
  next
    case False
    with m have "mergedByUser jp options = r # [s]" by simp
    then show ?thesis by (rule buildSyncCalendarTargets_same_calendar) (simp add: assms(4))
  qed
qed

text \<open>No stored rows.\<close>

lemma no_rows: "mergeCalendarMappingsByUser (rowsArray (js_or JUndefined (JArr []))) = []"
  by (simp add: rowsArray_def js_or_def merge_none)

text \<open>Two users of one calendar in the pair syntax.\<close>

lemma targets_of_pairs:
  assumes "idText A" and "idText B" and "idText X"
  shows "buildSyncCalendarTargets jp
           \<lparr> defaultCalId = d,
             userCalendarMapRaw = JStr (A @ '':'' @ X @ '','' @ B @ '':'' @ X),
             userCalendarRows = JUndefined \<rparr>
         = \<lparr> user_id = A, cal_id = X, source = ''env_map'' \<rparr>
           # (if normalizeText d \<noteq> [] \<and> normalizeText d \<noteq> X
              then [\<lparr> user_id = [], cal_id = normalizeText d, source = ''default'' \<rparr>] else [])"
proof -
  let ?r = "\<lparr> user_id = A, cal_id = X, source = ''env_map'' \<rparr>"
  let ?s = "\<lparr> user_id = B, cal_id = X, source = ''env_map'' \<rparr>"
  let ?i = "A @ CHR '':'' # X"
  let ?j = "B @ CHR '':'' # X"
  let ?whole = "?i @ CHR '','' # ?j"
  let ?o = "\<lparr> defaultCalId = d, userCalendarMapRaw = JStr ?whole, userCalendarRows = JUndefined \<rparr>"
  have ne: "A \<noteq> []" "B \<noteq> []" "X \<noteq> []" using assms by (simp_all add: idText_def)
  have t: "trim A = A" "trim B = B" "trim X = X" using assms by (simp_all add: trim_idText)
  have e: "trim ''env_map'' = ''env_map''" by (simp add: trim_plain)
  have nr: "normalTarget ?r" "normalTarget ?s" by (simp_all add: normalTarget_def t e ne)
  have hdA: "hd ?whole = hd A" "hd ?i = hd A" "hd ?j = hd B" using ne by simp_all
  have lastX: "last ?whole = last X" "last ?i = last X" "last ?j = last X" using ne by simp_all
  have tw: "trim ?whole = ?whole" "trim ?i = ?i" "trim ?j = ?j"
    using assms hdA lastX by (simp_all add: trim_between idText_hd idText_last del: hd_append last_append)
  have comma: "CHR '','' \<notin> set ?i" "CHR '','' \<notin> set ?j"
    using assms idText_chars id_char_plain(3) by auto
  have sp: "split_on CHR '','' ?whole = [?i, ?j]"
    using split_on_append[of "CHR '',''" ?i ?j] split_on_none[of "CHR '',''" ?j] comma by simp
  have first: "hd ?whole \<noteq> CHR ''{''" "hd ?whole \<noteq> CHR ''[''"
    using assms(1) idText_hd[of A] id_char_plain(6,7)[of "hd A"] hdA by auto
  have "parseUserCalendarMapFromPairs ?whole
        = keepWithUser (map parsePair
            (filter (\<lambda>s. s \<noteq> []) (map (\<lambda>item. normalizeText (JStr item)) [?i, ?j])))"
    unfolding parseUserCalendarMapFromPairs_def sp ..
  then have pp: "parseUserCalendarMapFromPairs ?whole = [?r, ?s]"
    using ne by (simp add: tw parsePair_ids[OF assms(1,3)]
        parsePair_ids[OF assms(2,3)] keepWithUser_def List.map_filter_def)
  have nt: "normalizeText (JStr ?whole) = ?whole" using tw(1) by simp
  have "parseUserCalendarMap jp (JStr ?whole)
        = mergeCalendarMappingsByUser (map target_js (parseUserCalendarMapFromPairs ?whole))"
    unfolding parseUserCalendarMap_def Let_def nt using first ne by auto
  then have "parseUserCalendarMap jp (JStr ?whole)
             = mergeCalendarMappingsByUser [target_js ?r, target_js ?s]"
    unfolding pp by simp
  then have m: "mergedByUser jp ?o
         = mergeCalendarMappingsByUser
             (map target_js (mergeCalendarMappingsByUser [target_js ?r, target_js ?s]))"
    by (simp add: mergedByUser_def Let_def no_rows)
  have "buildSyncCalendarTargets jp ?o
         = ?r # (if normalizeText (defaultCalId ?o) \<noteq> []
                   \<and> normalizeText (defaultCalId ?o) \<noteq> cal_id ?r
                then [\<lparr> user_id = [], cal_id = normalizeText (defaultCalId ?o),
                         source = ''default'' \<rparr>]
                else [])"
    using nr ne m by (intro keepFirst_two_users[where s = ?s]) simp_all
  then show ?thesis by simp
qed

text \<open>Two users of one calendar in a JSON object, in a JSON array and in the stored rows.\<close>

lemma env_map_trimmed: "trim ''env_map'' = ''env_map''" "trim ''db'' = ''db''"
  by (simp_all add: trim_plain)

lemma keepWithUser_two:
  "user_id r \<noteq> [] \<Longrightarrow>
   keepWithUser [Some r, Some s] = (if user_id s = [] then [r] else [r, s])"
  by (simp add: keepWithUser_def List.map_filter_def)

lemma parse_two_merged:
  assumes "normalTarget r" and "user_id r \<noteq> []" and "normalTarget s"
  shows "mergeCalendarMappingsByUser (map target_js (if user_id s = [] then [r] else [r, s]))
         = (if user_id s = [] then [r] else mergeCalendarMappingsByUser [target_js r, target_js s])"
  using assms by (simp add: merge_one)

lemma targets_of_json:
  assumes "normalizeText raw = normalizedRaw" and "normalizedRaw \<noteq> []"
    and "hd normalizedRaw = CHR ''{'' \<or> hd normalizedRaw = CHR ''[''"
    and "jp normalizedRaw = Some parsed"
    and "parseUserCalendarMapFromJson parsed
         = keepWithUser [Some \<lparr> user_id = trim A, cal_id = trim X, source = ''env_map'' \<rparr>,
                         Some \<lparr> user_id = trim B, cal_id = trim X, source = ''env_map'' \<rparr>]"
    and "trim A \<noteq> []" and "trim X \<noteq> []"
  shows "buildSyncCalendarTargets jp
           \<lparr> defaultCalId = d, userCalendarMapRaw = raw, userCalendarRows = JUndefined \<rparr>
         = \<lparr> user_id = trim A, cal_id = trim X, source = ''env_map'' \<rparr>
           # (if normalizeText d \<noteq> [] \<and> normalizeText d \<noteq> trim X
              then [\<lparr> user_id = [], cal_id = normalizeText d, source = ''default'' \<rparr>] else [])"
proof -
  let ?r = "\<lparr> user_id = trim A, cal_id = trim X, source = ''env_map'' \<rparr>"
  let ?s = "\<lparr> user_id = trim B, cal_id = trim X, source = ''env_map'' \<rparr>"
  let ?o = "\<lparr> defaultCalId = d, userCalendarMapRaw = raw, userCalendarRows = JUndefined \<rparr>"
  have nr: "normalTarget ?r" "normalTarget ?s"
    using assms(7) by (simp_all add: normalTarget_trimmed env_map_trimmed)
  have "parseUserCalendarMap jp raw
        = mergeCalendarMappingsByUser (map target_js (parseUserCalendarMapFromJson parsed))"
    unfolding parseUserCalendarMap_def Let_def assms(1) using assms(2,3,4) by auto
  also have "\<dots> = mergeCalendarMappingsByUser
                      (map target_js (if user_id ?s = [] then [?r] else [?r, ?s]))"
    unfolding assms(5) using assms(6) by (simp add: keepWithUser_two)
  also have "\<dots> = (if user_id ?s = [] then [?r]
                    else mergeCalendarMappingsByUser [target_js ?r, target_js ?s])"
    using nr assms(6) by (intro parse_two_merged) simp_all
  finally have m: "mergedByUser jp ?o
         = mergeCalendarMappingsByUser
             (map target_js (if user_id ?s = [] then [?r]
                             else mergeCalendarMappingsByUser [target_js ?r, target_js ?s]))"
    by (simp add: mergedByUser_def Let_def no_rows)
  have "buildSyncCalendarTargets jp ?o
         = ?r # (if normalizeText (defaultCalId ?o) \<noteq> []
                   \<and> normalizeText (defaultCalId ?o) \<noteq> cal_id ?r
                then [\<lparr> user_id = [], cal_id = normalizeText (defaultCalId ?o),
                         source = ''default'' \<rparr>]
                else [])"
    using nr assms(6) m by (intro keepFirst_two_users[where s = ?s]) simp_all
  then show ?thesis by simp
qed

lemma json_object_rows:
  "trim X \<noteq> [] \<Longrightarrow>
   parseUserCalendarMapFromJson (JObj [(A, JStr X), (B, JStr X)])
   = keepWithUser [Some \<lparr> user_id = trim A, cal_id = trim X, source = ''env_map'' \<rparr>,
                   Some \<lparr> user_id = trim B, cal_id = trim X, source = ''env_map'' \<rparr>]"
  by (simp add: parseUserCalendarMapFromJson_def record_of_entry)

lemma json_array_rows:
  "trim X \<noteq> [] \<Longrightarrow>
   parseUserCalendarMapFromJson
     (JArr [JObj [(''user_id'', JStr A), (''cal_id'', JStr X)],
            JObj [(''user_id'', JStr B), (''cal_id'', JStr X)]])
   = keepWithUser [Some \<lparr> user_id = trim A, cal_id = trim X, source = ''env_map'' \<rparr>,
                   Some \<lparr> user_id = trim B, cal_id = trim X, source = ''env_map'' \<rparr>]"
  by (simp add: parseUserCalendarMapFromJson_def record_of_row)

lemma mergeStep_row:
  "trim X \<noteq> [] \<Longrightarrow>
   mergeStep m (JObj [(''user_id'', JStr A), (''cal_id'', JStr X)])
   = (if trim A = [] then m
      else map_set m (trim A) \<lparr> user_id = trim A, cal_id = trim X, source = ''db'' \<rparr>)"
  by (simp add: mergeStep_def record_of_row sourceOr_def js_and_def Let_def)

lemma targets_of_rows:
  assumes "trim A \<noteq> []" and "trim X \<noteq> []"
  shows "buildSyncCalendarTargets jp
           \<lparr> defaultCalId = d, userCalendarMapRaw = JUndefined,
             userCalendarRows = JArr [JObj [(''user_id'', JStr A), (''cal_id'', JStr X)],
                                      JObj [(''user_id'', JStr B), (''cal_id'', JStr X)]] \<rparr>
         = \<lparr> user_id = trim A, cal_id = trim X, source = ''db'' \<rparr>
           # (if normalizeText d \<noteq> [] \<and> normalizeText d \<noteq> trim X
              then [\<lparr> user_id = [], cal_id = normalizeText d, source = ''default'' \<rparr>] else [])"
proof -
  let ?r = "\<lparr> user_id = trim A, cal_id = trim X, source = ''db'' \<rparr>"
  let ?s = "\<lparr> user_id = trim B, cal_id = trim X, source = ''db'' \<rparr>"
  let ?rows = "[JObj [(''user_id'', JStr A), (''cal_id'', JStr X)],
                JObj [(''user_id'', JStr B), (''cal_id'', JStr X)]]"
  let ?o = "\<lparr> defaultCalId = d, userCalendarMapRaw = JUndefined, userCalendarRows = JArr ?rows \<rparr>"
  have nr: "normalTarget ?r" "normalTarget ?s"
    using assms(2) by (simp_all add: normalTarget_trimmed env_map_trimmed)
  have db: "mergeCalendarMappingsByUser ?rows
            = (if user_id ?s = [] then [?r]
               else mergeCalendarMappingsByUser [target_js ?r, target_js ?s])"
    using assms nr by (simp add: mergeCalendarMappingsByUser_def mergeStep_row mergeStep_target_js)
  have env: "parseUserCalendarMap jp JUndefined = []"
    by (simp add: parseUserCalendarMap_def)
  have m: "mergedByUser jp ?o
         = mergeCalendarMappingsByUser
             (map target_js (if user_id ?s = [] then [?r]
                             else mergeCalendarMappingsByUser [target_js ?r, target_js ?s]))"
    unfolding mergedByUser_def Let_def by (simp add: env db js_or_def rowsArray_def)
  have "buildSyncCalendarTargets jp ?o
         = ?r # (if normalizeText (defaultCalId ?o) \<noteq> []
                   \<and> normalizeText (defaultCalId ?o) \<noteq> cal_id ?r
                then [\<lparr> user_id = [], cal_id = normalizeText (defaultCalId ?o),
                         source = ''default'' \<rparr>]
                else [])"
    using nr assms(1) m by (intro keepFirst_two_users[where s = ?s]) simp_all
  then show ?thesis by simp
qed

section \<open>Facts about the KPI\<close>

lemma toDate_truthy: "toDateOrNull pd (col c) = Some x \<Longrightarrow> truthy (col c) \<and> c \<noteq> None \<and> c \<noteq> Some []"
  by (cases c) (auto simp: toDateOrNull_def col_def Let_def trim_Nil split: if_splits)

lemma isOnTimeCompleted_spec:
  "isOnTimeCompleted pd r
   = (normalizeText (col (status r)) = TASK_STATUS_COMPLETED \<and> specOnTime pd r)"
proof -
  have s: "js_or (col (completion_time r)) (col (verify_time r))
           = col (if completion_time r = None \<or> completion_time r = Some [] then verify_time r
                  else completion_time r)"
    by (cases "completion_time r") (auto simp: js_or_def col_def)
  show ?thesis
    by (simp add: isOnTimeCompleted_def specOnTime_def Let_def s split: option.splits)
qed

lemma expo_bounds: "0 < x \<Longrightarrow> 2 powi (expo x) \<le> x \<and> x < 2 * 2 powi (expo x)"
proof (induction x rule: expo.induct)
  case (1 x)
  show ?case
  proof (cases "2 \<le> x")
    case True
    then have e: "expo x = expo (x / 2) + 1" by (subst expo.simps) simp
    from 1(1) True 1(3) have "2 powi (expo (x / 2)) \<le> x / 2 \<and> x / 2 < 2 * 2 powi (expo (x / 2))"
      by simp
    then show ?thesis unfolding e by (simp add: power_int_add)
  next
    case False
    show ?thesis
    proof (cases "x < 1")
      case True
      then have e: "expo x = expo (x * 2) - 1" using False 1(3) by (subst expo.simps) simp
      from 1(2) True False 1(3) have "2 powi (expo (x * 2)) \<le> x * 2 \<and> x * 2 < 2 * 2 powi (expo (x * 2))"
        by simp
      then show ?thesis unfolding e by (simp add: power_int_diff)
    next
      case f2: False
      then have "expo x = 0" using False 1(3) by (subst expo.simps) simp
      with False f2 show ?thesis by simp
    qed
  qed
qed

lemma round_half_even_near: "\<bar>of_int (round_half_even y) - y\<bar> \<le> 1 / 2"
proof -
  have "of_int \<lfloor>y\<rfloor> \<le> y" "y < of_int \<lfloor>y\<rfloor> + 1" by linarith+
  then show ?thesis by (auto simp: round_half_even_def Let_def)
qed

text \<open>The relative error of one rounding is at most \<open>2^-53\<close>.\<close>

lemma to_double_near:
  assumes "0 < x"
  shows "\<bar>to_double x - x\<bar> \<le> x / 2 ^ 53"
proof -
  let ?u = "(2::rat) powi (expo x - 52)"
  have up: "0 < ?u" by simp
  have eu: "(2::rat) powi (expo x) = 2 ^ 52 * ?u"
    by (simp add: power_int_diff)
  have "\<bar>of_int (round_half_even (x / ?u)) - x / ?u\<bar> \<le> 1 / 2" by (rule round_half_even_near)
  then have "\<bar>of_int (round_half_even (x / ?u)) - x / ?u\<bar> * ?u \<le> 1 / 2 * ?u"
    using up by (intro mult_right_mono) simp_all
  moreover have "\<bar>of_int (round_half_even (x / ?u)) - x / ?u\<bar> * ?u
                 = \<bar>of_int (round_half_even (x / ?u)) * ?u - x\<bar>"
  proof -
    have "\<bar>of_int (round_half_even (x / ?u)) - x / ?u\<bar> * ?u
          = \<bar>(of_int (round_half_even (x / ?u)) - x / ?u) * ?u\<bar>"
      using up by (simp add: abs_mult)
    also have "(of_int (round_half_even (x / ?u)) - x / ?u) * ?u
               = of_int (round_half_even (x / ?u)) * ?u - x"
      using up by (simp add: field_simps)
    finally show ?thesis .
  qed
  ultimately have d: "\<bar>of_int (round_half_even (x / ?u)) * ?u - x\<bar> \<le> ?u / 2" by simp
  have "2 ^ 52 * ?u \<le> x" using expo_bounds[OF assms] eu by simp
  then have "?u / 2 \<le> x / 2 ^ 53" by simp
  with d have "\<bar>of_int (round_half_even (x / ?u)) * ?u - x\<bar> \<le> x / 2 ^ 53" by linarith
  moreover have "to_double x = of_int (round_half_even (x / ?u)) * ?u"
    using assms by (simp add: to_double_def Let_def)
  ultimately show ?thesis by simp
qed

lemma to_double_0: "to_double 0 = 0"
  by (simp add: to_double_def)

text \<open>Two roundings: the quotient, and its product with 100.\<close>

lemma percent_double_near:
  assumes "0 < q" and "q \<le> 1"
  shows "\<bar>to_double (to_double q * 100) - q * 100\<bar> \<le> 300 / 2 ^ 53"
proof -
  let ?d = "to_double q"
  have a: "\<bar>?d - q\<bar> \<le> q / 2 ^ 53" using assms(1) by (rule to_double_near)
  have "q / 2 ^ 53 < q" using assms(1) by simp
  with a have dpos: "0 < ?d" by linarith
  have "q / 2 ^ 53 \<le> 1 / 2 ^ 53" using assms(2) by simp
  with a have a1: "\<bar>?d - q\<bar> \<le> 1 / 2 ^ 53" by linarith
  moreover have "(1::rat) / 2 ^ 53 \<le> 1" by simp
  ultimately have dle: "?d \<le> 2" using assms(2) by linarith
  have b: "\<bar>to_double (?d * 100) - ?d * 100\<bar> \<le> ?d * 100 / 2 ^ 53"
    using dpos by (intro to_double_near) simp
  have "?d * 100 / 2 ^ 53 \<le> 200 / 2 ^ 53" using dle by simp
  with b have b': "\<bar>to_double (?d * 100) - ?d * 100\<bar> \<le> 200 / 2 ^ 53" by linarith
  from a1 have a': "\<bar>?d * 100 - q * 100\<bar> \<le> 100 / 2 ^ 53" by linarith
  from a' b' show ?thesis by linarith
qed

lemma toFixed2_bounds:
  "of_int \<lfloor>x * 100 + 1 / 2\<rfloor> \<le> x * 100 + 1 / 2 \<and> x * 100 - 1 / 2 < of_int \<lfloor>x * 100 + 1 / 2\<rfloor>"
  by linarith

text \<open>
  The computed percentage of \<open>a\<close> out of \<open>b\<close>, for fewer than \<open>2^32\<close> items, is a nearest
  multiple of 1/100 to the exact percentage.
\<close>

lemma percent_nearest:
  assumes "a \<le> b" and "0 < b" and "b < 2 ^ 32"
  shows "\<bar>toFixed2 (js_mul (js_div (of_nat a) (of_nat b)) 100) - of_nat a / of_nat b * 100\<bar> \<le> 1 / 200
         \<and> (\<exists>n::int. toFixed2 (js_mul (js_div (of_nat a) (of_nat b)) 100) = of_int n / 100)"
proof (cases "a = 0")
  case True
  have "\<lfloor>(1 / 2 :: rat)\<rfloor> = 0" by (rule floor_unique) simp_all
  with True show ?thesis by (simp add: js_mul_def js_div_def to_double_0 toFixed2_def)
next
  case False
  define q :: rat where "q = of_nat a / of_nat b"
  define x where "x = to_double (to_double q * 100)"
  define n where "n = \<lfloor>x * 100 + 1 / 2\<rfloor>"
  define c :: rat where "c = 1 / (2 * of_nat b)"
  have bpos: "(0::rat) < of_nat b" using assms(2) by simp
  have qb: "q * of_nat b = of_nat a" using bpos by (simp add: q_def)
  have q: "0 < q" "q \<le> 1" using assms False by (simp_all add: q_def)
  have e: "\<bar>x - q * 100\<bar> \<le> 300 / 2 ^ 53" unfolding x_def using q by (rule percent_double_near)
  have bb: "(of_nat b :: rat) < 2 ^ 32" using assms(3) by (metis of_nat_less_iff of_nat_numeral of_nat_power)
  have small: "(30000 :: rat) / 2 ^ 53 < c"
  proof -
    have "(30000 :: rat) / 2 ^ 53 < 1 / (2 * 2 ^ 32)" by simp
    also have "\<dots> < 1 / (2 * of_nat b)" using bb bpos by (simp add: field_simps)
    finally show ?thesis by (simp add: c_def)
  qed
  have n1: "of_int n \<le> x * 100 + 1 / 2" and n2: "x * 100 - 1 / 2 < of_int n"
    unfolding n_def by linarith+
  have e100: "\<bar>x * 100 - q * 10000\<bar> \<le> 30000 / 2 ^ 53" using e by linarith
  have up: "of_int n \<le> q * 10000 + 1 / 2"
  proof (rule ccontr)
    assume "\<not> of_int n \<le> q * 10000 + 1 / 2"
    then have "q * 10000 + 1 / 2 < of_int n" by simp
    then have "(q * 10000 + 1 / 2) * (2 * of_nat b) < of_int n * (2 * of_nat b)"
      using bpos by (intro mult_strict_right_mono) simp_all
    then have "(20000 * (q * of_nat b) + of_nat b :: rat) < 2 * of_nat b * of_int n"
      by (simp add: algebra_simps)
    then have "(of_int (20000 * int a + int b) :: rat) < of_int (2 * int b * n)"
      unfolding qb by simp
    then have "20000 * int a + int b < 2 * int b * n" by (simp only: of_int_less_iff)
    then have "20000 * int a + int b + 1 \<le> 2 * int b * n" by simp
    then have "(of_int (20000 * int a + int b + 1) :: rat) \<le> of_int (2 * int b * n)"
      by (simp only: of_int_le_iff)
    then have "(20000 * (q * of_nat b) + of_nat b + 1 :: rat) \<le> 2 * of_nat b * of_int n"
      unfolding qb by simp
    then have "(q * 10000 + 1 / 2 + c) * (2 * of_nat b) \<le> of_int n * (2 * of_nat b)"
      using bpos by (simp add: algebra_simps c_def)
    then have "q * 10000 + 1 / 2 + c \<le> of_int n"
      using bpos by (simp add: mult_le_cancel_right)
    with n1 e100 small show False by linarith
  qed
  have lo: "q * 10000 - 1 / 2 \<le> of_int n"
  proof (rule ccontr)
    assume "\<not> q * 10000 - 1 / 2 \<le> of_int n"
    then have "of_int n < q * 10000 - 1 / 2" by simp
    then have "of_int n * (2 * of_nat b) < (q * 10000 - 1 / 2) * (2 * of_nat b)"
      using bpos by (intro mult_strict_right_mono) simp_all
    then have "2 * of_nat b * of_int n < (20000 * (q * of_nat b) - of_nat b :: rat)"
      by (simp add: algebra_simps)
    then have "(of_int (2 * int b * n) :: rat) < of_int (20000 * int a - int b)"
      unfolding qb by simp
    then have "2 * int b * n < 20000 * int a - int b" by (simp only: of_int_less_iff)
    then have "2 * int b * n + 1 \<le> 20000 * int a - int b" by simp
    then have "(of_int (2 * int b * n + 1) :: rat) \<le> of_int (20000 * int a - int b)"
      by (simp only: of_int_le_iff)
    then have "2 * of_nat b * of_int n + 1 \<le> (20000 * (q * of_nat b) - of_nat b :: rat)"
      unfolding qb by simp
    then have "(of_int n + c) * (2 * of_nat b) \<le> (q * 10000 - 1 / 2) * (2 * of_nat b)"
      using bpos by (simp add: algebra_simps c_def)
    then have "of_int n + c \<le> q * 10000 - 1 / 2"
      using bpos by (simp add: mult_le_cancel_right)
    with n2 e100 small show False by linarith
  qed
  have "\<bar>of_int n / 100 - q * 100\<bar> \<le> 1 / 200" using up lo by linarith
  then show ?thesis by (auto simp: js_mul_def js_div_def toFixed2_def q_def x_def n_def)
qed

text \<open>Away from a tie, the nearest multiple of 1/100 is the one that rounding gives.\<close>

lemma nearest_round2:
  assumes "\<bar>of_int n / 100 - p\<bar> \<le> 1 / 200" and "frac (p * 100) \<noteq> 1 / 2"
  shows "of_int n / 100 = round2 p"
proof -
  have lo: "p * 100 - 1 / 2 \<le> of_int n" and hi: "of_int n \<le> p * 100 + 1 / 2"
    using assms(1) by linarith+
  have "p * 100 - 1 / 2 \<noteq> of_int n"
  proof
    assume "p * 100 - 1 / 2 = of_int n"
    then have "p * 100 = of_int n + 1 / 2" by simp
    then have "frac (p * 100) = frac (of_int n + (1 / 2 :: rat))" by simp
    also have "\<dots> = 1 / 2" by (simp add: frac_def) linarith
    finally show False using assms(2) by simp
  qed
  with lo have "p * 100 + 1 / 2 < of_int n + 1" by linarith
  with hi have "\<lfloor>p * 100 + 1 / 2\<rfloor> = n" by (intro floor_unique) simp_all
  then show ?thesis by (simp add: round2_def)
qed

lemma percent_round2:
  assumes "a \<le> b" and "0 < b" and "b < 2 ^ 32" and "frac (of_nat a / of_nat b * 100 * 100 :: rat) \<noteq> 1 / 2"
  shows "toFixed2 (js_mul (js_div (of_nat a) (of_nat b)) 100) = round2 (of_nat a / of_nat b * 100)"
proof -
  obtain n :: int where n: "toFixed2 (js_mul (js_div (of_nat a) (of_nat b)) 100) = of_int n / 100"
    using percent_nearest[OF assms(1,2,3)] by blast
  have "\<bar>toFixed2 (js_mul (js_div (of_nat a) (of_nat b)) 100) - of_nat a / of_nat b * 100\<bar> \<le> 1 / 200"
    using percent_nearest[OF assms(1,2,3)] by blast
  then have "\<bar>of_int n / 100 - (of_nat a / of_nat b * 100 :: rat)\<bar> \<le> 1 / 200"
    unfolding n .
  then show ?thesis unfolding n using assms(4) by (rule nearest_round2)
qed

lemma rate_one_third: "toFixed2 (js_mul (js_div (of_nat 1) (of_nat 3)) 100) = 3333 / 100"
  by code_simp

lemma rate_all: "toFixed2 (js_mul (js_div (of_nat 1) (of_nat 1)) 100) = 100"
  by code_simp

lemma rate_none: "toFixed2 (js_mul (js_div 0 b) 100) = 0"
proof -
  have "\<lfloor>(1 / 2 :: rat)\<rfloor> = 0" by (rule floor_unique) simp_all
  then show ?thesis by (simp add: js_mul_def js_div_def to_double_0 toFixed2_def)
qed

lemma rate_tie: "toFixed2 (js_mul (js_div 23 160) 100) = 1437 / 100"
  by code_simp

section \<open>Reconciliation: when a schedule is skipped\<close>

text \<open>
  Claim C1, as the code has it. For every schedule payload and calendar context,
  \<open>syncScheduleTask\<close> returns a skip result exactly when the schedule has no external
  correlation id or when the derived creator or the derived executor is empty (either one,
  not only both; an empty executor in fact implies an empty creator). Past the check of
  the id, the derived executor is what \<open>pickExecutor\<close> returns, and the derived creator is
  the organizer. A skip writes nothing: the store is returned as it was, with the reason
  code \<open>missing_schedule_id\<close> or \<open>missing_creator_or_executor\<close>. In every other case the call
  inserts a new row with status PENDING when no row has the correlation id, and updates
  the rows that have it otherwise.
\<close>

theorem syncScheduleTask_outcome:
  assumes "scheduleId = normalizeText (js_and schedule (js_get schedule ''schedule_id''))"
    and "r = syncScheduleTask e w schedule ctx"
    and "payload = buildTaskPayload scheduleId schedule ctx"
  shows "(skipped (snd r)
            \<longleftrightarrow> scheduleId = [] \<or> organizerOf schedule = [] \<or> pickExecutor schedule = Inr [])
       \<and> (scheduleId \<noteq> [] \<longrightarrow>
             pickExecutor schedule = Inr (p_executor_userid payload)
             \<and> p_creator_userid payload = organizerOf schedule)
       \<and> (pickExecutor schedule = Inr [] \<longrightarrow> organizerOf schedule = [])
       \<and> (skipped (snd r) \<longrightarrow>
             fst r = w \<and> \<not> inserted (snd r) \<and> \<not> updated (snd r)
             \<and> reason (snd r) = Some (if scheduleId = [] then ''missing_schedule_id''
                                       else ''missing_creator_or_executor''))
       \<and> (\<not> skipped (snd r) \<and> getTaskByScheduleId w scheduleId = None \<longrightarrow>
             inserted (snd r) \<and> \<not> updated (snd r)
             \<and> tasks (fst r)
                 = tasks w @
                   [\<lparr> id_col = last_id w + 1,
                      wecom_schedule_id = Some scheduleId,
                      title = Some (p_title payload),
                      description = Some (p_description payload),
                      creator_userid = Some (p_creator_userid payload),
                      executor_userid = Some (p_executor_userid payload),
                      owner_userid = Some (p_owner_userid payload),
                      owner_cal_id = Some (p_owner_cal_id payload),
                      start_time = sql_unixepoch e (p_start_time payload),
                      end_time = sql_unixepoch e (p_end_time payload),
                      status = Some ''PENDING'',
                      completion_time = None,
                      verify_time = None,
                      reject_reason = None,
                      redo_count = Some 0,
                      last_reminder_at = None,
                      last_reminder_kind = None,
                      completed_by_userid = None,
                      verified_by_userid = None,
                      updated_at = Some (sql_now e),
                      created_at = Some (sql_now e) \<rparr>])
       \<and> (\<not> skipped (snd r) \<and> getTaskByScheduleId w scheduleId \<noteq> None \<longrightarrow>
             updated (snd r) \<and> \<not> inserted (snd r)
             \<and> tasks (fst r)
                 = map (\<lambda>t. if wecom_schedule_id t = Some scheduleId
                            then t\<lparr> title := Some (p_title payload),
                                    description := Some (p_description payload),
                                    creator_userid := Some (p_creator_userid payload),
                                    executor_userid := Some (p_executor_userid payload),
                                    owner_userid := Some (p_owner_userid payload),
                                    owner_cal_id := Some (p_owner_cal_id payload),
                                    start_time := sql_unixepoch e (p_start_time payload),
                                    end_time := sql_unixepoch e (p_end_time payload),
                                    updated_at := Some (sql_now e) \<rparr>
                            else t) (tasks w))"
proof (cases "scheduleId = []")
  case True
  with assms have "r = (w, skipResult ''missing_schedule_id'')"
    by (simp add: syncScheduleTask_skip_id)
  with True show ?thesis
    by (auto simp: skipResult_def dest: executorOf_empty pickExecutor_blank)
next
  case sid: False
  have pe: "pickExecutor schedule = Inr (executorOf schedule)"
    using sid assms(1) by (simp add: pickExecutor_with_id)
  have pp: "p_executor_userid payload = executorOf schedule"
    "p_creator_userid payload = organizerOf schedule" "p_wecom_schedule_id payload = scheduleId"
    using assms(3) by (simp_all add: buildTaskPayload_def Let_def)
  show ?thesis
  proof (cases "organizerOf schedule = [] \<or> executorOf schedule = []")
    case True
    with sid assms have "r = (w, skipResult ''missing_creator_or_executor'')"
      by (simp add: syncScheduleTask_skip_actor)
    with True sid pe pp show ?thesis by (auto simp: skipResult_def dest: executorOf_empty)
  next
    case actors: False
    show ?thesis
    proof (cases "getTaskByScheduleId w scheduleId")
      case None
      from syncScheduleTask_insert[of schedule scheduleId w e ctx] assms sid actors None
      have "tasks (fst r) = tasks w @ [insertedRow e (last_id w + 1) payload]"
        and "snd r = \<lparr> inserted = True, updated = False, skipped = False, reason = None,
                       result_task = Some (insertedRow e (last_id w + 1) payload) \<rparr>"
        by simp_all
      with sid actors None pe pp show ?thesis
        by (simp add: insertedRow_def TASK_STATUS_PENDING_def)
    next
      case (Some existed)
      from syncScheduleTask_update[of schedule scheduleId w existed e ctx] assms sid actors Some
      have "fst r = w\<lparr> tasks := map (\<lambda>t. if wecom_schedule_id t = Some scheduleId
                                          then syncSet e payload t else t) (tasks w) \<rparr>"
        and "inserted (snd r) = False" and "updated (snd r) = True" and "skipped (snd r) = False"
        by simp_all
      with sid actors Some pe pp show ?thesis by (simp add: syncSet_def)
    qed
  qed
qed

text \<open>
  The schedule \<open>s-1\<close> of organizer \<open>mgr\<close> with attendees \<open>mgr\<close> and \<open>exec1\<close>, met by an empty
  store, is inserted as one PENDING row created by \<open>mgr\<close> for \<open>exec1\<close>. A schedule whose id
  is an ideographic space (U+3000) has no id, and one whose organizer is a no-break space
  (U+00A0) has no creator: both are skipped, and the store stays empty.
\<close>

theorem syncScheduleTask_outcome_witness:
  "\<not> skipped (snd (syncScheduleTask (fixedEnv noDates 0) emptyWorld
                      (mgrSchedule [JStr ''mgr'', JStr ''exec1'']) noContext))
   \<and> inserted (snd (syncScheduleTask (fixedEnv noDates 0) emptyWorld
                      (mgrSchedule [JStr ''mgr'', JStr ''exec1'']) noContext))
   \<and> map status (tasks (fst (syncScheduleTask (fixedEnv noDates 0) emptyWorld
                      (mgrSchedule [JStr ''mgr'', JStr ''exec1'']) noContext)))
       = [Some ''PENDING'']
   \<and> map creator_userid (tasks (fst (syncScheduleTask (fixedEnv noDates 0) emptyWorld
                      (mgrSchedule [JStr ''mgr'', JStr ''exec1'']) noContext)))
       = [Some ''mgr'']
   \<and> map executor_userid (tasks (fst (syncScheduleTask (fixedEnv noDates 0) emptyWorld
                      (mgrSchedule [JStr ''mgr'', JStr ''exec1'']) noContext)))
       = [Some ''exec1'']
   \<and> fst (syncScheduleTask (fixedEnv noDates 0) emptyWorld
        (JObj [(''schedule_id'', JStr [CHR 0xE3, CHR 0x80, CHR 0x80]), (''organizer'', JStr ''mgr''),
               (''attendees'', JArr [JStr ''exec1''])]) noContext) = emptyWorld
   \<and> reason (snd (syncScheduleTask (fixedEnv noDates 0) emptyWorld
        (JObj [(''schedule_id'', JStr [CHR 0xE3, CHR 0x80, CHR 0x80]), (''organizer'', JStr ''mgr''),
               (''attendees'', JArr [JStr ''exec1''])]) noContext)) = Some ''missing_schedule_id''
   \<and> fst (syncScheduleTask (fixedEnv noDates 0) emptyWorld
        (JObj [(''schedule_id'', JStr ''s-3''), (''organizer'', JStr [CHR 0xC2, CHR 0xA0]),
               (''attendees'', JArr [JStr ''exec1''])]) noContext) = emptyWorld
   \<and> reason (snd (syncScheduleTask (fixedEnv noDates 0) emptyWorld
        (JObj [(''schedule_id'', JStr ''s-3''), (''organizer'', JStr [CHR 0xC2, CHR 0xA0]),
               (''attendees'', JArr [JStr ''exec1''])]) noContext)) = Some ''missing_creator_or_executor''"
proof -
  let ?s = "mgrSchedule [JStr ''mgr'', JStr ''exec1'']"
  let ?s1 = "JObj [(''schedule_id'', JStr [CHR 0xE3, CHR 0x80, CHR 0x80]), (''organizer'', JStr ''mgr''),
               (''attendees'', JArr [JStr ''exec1''])]"
  let ?s2 = "JObj [(''schedule_id'', JStr ''s-3''), (''organizer'', JStr [CHR 0xC2, CHR 0xA0]),
               (''attendees'', JArr [JStr ''exec1''])]"
  have sid: "normalizeText (js_and ?s (js_get ?s ''schedule_id'')) = ''s-1''"
    by (simp add: mgrSchedule_def js_and_def trim_plain)
  have org: "organizerOf ?s = ''mgr''"
    by (simp add: mgrSchedule_def organizerOf_def js_and_def js_or_def trim_plain)
  have ex: "pickExecutor ?s = Inr ''exec1''"
    by (simp add: pickExecutor_def executorOf_def mgrSchedule_def organizerOf_def attendeesOf_def
          attendeeId_def js_or_def js_and_def trim_plain Let_def str_or_def first_elem_def)
  have g: "getTaskByScheduleId emptyWorld ''s-1'' = None"
    by (simp add: getTaskByScheduleId_def emptyWorld_def)
  have pl: "p_creator_userid (buildTaskPayload ''s-1'' ?s noContext) = ''mgr''"
    "p_executor_userid (buildTaskPayload ''s-1'' ?s noContext) = ''exec1''"
    using ex org by (simp_all add: buildTaskPayload_def Let_def pickExecutor_def mgrSchedule_def)
  note th = syncScheduleTask_outcome [OF refl refl refl, of "fixedEnv noDates 0" emptyWorld _ noContext]
  have a: "\<not> skipped (snd (syncScheduleTask (fixedEnv noDates 0) emptyWorld ?s noContext))
     \<and> inserted (snd (syncScheduleTask (fixedEnv noDates 0) emptyWorld ?s noContext))
     \<and> map status (tasks (fst (syncScheduleTask (fixedEnv noDates 0) emptyWorld ?s noContext)))
         = [Some ''PENDING'']
     \<and> map creator_userid (tasks (fst (syncScheduleTask (fixedEnv noDates 0) emptyWorld ?s noContext)))
         = [Some ''mgr'']
     \<and> map executor_userid (tasks (fst (syncScheduleTask (fixedEnv noDates 0) emptyWorld ?s noContext)))
         = [Some ''exec1'']"
    using th [of ?s] sid org ex g pl by (simp add: emptyWorld_def)
  have sid1: "normalizeText (js_and ?s1 (js_get ?s1 ''schedule_id'')) = []"
    by (simp add: js_and_def trim_blank)
  have b: "fst (syncScheduleTask (fixedEnv noDates 0) emptyWorld ?s1 noContext) = emptyWorld
       \<and> reason (snd (syncScheduleTask (fixedEnv noDates 0) emptyWorld ?s1 noContext))
           = Some ''missing_schedule_id''"
    using th [of ?s1] sid1 by simp
  have sid2: "normalizeText (js_and ?s2 (js_get ?s2 ''schedule_id'')) = ''s-3''"
    by (simp add: js_and_def trim_plain)
  have org2: "organizerOf ?s2 = []"
    by (simp add: organizerOf_def js_and_def js_or_def trim_blank)
  have c: "fst (syncScheduleTask (fixedEnv noDates 0) emptyWorld ?s2 noContext) = emptyWorld
       \<and> reason (snd (syncScheduleTask (fixedEnv noDates 0) emptyWorld ?s2 noContext))
           = Some ''missing_creator_or_executor''"
    using th [of ?s2] sid2 org2 by simp
  from a b c show ?thesis by blast
qed

text \<open>
  The claim as stated (a skip only when creator and executor are both empty) fails on the
  schedule \<open>s-2\<close>, which has an id and the attendee \<open>exec1\<close> and names no organizer: the
  executor is \<open>exec1\<close>, the creator is empty, and the call skips and writes nothing.
\<close>

theorem syncScheduleTask_skip_counterexample:
  "normalizeText (js_and orphanSchedule (js_get orphanSchedule ''schedule_id'')) = ''s-2''
   \<and> organizerOf orphanSchedule = []
   \<and> pickExecutor orphanSchedule = Inr ''exec1''
   \<and> syncScheduleTask (fixedEnv noDates 0) emptyWorld orphanSchedule noContext
       = (emptyWorld, skipResult ''missing_creator_or_executor'')"
proof -
  have sid: "normalizeText (js_and orphanSchedule (js_get orphanSchedule ''schedule_id'')) = ''s-2''"
    by (simp add: orphanSchedule_def js_and_def trim_plain)
  have org: "organizerOf orphanSchedule = []"
    by (simp add: orphanSchedule_def organizerOf_def js_and_def js_or_def)
  have ex: "pickExecutor orphanSchedule = Inr ''exec1''"
    by (simp add: pickExecutor_def executorOf_def orphanSchedule_def organizerOf_def attendeesOf_def
          attendeeId_def js_or_def js_and_def trim_plain Let_def str_or_def first_elem_def)
  from sid org have "syncScheduleTask (fixedEnv noDates 0) emptyWorld orphanSchedule noContext
       = (emptyWorld, skipResult ''missing_creator_or_executor'')"
    by (simp add: syncScheduleTask_skip_actor)
  with sid org ex show ?thesis by simp
qed

section \<open>Reconciliation: the update in place\<close>

text \<open>
  Claim C2, as the code has it. Let a first call of \<open>syncScheduleTask\<close> for a schedule not
  be a skip. Then the store it leaves holds a row with the schedule's correlation id, and
  a call with the same schedule on any store that holds such a row (the store the first
  call left, or a later one) returns \<open>{inserted: false, updated: true}\<close>. That update
  overwrites, on the rows with the correlation id, title, description, creator, executor,
  owner, calendar id, start and end time, and also the \<open>updated_at\<close> timestamp; every other
  column of every row keeps its value, in particular status, redo count, reject reason,
  \<open>last_reminder_kind\<close> and \<open>last_reminder_at\<close>; no card is sent.
\<close>

theorem syncScheduleTask_update_in_place:
  assumes "scheduleId = normalizeText (js_and schedule (js_get schedule ''schedule_id''))"
    and "r1 = syncScheduleTask e1 w0 schedule ctx"
    and "\<not> skipped (snd r1)"
    and "getTaskByScheduleId w scheduleId \<noteq> None"
    and "r2 = syncScheduleTask e2 w schedule ctx"
    and "payload = buildTaskPayload scheduleId schedule ctx"
  shows "getTaskByScheduleId (fst r1) scheduleId \<noteq> None
       \<and> inserted (snd r2) = False \<and> updated (snd r2) = True \<and> skipped (snd r2) = False
       \<and> fst r2 = w\<lparr> tasks :=
             map (\<lambda>t. if wecom_schedule_id t = Some scheduleId
                       then t\<lparr> title := Some (p_title payload),
                               description := Some (p_description payload),
                               creator_userid := Some (p_creator_userid payload),
                               executor_userid := Some (p_executor_userid payload),
                               owner_userid := Some (p_owner_userid payload),
                               owner_cal_id := Some (p_owner_cal_id payload),
                               start_time := sql_unixepoch e2 (p_start_time payload),
                               end_time := sql_unixepoch e2 (p_end_time payload),
                               updated_at := Some (sql_now e2) \<rparr>
                       else t) (tasks w) \<rparr>
       \<and> map status (tasks (fst r2)) = map status (tasks w)
       \<and> map redo_count (tasks (fst r2)) = map redo_count (tasks w)
       \<and> map reject_reason (tasks (fst r2)) = map reject_reason (tasks w)
       \<and> map last_reminder_kind (tasks (fst r2)) = map last_reminder_kind (tasks w)
       \<and> map last_reminder_at (tasks (fst r2)) = map last_reminder_at (tasks w)
       \<and> map id_col (tasks (fst r2)) = map id_col (tasks w)
       \<and> map wecom_schedule_id (tasks (fst r2)) = map wecom_schedule_id (tasks w)
       \<and> map completion_time (tasks (fst r2)) = map completion_time (tasks w)
       \<and> map verify_time (tasks (fst r2)) = map verify_time (tasks w)
       \<and> map completed_by_userid (tasks (fst r2)) = map completed_by_userid (tasks w)
       \<and> map verified_by_userid (tasks (fst r2)) = map verified_by_userid (tasks w)
       \<and> map created_at (tasks (fst r2)) = map created_at (tasks w)
       \<and> outbox (fst r2) = outbox w \<and> last_id (fst r2) = last_id w"
proof -
  have held: "getTaskByScheduleId (fst r1) scheduleId \<noteq> None"
    using assms(1,2,3) getTask_after_sync[of schedule scheduleId e1 w0 ctx] by simp
  have sid: "scheduleId \<noteq> []"
    using assms(1,2,3) syncScheduleTask_skip_id[of schedule e1 w0 ctx] by (auto simp: skipResult_def)
  have act: "organizerOf schedule \<noteq> []" "executorOf schedule \<noteq> []"
    using assms(1,2,3) sid syncScheduleTask_skip_actor[of schedule e1 w0 ctx]
    by (auto simp: skipResult_def)
  obtain existed where ex: "getTaskByScheduleId w scheduleId = Some existed"
    using assms(4) by blast
  note u = syncScheduleTask_update[OF assms(1)[symmetric] sid act ex, of e2 ctx]
  have w2: "fst r2 = w\<lparr> tasks := map (\<lambda>t. if wecom_schedule_id t = Some scheduleId
                                          then syncSet e2 payload t else t) (tasks w) \<rparr>"
    using u assms(5,6) by simp
  have flags: "inserted (snd r2) = False \<and> updated (snd r2) = True \<and> skipped (snd r2) = False"
    using u assms(5) by simp
  have t2: "tasks (fst r2) = map (\<lambda>t. if wecom_schedule_id t = Some scheduleId
                                      then syncSet e2 payload t else t) (tasks w)"
    using w2 by simp
  have cols:
    "map status (tasks (fst r2)) = map status (tasks w)"
    "map redo_count (tasks (fst r2)) = map redo_count (tasks w)"
    "map reject_reason (tasks (fst r2)) = map reject_reason (tasks w)"
    "map last_reminder_kind (tasks (fst r2)) = map last_reminder_kind (tasks w)"
    "map last_reminder_at (tasks (fst r2)) = map last_reminder_at (tasks w)"
    "map id_col (tasks (fst r2)) = map id_col (tasks w)"
    "map wecom_schedule_id (tasks (fst r2)) = map wecom_schedule_id (tasks w)"
    "map completion_time (tasks (fst r2)) = map completion_time (tasks w)"
    "map verify_time (tasks (fst r2)) = map verify_time (tasks w)"
    "map completed_by_userid (tasks (fst r2)) = map completed_by_userid (tasks w)"
    "map verified_by_userid (tasks (fst r2)) = map verified_by_userid (tasks w)"
    "map created_at (tasks (fst r2)) = map created_at (tasks w)"
    unfolding t2 by (rule map_column_update, rule syncSet_frame)+
  have w2': "fst r2 = w\<lparr> tasks :=
             map (\<lambda>t. if wecom_schedule_id t = Some scheduleId
                       then t\<lparr> title := Some (p_title payload),
                               description := Some (p_description payload),
                               creator_userid := Some (p_creator_userid payload),
                               executor_userid := Some (p_executor_userid payload),
                               owner_userid := Some (p_owner_userid payload),
                               owner_cal_id := Some (p_owner_cal_id payload),
                               start_time := sql_unixepoch e2 (p_start_time payload),
                               end_time := sql_unixepoch e2 (p_end_time payload),
                               updated_at := Some (sql_now e2) \<rparr>
                       else t) (tasks w) \<rparr>"
    using w2 by (simp add: syncSet_def)
  have rest: "outbox (fst r2) = outbox w \<and> last_id (fst r2) = last_id w"
    using w2 by simp
  from held flags w2' cols rest show ?thesis by simp
qed

text \<open>
  The schedule \<open>s-1\<close> is reconciled into an empty store and, ten minutes later, again:
  the second call updates, and the row is still PENDING with redo count 0 and no reminder
  stamp.
\<close>

theorem syncScheduleTask_update_in_place_witness:
  "inserted (snd (syncScheduleTask laterEnv syncedWorld exec1Schedule noContext)) = False
   \<and> updated (snd (syncScheduleTask laterEnv syncedWorld exec1Schedule noContext)) = True
   \<and> map status (tasks (fst (syncScheduleTask laterEnv syncedWorld exec1Schedule noContext)))
       = [Some ''PENDING'']
   \<and> map redo_count (tasks (fst (syncScheduleTask laterEnv syncedWorld exec1Schedule noContext)))
       = [Some 0]
   \<and> map last_reminder_kind
        (tasks (fst (syncScheduleTask laterEnv syncedWorld exec1Schedule noContext))) = [None]"
proof -
  have ns: "\<not> skipped (snd (syncScheduleTask (fixedEnv noDates 0) emptyWorld exec1Schedule noContext))"
    using first_sync by simp
  have held: "getTaskByScheduleId syncedWorld ''s-1'' \<noteq> None"
    by (simp add: syncedWorld_holds)
  show ?thesis
    using syncScheduleTask_update_in_place
            [OF exec1Schedule_id [symmetric] refl ns held refl refl, of laterEnv]
    by (simp add: first_sync insertedRow_def TASK_STATUS_PENDING_def)
qed

text \<open>
  The claim as stated (only the eight reconciled columns are overwritten) fails on the
  same two calls: \<open>updated_at\<close>, which is not one of the eight, held the time of the first
  call and holds the time of the second call afterwards.
\<close>

theorem syncScheduleTask_updated_at_counterexample:
  "map updated_at (tasks syncedWorld) = [Some ''2026-02-12 12:00:00'']
   \<and> map updated_at (tasks (fst (syncScheduleTask laterEnv syncedWorld exec1Schedule noContext)))
       = [Some ''2026-02-12 12:10:00'']
   \<and> updated (snd (syncScheduleTask laterEnv syncedWorld exec1Schedule noContext))"
proof -
  have a: "map updated_at (tasks syncedWorld) = [Some ''2026-02-12 12:00:00'']"
    by (simp add: first_sync insertedRow_def fixedEnv_def)
  note u = syncScheduleTask_update[OF exec1Schedule_id _ _ _ syncedWorld_holds, of laterEnv noContext]
  have b: "tasks (fst (syncScheduleTask laterEnv syncedWorld exec1Schedule noContext))
           = [syncSet laterEnv (buildTaskPayload ''s-1'' exec1Schedule noContext)
                (insertedRow (fixedEnv noDates 0) 1 (buildTaskPayload ''s-1'' exec1Schedule noContext))]"
    using u
    by (simp add: exec1Schedule_organizer exec1Schedule_executor first_sync)
       (simp add: insertedRow_def buildTaskPayload_def Let_def)
  have c: "updated (snd (syncScheduleTask laterEnv syncedWorld exec1Schedule noContext))"
    using u by (simp add: exec1Schedule_organizer exec1Schedule_executor)
  from a b c show ?thesis by (simp add: syncSet_def laterEnv_def)
qed

section \<open>Rejecting a task, and the conflict of two verifications\<close>

text \<open>
  Claim C3. Let the task found under the correlation id be in WAITING_VERIFY, and let the
  caller be its creator (with a non-blank id) or a configured global verifier. Then
  \<open>verifyTask\<close> with \<open>isApproved = false\<close> succeeds and rewrites the row: status PENDING,
  verify time, verifier id (the caller's normalized id), reject reason (the given reason,
  normalized, or, when that is blank, the default text of twelve bytes, so never blank),
  and the redo count one more than it was (1 when it was NULL). The UPDATE rewrites
  exactly the rows that have the correlation id and status WAITING_VERIFY, each in this
  way. After the permission check on the row read, the call fails with
  TASK_STATUS_CONFLICT exactly when that UPDATE changes no row, that is, when no row has
  the correlation id and status WAITING_VERIFY. Hence, when two authorised callers have
  both read the task in WAITING_VERIFY, the one whose UPDATE runs first succeeds and the
  other one, whatever its decision, ends in TASK_STATUS_CONFLICT.
\<close>

theorem verifyTask_reject_and_conflict:
  assumes "getTaskByScheduleId w sid = Some t"
    and "status t = Some TASK_STATUS_WAITING_VERIFY"
    and "(normalizeText managerId \<noteq> [] \<and> normalizeText managerId = normalizeText (col (creator_userid t)))
         \<or> normalizeText managerId \<in> set (getGlobalVerifiers e)"
    and "(normalizeText otherId \<noteq> [] \<and> normalizeText otherId = normalizeText (col (creator_userid t)))
         \<or> normalizeText otherId \<in> set (getGlobalVerifiers e)"
    and "normalizedReason
           = (if normalizeText rejectReason = []
              then [CHR 0xE9, CHR 0xA2, CHR 0x86, CHR 0xE5, CHR 0xAF, CHR 0xBC,
                    CHR 0xE9, CHR 0xA9, CHR 0xB3, CHR 0xE5, CHR 0x9B, CHR 0x9E]
              else normalizeText rejectReason)"
    and "reject = (\<lambda>x. x\<lparr> status := Some TASK_STATUS_PENDING,
                          verify_time := Some (sql_now e),
                          verified_by_userid := Some (normalizeText managerId),
                          reject_reason := Some normalizedReason,
                          redo_count := Some (case redo_count x of None \<Rightarrow> 1 | Some n \<Rightarrow> n + 1),
                          updated_at := Some (sql_now e) \<rparr>)"
  shows "(\<exists>w'. verifyTask e w sid managerId False rejectReason
                 = Inr (w', \<lparr> vr_message = MsgRejected, vr_task = Some (reject t) \<rparr>)
               \<and> getTaskByScheduleId w' sid = Some (reject t)
               \<and> tasks w' = map (\<lambda>x. if wecom_schedule_id x = Some sid
                                          \<and> status x = Some TASK_STATUS_WAITING_VERIFY
                                       then reject x else x)
                                (tasks w))
       \<and> normalizedReason \<noteq> []
       \<and> (\<forall>n. redo_count t = Some n \<longrightarrow> redo_count (reject t) = Some (n + 1))
       \<and> (\<forall>wu isApproved reason2.
             (verifyTaskAfterRead e (Some t) wu sid otherId isApproved reason2 = Inl TASK_STATUS_CONFLICT)
             \<longleftrightarrow> snd (runUpdate (verifyWhere sid)
                         (verifySet e otherId isApproved
                            (if normalizeText reason2 = [] then DEFAULT_REJECT_REASON
                             else normalizeText reason2)) wu) = 0)
       \<and> (\<forall>wu isApproved reason2.
             (verifyTaskAfterRead e (Some t) wu sid otherId isApproved reason2 = Inl TASK_STATUS_CONFLICT)
             \<longleftrightarrow> (\<forall>x \<in> set (tasks wu).
                    \<not> (wecom_schedule_id x = Some sid \<and> status x = Some TASK_STATUS_WAITING_VERIFY)))
       \<and> (\<forall>approve1 approve2 reason1 reason2.
             \<exists>w1 res1.
               verifyTaskAfterRead e (Some t) w sid managerId approve1 reason1 = Inr (w1, res1)
               \<and> verifyTaskAfterRead e (Some t) w1 sid otherId approve2 reason2
                   = Inl TASK_STATUS_CONFLICT)"
proof -
  have nr: "normalizedReason = (if normalizeText rejectReason = [] then DEFAULT_REJECT_REASON
                                else normalizeText rejectReason)"
    using assms(5) by (simp add: DEFAULT_REJECT_REASON_def)
  have rej: "verifySet e managerId False normalizedReason = reject"
    using assms(6) by (intro ext) (simp add: verifySet_def coalesce0_def split: option.splits)
  have wh: "verifyWhere sid = (\<lambda>x. wecom_schedule_id x = Some sid
                                   \<and> status x = Some TASK_STATUS_WAITING_VERIFY)"
    by (rule ext) (simp add: verifyWhere_def)
  have one: "\<exists>w'. verifyTask e w sid managerId False rejectReason
                 = Inr (w', \<lparr> vr_message = MsgRejected, vr_task = Some (reject t) \<rparr>)
               \<and> getTaskByScheduleId w' sid = Some (reject t)
               \<and> tasks w' = map (\<lambda>x. if wecom_schedule_id x = Some sid
                                          \<and> status x = Some TASK_STATUS_WAITING_VERIFY
                                       then reject x else x)
                                (tasks w)"
    using verifyTaskAfterRead_first[OF assms(1) assms(2) assms(3) nr, of False] assms(1) wh
    by (auto simp: verifyTask_def rej)
  have ne: "normalizedReason \<noteq> []"
    using assms(5) by simp
  have cnt: "\<forall>n. redo_count t = Some n \<longrightarrow> redo_count (reject t) = Some (n + 1)"
    using assms(6) by simp
  have two: "\<And>wu isApproved reason2.
             (verifyTaskAfterRead e (Some t) wu sid otherId isApproved reason2 = Inl TASK_STATUS_CONFLICT)
             \<longleftrightarrow> snd (runUpdate (verifyWhere sid)
                         (verifySet e otherId isApproved
                            (if normalizeText reason2 = [] then DEFAULT_REJECT_REASON
                             else normalizeText reason2)) wu) = 0"
    using verifyTaskAfterRead_conflict_iff[OF assms(2) assms(4)]
    by (simp add: runUpdate_def filter_empty_conv)
  have two': "\<And>wu isApproved reason2.
             (verifyTaskAfterRead e (Some t) wu sid otherId isApproved reason2 = Inl TASK_STATUS_CONFLICT)
             \<longleftrightarrow> (\<forall>x \<in> set (tasks wu).
                    \<not> (wecom_schedule_id x = Some sid \<and> status x = Some TASK_STATUS_WAITING_VERIFY))"
    using verifyTaskAfterRead_conflict_iff[OF assms(2) assms(4)]
    by (simp add: verifyWhere_def)
  have three: "\<And>approve1 approve2 reason1 reason2.
             \<exists>w1 res1.
               verifyTaskAfterRead e (Some t) w sid managerId approve1 reason1 = Inr (w1, res1)
               \<and> verifyTaskAfterRead e (Some t) w1 sid otherId approve2 reason2
                   = Inl TASK_STATUS_CONFLICT"
  proof -
    fix approve1 approve2 :: bool and reason1 reason2 :: jsval
    obtain w1 where
      r1: "verifyTaskAfterRead e (Some t) w sid managerId approve1 reason1
             = Inr (w1, \<lparr> vr_message = (if approve1 then MsgApproved else MsgRejected),
                          vr_task = Some (verifySet e managerId approve1
                             (if normalizeText reason1 = [] then DEFAULT_REJECT_REASON
                              else normalizeText reason1) t) \<rparr>)"
      and t1: "tasks w1 = map (\<lambda>x. if verifyWhere sid x
                                   then verifySet e managerId approve1
                                          (if normalizeText reason1 = [] then DEFAULT_REJECT_REASON
                                           else normalizeText reason1) x
                                   else x) (tasks w)"
      using verifyTaskAfterRead_first[OF assms(1) assms(2) assms(3) refl, of approve1 reason1]
      by blast
    have "\<forall>x \<in> set (tasks w1). \<not> verifyWhere sid x"
      unfolding t1 using no_waiting_after_update by blast
    then have "verifyTaskAfterRead e (Some t) w1 sid otherId approve2 reason2 = Inl TASK_STATUS_CONFLICT"
      using verifyTaskAfterRead_conflict_iff[OF assms(2) assms(4)] by simp
    with r1 show "\<exists>w1 res1.
               verifyTaskAfterRead e (Some t) w sid managerId approve1 reason1 = Inr (w1, res1)
               \<and> verifyTaskAfterRead e (Some t) w1 sid otherId approve2 reason2
                   = Inl TASK_STATUS_CONFLICT"
      by blast
  qed
  from one ne cnt two two' three show ?thesis by blast
qed

text \<open>
  The creator \<open>manager-a\<close> rejects the waiting task \<open>s-1\<close>, which has been sent back twice,
  with the reason \<open>incomplete\<close>: the row goes back to PENDING with redo count 3. With an
  ideographic space (U+3000) as the reason, the stored reason is the default text. With
  the global verifier \<open>leader-x\<close> approving at the same time, the second of the two UPDATEs
  finds nothing to change.
\<close>

theorem verifyTask_reject_and_conflict_witness:
  "(\<exists>w'. verifyTask (fixedEnv noDates 0) waitingWorld ''s-1'' (JStr ''manager-a'') False
            (JStr ''incomplete'')
          = Inr (w', \<lparr> vr_message = MsgRejected,
                      vr_task = Some (waitingRow\<lparr> status := Some ''PENDING'',
                                        verify_time := Some ''2026-02-12 12:00:00'',
                                        verified_by_userid := Some ''manager-a'',
                                        reject_reason := Some ''incomplete'',
                                        redo_count := Some 3,
                                        updated_at := Some ''2026-02-12 12:00:00'' \<rparr>) \<rparr>)
        \<and> map redo_count (tasks w') = [Some 3])
   \<and> (\<exists>w'. verifyTask (fixedEnv noDates 0) waitingWorld ''s-1'' (JStr ''manager-a'') False
            (JStr [CHR 0xE3, CHR 0x80, CHR 0x80])
          = Inr (w', \<lparr> vr_message = MsgRejected,
                      vr_task = Some (waitingRow\<lparr> status := Some ''PENDING'',
                                        verify_time := Some ''2026-02-12 12:00:00'',
                                        verified_by_userid := Some ''manager-a'',
                                        reject_reason :=
                                          Some [CHR 0xE9, CHR 0xA2, CHR 0x86, CHR 0xE5, CHR 0xAF, CHR 0xBC,
                                                CHR 0xE9, CHR 0xA9, CHR 0xB3, CHR 0xE5, CHR 0x9B, CHR 0x9E],
                                        redo_count := Some 3,
                                        updated_at := Some ''2026-02-12 12:00:00'' \<rparr>) \<rparr>))
   \<and> (\<exists>w1 res1.
         verifyTaskAfterRead (fixedEnv noDates 0) (Some waitingRow) waitingWorld ''s-1''
           (JStr ''manager-a'') False (JStr ''incomplete'') = Inr (w1, res1)
         \<and> verifyTaskAfterRead (fixedEnv noDates 0) (Some waitingRow) w1 ''s-1''
             (JStr ''leader-x'') True (JStr []) = Inl TASK_STATUS_CONFLICT)"
proof -
  have f: "getTaskByScheduleId waitingWorld ''s-1'' = Some waitingRow"
    by (simp add: getTaskByScheduleId_def waitingWorld_def waitingRow_def blankRow_def)
  have s: "status waitingRow = Some TASK_STATUS_WAITING_VERIFY"
    by (simp add: waitingRow_def TASK_STATUS_WAITING_VERIFY_def)
  have c1: "(normalizeText (JStr ''manager-a'') \<noteq> []
             \<and> normalizeText (JStr ''manager-a'') = normalizeText (col (creator_userid waitingRow)))
            \<or> normalizeText (JStr ''manager-a'') \<in> set (getGlobalVerifiers (fixedEnv noDates 0))"
    by (simp add: waitingRow_def col_def trim_plain)
  have c2: "(normalizeText (JStr ''leader-x'') \<noteq> []
             \<and> normalizeText (JStr ''leader-x'') = normalizeText (col (creator_userid waitingRow)))
            \<or> normalizeText (JStr ''leader-x'') \<in> set (getGlobalVerifiers (fixedEnv noDates 0))"
    by (simp add: getGlobalVerifiers_def fixedEnv_def parseGlobalVerifiers_def js_or_def
          set_add_def trim_plain)
  have n: "normalizeText (JStr ''incomplete'') = ''incomplete''"
    by (simp add: trim_plain)
  have n': "normalizeText (JStr [CHR 0xE3, CHR 0x80, CHR 0x80]) = []"
    by (simp add: trim_blank)
  have m: "normalizeText (JStr ''manager-a'') = ''manager-a''"
    by (simp add: trim_plain)
  have rc: "redo_count waitingRow = Some 2"
    by (simp add: waitingRow_def)
  have ts: "tasks waitingWorld = [waitingRow]" "wecom_schedule_id waitingRow = Some ''s-1''"
    by (simp_all add: waitingWorld_def waitingRow_def)
  note th = verifyTask_reject_and_conflict [OF f s c1 c2 refl refl, of "JStr ''incomplete''"]
  note th' = verifyTask_reject_and_conflict [OF f s c1 c2 refl refl,
      of "JStr [CHR 0xE3, CHR 0x80, CHR 0x80]"]
  from th [THEN conjunct1]
  have a: "\<exists>w'. verifyTask (fixedEnv noDates 0) waitingWorld ''s-1'' (JStr ''manager-a'') False
            (JStr ''incomplete'')
          = Inr (w', \<lparr> vr_message = MsgRejected,
                      vr_task = Some (waitingRow\<lparr> status := Some ''PENDING'',
                                        verify_time := Some ''2026-02-12 12:00:00'',
                                        verified_by_userid := Some ''manager-a'',
                                        reject_reason := Some ''incomplete'',
                                        redo_count := Some 3,
                                        updated_at := Some ''2026-02-12 12:00:00'' \<rparr>) \<rparr>)
        \<and> map redo_count (tasks w') = [Some 3]"
    unfolding n m rc ts by (auto simp: fixedEnv_def TASK_STATUS_PENDING_def s rc ts)
  from th' [THEN conjunct1]
  have a': "\<exists>w'. verifyTask (fixedEnv noDates 0) waitingWorld ''s-1'' (JStr ''manager-a'') False
            (JStr [CHR 0xE3, CHR 0x80, CHR 0x80])
          = Inr (w', \<lparr> vr_message = MsgRejected,
                      vr_task = Some (waitingRow\<lparr> status := Some ''PENDING'',
                                        verify_time := Some ''2026-02-12 12:00:00'',
                                        verified_by_userid := Some ''manager-a'',
                                        reject_reason :=
                                          Some [CHR 0xE9, CHR 0xA2, CHR 0x86, CHR 0xE5, CHR 0xAF, CHR 0xBC,
                                                CHR 0xE9, CHR 0xA9, CHR 0xB3, CHR 0xE5, CHR 0x9B, CHR 0x9E],
                                        redo_count := Some 3,
                                        updated_at := Some ''2026-02-12 12:00:00'' \<rparr>) \<rparr>)"
    unfolding n' m rc by (auto simp: fixedEnv_def TASK_STATUS_PENDING_def rc)
  from th [THEN conjunct2, THEN conjunct2, THEN conjunct2, THEN conjunct2, THEN conjunct2]
  have b: "\<exists>w1 res1.
         verifyTaskAfterRead (fixedEnv noDates 0) (Some waitingRow) waitingWorld ''s-1''
           (JStr ''manager-a'') False (JStr ''incomplete'') = Inr (w1, res1)
         \<and> verifyTaskAfterRead (fixedEnv noDates 0) (Some waitingRow) w1 ''s-1''
             (JStr ''leader-x'') True (JStr []) = Inl TASK_STATUS_CONFLICT"
    by blast
  from a a' b show ?thesis by blast
qed

section \<open>Reminder cooldown\<close>

text \<open>
  Claim C4. For every task, reminder kind and time, with the default cooldown of 12 hours:
  \<open>shouldSendReminder\<close> is false for the kind NONE; it is true when the kind is not NONE and
  no prior reminder kind is recorded or the recorded kind differs from the classified one,
  whatever the time of the last reminder; and when the recorded kind equals the classified
  one, it is true iff the time elapsed since the recorded last reminder time is at least
  12 hours (43200000 ms). A recorded kind with no parseable reminder time beside it counts
  as never reminded: the rule then sends.
\<close>

theorem shouldSendReminder_cooldown:
  "\<not> shouldSendReminder pd (Some t) REMINDER_KIND_NONE now 12
   \<and> (reminderKind \<noteq> REMINDER_KIND_NONE
        \<and> (normalizeText (col (last_reminder_kind t)) = []
             \<or> normalizeText (col (last_reminder_kind t)) \<noteq> reminderKind)
      \<longrightarrow> shouldSendReminder pd (Some t) reminderKind now 12)
   \<and> (reminderKind \<noteq> REMINDER_KIND_NONE
        \<and> normalizeText (col (last_reminder_kind t)) = reminderKind
        \<and> normalizeText (col (last_reminder_kind t)) \<noteq> []
      \<longrightarrow> shouldSendReminder pd (Some t) reminderKind now 12
            = (case toDateOrNull pd (col (last_reminder_at t)) of
                 None \<Rightarrow> True
               | Some lastAt \<Rightarrow> now - lastAt \<ge> 43200000))"
  by (simp add: shouldSendReminder_def Let_def split: option.splits)

text \<open>
  A DUE_SOON reminder stamped at time 0: a repeat is held back 3.5 hours later and one
  millisecond before the 12 hours are over, goes out at exactly 12 hours, and an OVERDUE
  reminder goes out at once.
\<close>

theorem shouldSendReminder_cooldown_witness:
  "\<not> shouldSendReminder (\<lambda>s. if s = ''T0'' then Some 0 else None)
        (Some (blankRow\<lparr> last_reminder_kind := Some ''DUE_SOON'', last_reminder_at := Some ''T0'' \<rparr>))
        ''DUE_SOON'' 12600000 12
   \<and> \<not> shouldSendReminder (\<lambda>s. if s = ''T0'' then Some 0 else None)
        (Some (blankRow\<lparr> last_reminder_kind := Some ''DUE_SOON'', last_reminder_at := Some ''T0'' \<rparr>))
        ''DUE_SOON'' 43199999 12
   \<and> shouldSendReminder (\<lambda>s. if s = ''T0'' then Some 0 else None)
        (Some (blankRow\<lparr> last_reminder_kind := Some ''DUE_SOON'', last_reminder_at := Some ''T0'' \<rparr>))
        ''DUE_SOON'' 43200000 12
   \<and> shouldSendReminder (\<lambda>s. if s = ''T0'' then Some 0 else None)
        (Some (blankRow\<lparr> last_reminder_kind := Some ''DUE_SOON'', last_reminder_at := Some ''T0'' \<rparr>))
        ''OVERDUE'' 1 12"
  using
    shouldSendReminder_cooldown [of "\<lambda>s. if s = ''T0'' then Some 0 else None"
      "blankRow\<lparr> last_reminder_kind := Some ''DUE_SOON'', last_reminder_at := Some ''T0'' \<rparr>"
      12600000 "''DUE_SOON''"]
    shouldSendReminder_cooldown [of "\<lambda>s. if s = ''T0'' then Some 0 else None"
      "blankRow\<lparr> last_reminder_kind := Some ''DUE_SOON'', last_reminder_at := Some ''T0'' \<rparr>"
      43199999 "''DUE_SOON''"]
    shouldSendReminder_cooldown [of "\<lambda>s. if s = ''T0'' then Some 0 else None"
      "blankRow\<lparr> last_reminder_kind := Some ''DUE_SOON'', last_reminder_at := Some ''T0'' \<rparr>"
      43200000 "''DUE_SOON''"]
    shouldSendReminder_cooldown [of "\<lambda>s. if s = ''T0'' then Some 0 else None"
      "blankRow\<lparr> last_reminder_kind := Some ''DUE_SOON'', last_reminder_at := Some ''T0'' \<rparr>"
      1 "''OVERDUE''"]
  by (simp add: blankRow_def col_def trim_plain toDateOrNull_def REMINDER_KIND_NONE_def)

section \<open>A reminder for a task without executor\<close>

text \<open>
  Claim C5, as the code has it. When \<open>dispatchTaskReminder\<close> finds a reminder due (the kind
  is not NONE and the cooldown is over) for a task whose executor id is blank, the send is
  a silent no-op: no card leaves. The call goes on all the same: it stamps
  \<open>last_reminder_kind\<close> and \<open>last_reminder_at\<close> on the row with the task's id and returns
  \<open>{sent: true}\<close>.
\<close>

theorem dispatchTaskReminder_blank_executor:
  assumes "reminderKind = getReminderKind (date_parse e) (Some t) (clock_ms e)"
    and "shouldSendReminder (date_parse e) (Some t) reminderKind (clock_ms e) 12"
    and "normalizeText (col (executor_userid t)) = []"
  shows "reminderKind \<noteq> REMINDER_KIND_NONE
       \<and> sendExecutorActionCard e w t cardTitle cardButtons = Some w
       \<and> dispatchTaskReminder e w t
           = (w\<lparr> tasks := map (\<lambda>r. if id_col r = id_col t then reminderSet e reminderKind r else r)
                               (tasks w) \<rparr>,
              \<lparr> sent = True, kind = reminderKind \<rparr>)
       \<and> outbox (fst (dispatchTaskReminder e w t)) = outbox w
       \<and> (\<forall>r \<in> set (tasks (fst (dispatchTaskReminder e w t))).
             id_col r = id_col t \<longrightarrow>
               last_reminder_kind r = Some reminderKind \<and> last_reminder_at r = Some (sql_now e))"
proof -
  have k: "reminderKind \<noteq> REMINDER_KIND_NONE"
    using assms(2) shouldSendReminder_none by blast
  have s: "\<And>h b. sendExecutorActionCard e w t h b = Some w"
    using assms(3) by (simp add: sendExecutorActionCard_def)
  have d: "dispatchTaskReminder e w t
           = (w\<lparr> tasks := map (\<lambda>r. if id_col r = id_col t then reminderSet e reminderKind r else r)
                               (tasks w) \<rparr>,
              \<lparr> sent = True, kind = reminderKind \<rparr>)"
    using assms(1) assms(2) by (simp add: dispatchTaskReminder_def Let_def s runUpdate_def)
  have st: "\<forall>r \<in> set (tasks (fst (dispatchTaskReminder e w t))).
             id_col r = id_col t \<longrightarrow>
               last_reminder_kind r = Some reminderKind \<and> last_reminder_at r = Some (sql_now e)"
    unfolding d by (auto simp: reminderSet_def)
  from k s d st show ?thesis by simp
qed

text \<open>
  The pending task without executor, five milliseconds past its end: the reminder is
  OVERDUE, no card is sent, and the row is stamped.
\<close>

theorem dispatchTaskReminder_blank_executor_witness:
  "dispatchTaskReminder (fixedEnv epochDates 5) unassignedWorld unassignedRow
     = (\<lparr> tasks = [unassignedRow\<lparr> last_reminder_at := Some ''2026-02-12 12:00:00'',
                                  last_reminder_kind := Some ''OVERDUE'',
                                  updated_at := Some ''2026-02-12 12:00:00'' \<rparr>],
          last_id = 1, outbox = [] \<rparr>,
        \<lparr> sent = True, kind = ''OVERDUE'' \<rparr>)"
proof -
  have k: "getReminderKind (date_parse (fixedEnv epochDates 5)) (Some unassignedRow)
             (clock_ms (fixedEnv epochDates 5)) = ''OVERDUE''"
    by (simp add: getReminderKind_def fixedEnv_def unassignedRow_def blankRow_def col_def
          toDateOrNull_def epochDates_def trim_plain TASK_STATUS_PENDING_def
          REMINDER_KIND_OVERDUE_def)
  have s: "shouldSendReminder (date_parse (fixedEnv epochDates 5)) (Some unassignedRow) ''OVERDUE''
             (clock_ms (fixedEnv epochDates 5)) 12"
    by (simp add: shouldSendReminder_def unassignedRow_def blankRow_def col_def
          REMINDER_KIND_NONE_def)
  have x: "normalizeText (col (executor_userid unassignedRow)) = []"
    by (simp add: unassignedRow_def blankRow_def col_def)
  show ?thesis
    using dispatchTaskReminder_blank_executor [OF k [symmetric] s x, of unassignedWorld]
    by (simp add: unassignedWorld_def reminderSet_def fixedEnv_def)
qed

text \<open>
  The claim as stated (the fields are not stamped) fails on that task: before the call
  its reminder fields are NULL, after the call the stored row carries the kind OVERDUE and
  the time of the call, although no card went out.
\<close>

theorem dispatchTaskReminder_stamp_counterexample:
  "normalizeText (col (executor_userid unassignedRow)) = []
   \<and> map last_reminder_kind (tasks unassignedWorld) = [None]
   \<and> map last_reminder_at (tasks unassignedWorld) = [None]
   \<and> map last_reminder_kind
        (tasks (fst (dispatchTaskReminder (fixedEnv epochDates 5) unassignedWorld unassignedRow)))
       = [Some ''OVERDUE'']
   \<and> map last_reminder_at
        (tasks (fst (dispatchTaskReminder (fixedEnv epochDates 5) unassignedWorld unassignedRow)))
       = [Some ''2026-02-12 12:00:00'']
   \<and> outbox (fst (dispatchTaskReminder (fixedEnv epochDates 5) unassignedWorld unassignedRow)) = []
   \<and> sent (snd (dispatchTaskReminder (fixedEnv epochDates 5) unassignedWorld unassignedRow))"
proof -
  have k: "getReminderKind epochDates (Some unassignedRow) 5 = ''OVERDUE''"
    by (simp add: getReminderKind_def unassignedRow_def blankRow_def col_def
          toDateOrNull_def epochDates_def trim_plain TASK_STATUS_PENDING_def
          REMINDER_KIND_OVERDUE_def)
  have s: "shouldSendReminder epochDates (Some unassignedRow) ''OVERDUE'' 5 12"
    by (simp add: shouldSendReminder_def unassignedRow_def blankRow_def col_def
          REMINDER_KIND_NONE_def)
  have x: "normalizeText (col (executor_userid unassignedRow)) = []"
    by (simp add: unassignedRow_def blankRow_def col_def)
  have c: "\<And>h b. sendExecutorActionCard (fixedEnv epochDates 5) unassignedWorld unassignedRow h b
             = Some unassignedWorld"
    using x by (simp add: sendExecutorActionCard_def)
  have d: "dispatchTaskReminder (fixedEnv epochDates 5) unassignedWorld unassignedRow
     = (\<lparr> tasks = [unassignedRow\<lparr> last_reminder_at := Some ''2026-02-12 12:00:00'',
                                  last_reminder_kind := Some ''OVERDUE'',
                                  updated_at := Some ''2026-02-12 12:00:00'' \<rparr>],
          last_id = 1, outbox = [] \<rparr>,
        \<lparr> sent = True, kind = ''OVERDUE'' \<rparr>)"
    using k s
    by (simp add: dispatchTaskReminder_def Let_def c runUpdate_def)
       (simp add: fixedEnv_def unassignedWorld_def reminderSet_def)
  show ?thesis
    unfolding d using x by (simp add: unassignedWorld_def unassignedRow_def blankRow_def)
qed

section \<open>KPI aggregation\<close>

text \<open>
  Claim C6, as the code has it. \<open>buildTaskKpi\<close> counts the rows, the COMPLETED rows, the
  WAITING_VERIFY rows, the overdue rows and the rows due soon. The completion rate is
  \<open>toFixed(2)\<close> of the double \<open>(completed / total) * 100\<close>, and 0 for no rows; the on-time
  rate is \<open>toFixed(2)\<close> of the double \<open>(onTime / completed) * 100\<close>, and 0 for no completed
  row, where a COMPLETED row is on time iff its completion timestamp (the verify timestamp
  when the completion timestamp is absent) is at most its end time. For a table of fewer
  than \<open>2^32\<close> rows, as every array is, each rate is a multiple of 1/100 at most 1/200 away
  from the exact percentage, and it is the exact percentage rounded to two decimals unless
  that percentage lies exactly halfway between two multiples of 1/100. For a PENDING row
  ending 8 hours from now, a WAITING_VERIFY row that ended 1 hour ago and a COMPLETED row
  that ended 2 hours ago and was completed 3 hours ago, the result is total 3, completed
  1, waiting 1, overdue 1, due soon 1, completion rate 33.33, on-time rate 100.
\<close>

theorem buildTaskKpi_rates:
  assumes "k = buildTaskKpi pd rows now"
    and "completed = length (filter (\<lambda>r. normalizeText (col (status r)) = TASK_STATUS_COMPLETED) rows)"
    and "onTime = length (filter (\<lambda>r. normalizeText (col (status r)) = TASK_STATUS_COMPLETED
                                      \<and> specOnTime pd r) rows)"
    and "length rows < 2 ^ 32"
  shows "total_tasks k = length rows
       \<and> completed_tasks k = completed
       \<and> waiting_verify_tasks k
           = length (filter (\<lambda>r. normalizeText (col (status r)) = TASK_STATUS_WAITING_VERIFY) rows)
       \<and> overdue_tasks k = length (filter (\<lambda>r. isTaskOverdue pd (Some r) now) rows)
       \<and> due_soon_tasks k = length (filter (\<lambda>r. isTaskDueSoon pd (Some r) now) rows)
       \<and> completion_rate k
           = (if length rows = 0 then 0
              else toFixed2 (js_mul (js_div (of_nat completed) (of_nat (length rows))) 100))
       \<and> on_time_rate k
           = (if completed = 0 then 0
              else toFixed2 (js_mul (js_div (of_nat onTime) (of_nat completed)) 100))
       \<and> (length rows \<noteq> 0 \<longrightarrow>
             \<bar>completion_rate k - of_nat completed / of_nat (length rows) * 100\<bar> \<le> 1 / 200
             \<and> (\<exists>n::int. completion_rate k = of_int n / 100)
             \<and> (frac (of_nat completed / of_nat (length rows) * 100 * 100 :: rat) \<noteq> 1 / 2 \<longrightarrow>
                   completion_rate k = round2 (of_nat completed / of_nat (length rows) * 100)))
       \<and> (completed \<noteq> 0 \<longrightarrow>
             \<bar>on_time_rate k - of_nat onTime / of_nat completed * 100\<bar> \<le> 1 / 200
             \<and> (\<exists>n::int. on_time_rate k = of_int n / 100)
             \<and> (frac (of_nat onTime / of_nat completed * 100 * 100 :: rat) \<noteq> 1 / 2 \<longrightarrow>
                   on_time_rate k = round2 (of_nat onTime / of_nat completed * 100)))
       \<and> (length rows = 0 \<longrightarrow> completion_rate k = 0)
       \<and> (completed = 0 \<longrightarrow> on_time_rate k = 0)
       \<and> (normalizeText (col (status r1)) = TASK_STATUS_PENDING
            \<and> toDateOrNull pd (col (end_time r1)) = Some (now + 8 * 3600000)
            \<and> normalizeText (col (status r2)) = TASK_STATUS_WAITING_VERIFY
            \<and> toDateOrNull pd (col (end_time r2)) = Some (now - 3600000)
            \<and> normalizeText (col (status r3)) = TASK_STATUS_COMPLETED
            \<and> toDateOrNull pd (col (end_time r3)) = Some (now - 2 * 3600000)
            \<and> toDateOrNull pd (col (completion_time r3)) = Some (now - 3 * 3600000)
          \<longrightarrow> buildTaskKpi pd [r1, r2, r3] now
                = \<lparr> total_tasks = 3, completed_tasks = 1, waiting_verify_tasks = 1,
                    overdue_tasks = 1, due_soon_tasks = 1,
                    completion_rate = 3333 / 100, on_time_rate = 100 \<rparr>)"
proof -
  have ot: "filter (isOnTimeCompleted pd) rows
            = filter (\<lambda>r. normalizeText (col (status r)) = TASK_STATUS_COMPLETED \<and> specOnTime pd r) rows"
  proof -
    have "isOnTimeCompleted pd
          = (\<lambda>r. normalizeText (col (status r)) = TASK_STATUS_COMPLETED \<and> specOnTime pd r)"
      by (rule ext) (rule isOnTimeCompleted_spec)
    then show ?thesis by simp
  qed
  have counts: "total_tasks k = length rows" "completed_tasks k = completed"
    "waiting_verify_tasks k
       = length (filter (\<lambda>r. normalizeText (col (status r)) = TASK_STATUS_WAITING_VERIFY) rows)"
    "overdue_tasks k = length (filter (\<lambda>r. isTaskOverdue pd (Some r) now) rows)"
    "due_soon_tasks k = length (filter (\<lambda>r. isTaskDueSoon pd (Some r) now) rows)"
    using assms by (simp_all add: buildTaskKpi_def Let_def)
  have cr: "completion_rate k
           = (if length rows = 0 then 0
              else toFixed2 (js_mul (js_div (of_nat completed) (of_nat (length rows))) 100))"
    using assms by (simp add: buildTaskKpi_def Let_def)
  have otr: "on_time_rate k
           = (if completed = 0 then 0
              else toFixed2 (js_mul (js_div (of_nat onTime) (of_nat completed)) 100))"
    using assms by (simp add: buildTaskKpi_def Let_def ot)
  have c_le: "completed \<le> length rows" using assms(2) by simp
  have o_le: "onTime \<le> completed"
    unfolding assms(2,3) by (rule length_filter_conj_le)
  have c_lt: "completed < 2 ^ 32" using c_le assms(4) by simp
  have near1: "length rows \<noteq> 0 \<longrightarrow>
             \<bar>completion_rate k - of_nat completed / of_nat (length rows) * 100\<bar> \<le> 1 / 200
             \<and> (\<exists>n::int. completion_rate k = of_int n / 100)
             \<and> (frac (of_nat completed / of_nat (length rows) * 100 * 100 :: rat) \<noteq> 1 / 2 \<longrightarrow>
                   completion_rate k = round2 (of_nat completed / of_nat (length rows) * 100))"
    using cr percent_nearest[OF c_le _ assms(4)] percent_round2[OF c_le _ assms(4)] by simp
  have near2: "completed \<noteq> 0 \<longrightarrow>
             \<bar>on_time_rate k - of_nat onTime / of_nat completed * 100\<bar> \<le> 1 / 200
             \<and> (\<exists>n::int. on_time_rate k = of_int n / 100)
             \<and> (frac (of_nat onTime / of_nat completed * 100 * 100 :: rat) \<noteq> 1 / 2 \<longrightarrow>
                   on_time_rate k = round2 (of_nat onTime / of_nat completed * 100))"
    using otr percent_nearest[OF o_le _ c_lt] percent_round2[OF o_le _ c_lt] by simp
  have zero: "length rows = 0 \<longrightarrow> completion_rate k = 0" "completed = 0 \<longrightarrow> on_time_rate k = 0"
    using cr otr by simp_all
  have example: "buildTaskKpi pd [r1, r2, r3] now
                = \<lparr> total_tasks = 3, completed_tasks = 1, waiting_verify_tasks = 1,
                    overdue_tasks = 1, due_soon_tasks = 1,
                    completion_rate = 3333 / 100, on_time_rate = 100 \<rparr>"
    if s1: "normalizeText (col (status r1)) = TASK_STATUS_PENDING"
      and e1: "toDateOrNull pd (col (end_time r1)) = Some (now + 8 * 3600000)"
      and s2: "normalizeText (col (status r2)) = TASK_STATUS_WAITING_VERIFY"
      and e2: "toDateOrNull pd (col (end_time r2)) = Some (now - 3600000)"
      and s3: "normalizeText (col (status r3)) = TASK_STATUS_COMPLETED"
      and e3: "toDateOrNull pd (col (end_time r3)) = Some (now - 2 * 3600000)"
      and c3: "toDateOrNull pd (col (completion_time r3)) = Some (now - 3 * 3600000)"
  proof -
    have d: "TASK_STATUS_PENDING \<noteq> TASK_STATUS_COMPLETED"
      "TASK_STATUS_WAITING_VERIFY \<noteq> TASK_STATUS_COMPLETED"
      "TASK_STATUS_PENDING \<noteq> TASK_STATUS_WAITING_VERIFY"
      "TASK_STATUS_WAITING_VERIFY \<noteq> TASK_STATUS_PENDING"
      "TASK_STATUS_COMPLETED \<noteq> TASK_STATUS_PENDING"
      "TASK_STATUS_COMPLETED \<noteq> TASK_STATUS_WAITING_VERIFY"
      by (simp_all add: TASK_STATUS_PENDING_def TASK_STATUS_COMPLETED_def TASK_STATUS_WAITING_VERIFY_def)
    have o: "\<not> isTaskOverdue pd (Some r1) now" "isTaskOverdue pd (Some r2) now"
      "\<not> isTaskOverdue pd (Some r3) now"
      by (simp_all add: isTaskOverdue_def s1 s2 s3 e1 e2 e3 d)
    have ds: "isTaskDueSoon pd (Some r1) now" "\<not> isTaskDueSoon pd (Some r2) now"
      "\<not> isTaskDueSoon pd (Some r3) now"
      by (simp_all add: isTaskDueSoon_def s1 s2 s3 e1 e2 e3 d)
    have j: "js_or (col (completion_time r3)) (col (verify_time r3)) = col (completion_time r3)"
      using toDate_truthy[OF c3] by (simp add: js_or_def)
    have t: "\<not> isOnTimeCompleted pd r1" "\<not> isOnTimeCompleted pd r2" "isOnTimeCompleted pd r3"
      by (simp_all add: isOnTimeCompleted_def s1 s2 s3 e3 c3 j d)
    show ?thesis
      by (simp add: buildTaskKpi_def Let_def s1 s2 s3 d o ds t rate_one_third[simplified]
            rate_all[simplified])
  qed
  from counts cr otr near1 near2 zero example show ?thesis by blast
qed

text \<open>
  The three rows of the example at three hours past the epoch, with end times at 11, 2 and
  1 hours and the completion at the epoch.
\<close>

theorem buildTaskKpi_rates_witness:
  "buildTaskKpi epochDates
     [blankRow\<lparr> status := Some ''PENDING'', end_time := Some ''T11'' \<rparr>,
      blankRow\<lparr> status := Some ''WAITING_VERIFY'', end_time := Some ''T2'' \<rparr>,
      blankRow\<lparr> status := Some ''COMPLETED'', end_time := Some ''T1'', completion_time := Some ''T0'' \<rparr>]
     10800000
   = \<lparr> total_tasks = 3, completed_tasks = 1, waiting_verify_tasks = 1,
       overdue_tasks = 1, due_soon_tasks = 1,
       completion_rate = 3333 / 100, on_time_rate = 100 \<rparr>"
  using buildTaskKpi_rates [OF refl refl refl, where pd = epochDates and now = 10800000
      and ?r1.0 = "blankRow\<lparr> status := Some ''PENDING'', end_time := Some ''T11'' \<rparr>"
      and ?r2.0 = "blankRow\<lparr> status := Some ''WAITING_VERIFY'', end_time := Some ''T2'' \<rparr>"
      and ?r3.0 = "blankRow\<lparr> status := Some ''COMPLETED'', end_time := Some ''T1'',
                              completion_time := Some ''T0'' \<rparr>"
      and rows = "[blankRow\<lparr> status := Some ''PENDING'', end_time := Some ''T11'' \<rparr>,
                  blankRow\<lparr> status := Some ''WAITING_VERIFY'', end_time := Some ''T2'' \<rparr>,
                  blankRow\<lparr> status := Some ''COMPLETED'', end_time := Some ''T1'',
                            completion_time := Some ''T0'' \<rparr>]"]
  by (simp add: blankRow_def col_def toDateOrNull_def epochDates_def trim_plain
        TASK_STATUS_PENDING_def TASK_STATUS_WAITING_VERIFY_def TASK_STATUS_COMPLETED_def)

text \<open>
  The claim as stated (the exact percentage, rounded to two decimals) fails on a table of
  160 tasks of which 23 are completed. The exact percentage is 14.375, halfway between
  14.37 and 14.38, and rounds to 14.38. The double \<open>23 / 160\<close> lies below 0.14375, so does
  its product with 100, and the completion rate is 14.37.
\<close>

theorem buildTaskKpi_tie_counterexample:
  "length tieTable = 160
   \<and> completed_tasks (buildTaskKpi noDates tieTable 0) = 23
   \<and> round2 (23 / 160 * 100) = 1438 / 100
   \<and> js_mul (js_div 23 160) 100 < 14375 / 1000
   \<and> completion_rate (buildTaskKpi noDates tieTable 0) = 1437 / 100"
proof -
  have st: "normalizeText (col (Some ''COMPLETED'')) = ''COMPLETED''"
    "normalizeText (col (Some ''PENDING'')) = ''PENDING''"
    by (simp_all add: col_def trim_plain)
  have len: "length tieTable = 160" by (simp add: tieTable_def)
  have cnt: "length (filter (\<lambda>item. normalizeText (col (status item)) = TASK_STATUS_COMPLETED) tieTable)
             = 23"
    by (simp add: tieTable_def st TASK_STATUS_COMPLETED_def)
  have r: "round2 (23 / 160 * 100) = 1438 / 100"
  proof -
    have "\<lfloor>(2876 / 2 :: rat)\<rfloor> = 1438" by (rule floor_unique) simp_all
    then show ?thesis by (simp add: round2_def)
  qed
  have lt: "js_mul (js_div 23 160) 100 < 14375 / 1000" by code_simp
  have "completion_rate (buildTaskKpi noDates tieTable 0) = 1437 / 100"
    by (simp add: buildTaskKpi_def Let_def len cnt rate_tie)
  moreover have "completed_tasks (buildTaskKpi noDates tieTable 0) = 23"
    by (simp add: buildTaskKpi_def Let_def cnt)
  ultimately show ?thesis using len r lt by simp
qed

section \<open>Calendar targets: one per calendar\<close>

text \<open>
  Claim C7. \<open>buildSyncCalendarTargets\<close> deduplicates the merged (configuration plus
  storage) list by calendar id, keeping the entry met first; when a default calendar id is
  configured it appends the default target (empty user id, source \<open>default\<close>) and
  deduplicates by calendar id again. So no two targets share a calendar id, and for every
  entry of the merged list there is exactly one target with its calendar id, namely the
  first entry of the merged list that has it. In particular, when the configuration maps
  two users \<open>A\<close> and \<open>B\<close> to the same calendar \<open>X\<close>, the only target for \<open>X\<close> is the one of
  \<open>A\<close>, followed by the default target when a default calendar other than \<open>X\<close> is
  configured. This holds for the configuration written as the pairs \<open>A:X,B:X\<close> (for ids of
  letters, digits and \<open>_-.@\<close>), as a JSON object or as a JSON array of objects (for any ids,
  which are trimmed, those of \<open>A\<close> and \<open>X\<close> not blank), and as two stored rows.
\<close>

theorem buildSyncCalendarTargets_dedup:
  "buildSyncCalendarTargets jp options
     = keepFirstByCal
         (keepFirstByCal (mergedByUser jp options)
          @ (if normalizeText (defaultCalId options) \<noteq> []
             then [\<lparr> user_id = [], cal_id = normalizeText (defaultCalId options),
                      source = ''default'' \<rparr>]
             else []))
   \<and> distinct (map cal_id (buildSyncCalendarTargets jp options))
   \<and> (\<forall>x \<in> set (mergedByUser jp options).
         length (filter (\<lambda>t. cal_id t = cal_id x) (buildSyncCalendarTargets jp options)) = 1
         \<and> find (\<lambda>t. cal_id t = cal_id x) (buildSyncCalendarTargets jp options)
             = find (\<lambda>t. cal_id t = cal_id x) (mergedByUser jp options))
   \<and> buildSyncCalendarTargets jp
        \<lparr> defaultCalId = JUndefined, userCalendarMapRaw = JStr ''A:X,B:X'',
          userCalendarRows = JUndefined \<rparr>
       = [\<lparr> user_id = ''A'', cal_id = ''X'', source = ''env_map'' \<rparr>]
   \<and> (idText A \<and> idText B \<and> idText X \<longrightarrow>
         buildSyncCalendarTargets jp
           \<lparr> defaultCalId = d,
             userCalendarMapRaw = JStr (A @ '':'' @ X @ '','' @ B @ '':'' @ X),
             userCalendarRows = JUndefined \<rparr>
         = \<lparr> user_id = A, cal_id = X, source = ''env_map'' \<rparr>
           # (if normalizeText d \<noteq> [] \<and> normalizeText d \<noteq> X
             then [\<lparr> user_id = [], cal_id = normalizeText d, source = ''default'' \<rparr>] else []))
   \<and> (normalizeText raw = normalizedRaw \<and> normalizedRaw \<noteq> [] \<and> hd normalizedRaw = CHR ''{''
         \<and> jp normalizedRaw = Some (JObj [(A, JStr X), (B, JStr X)])
         \<and> trim A \<noteq> [] \<and> trim X \<noteq> [] \<longrightarrow>
         buildSyncCalendarTargets jp
           \<lparr> defaultCalId = d, userCalendarMapRaw = raw, userCalendarRows = JUndefined \<rparr>
         = \<lparr> user_id = trim A, cal_id = trim X, source = ''env_map'' \<rparr>
           # (if normalizeText d \<noteq> [] \<and> normalizeText d \<noteq> trim X
             then [\<lparr> user_id = [], cal_id = normalizeText d, source = ''default'' \<rparr>] else []))
   \<and> (normalizeText raw = normalizedRaw \<and> normalizedRaw \<noteq> [] \<and> hd normalizedRaw = CHR ''[''
         \<and> jp normalizedRaw = Some (JArr [JObj [(''user_id'', JStr A), (''cal_id'', JStr X)],
                                   JObj [(''user_id'', JStr B), (''cal_id'', JStr X)]])
         \<and> trim A \<noteq> [] \<and> trim X \<noteq> [] \<longrightarrow>
         buildSyncCalendarTargets jp
           \<lparr> defaultCalId = d, userCalendarMapRaw = raw, userCalendarRows = JUndefined \<rparr>
         = \<lparr> user_id = trim A, cal_id = trim X, source = ''env_map'' \<rparr>
           # (if normalizeText d \<noteq> [] \<and> normalizeText d \<noteq> trim X
             then [\<lparr> user_id = [], cal_id = normalizeText d, source = ''default'' \<rparr>] else []))
   \<and> (trim A \<noteq> [] \<and> trim X \<noteq> [] \<longrightarrow>
         buildSyncCalendarTargets jp
           \<lparr> defaultCalId = d, userCalendarMapRaw = JUndefined,
             userCalendarRows = JArr [JObj [(''user_id'', JStr A), (''cal_id'', JStr X)],
                                      JObj [(''user_id'', JStr B), (''cal_id'', JStr X)]] \<rparr>
         = \<lparr> user_id = trim A, cal_id = trim X, source = ''db'' \<rparr>
           # (if normalizeText d \<noteq> [] \<and> normalizeText d \<noteq> trim X
             then [\<lparr> user_id = [], cal_id = normalizeText d, source = ''default'' \<rparr>] else []))"
proof -
  have a: "buildSyncCalendarTargets jp options
     = keepFirstByCal
         (keepFirstByCal (mergedByUser jp options)
          @ (if normalizeText (defaultCalId options) \<noteq> []
             then [\<lparr> user_id = [], cal_id = normalizeText (defaultCalId options),
                      source = ''default'' \<rparr>]
             else []))"
    using buildSyncCalendarTargets_keepFirst[of jp options] by (simp add: defaultTarget_def)
  have b: "distinct (map cal_id (buildSyncCalendarTargets jp options))"
    by (rule buildSyncCalendarTargets_distinct)
  have c: "(\<forall>x \<in> set (mergedByUser jp options).
         length (filter (\<lambda>t. cal_id t = cal_id x) (buildSyncCalendarTargets jp options)) = 1
         \<and> find (\<lambda>t. cal_id t = cal_id x) (buildSyncCalendarTargets jp options)
             = find (\<lambda>t. cal_id t = cal_id x) (mergedByUser jp options))"
    using buildSyncCalendarTargets_first by blast
  have d: "buildSyncCalendarTargets jp
        \<lparr> defaultCalId = JUndefined, userCalendarMapRaw = JStr ''A:X,B:X'',
          userCalendarRows = JUndefined \<rparr>
       = [\<lparr> user_id = ''A'', cal_id = ''X'', source = ''env_map'' \<rparr>]"
    by code_simp
  have e: "(idText A \<and> idText B \<and> idText X \<longrightarrow>
         buildSyncCalendarTargets jp
           \<lparr> defaultCalId = d,
             userCalendarMapRaw = JStr (A @ '':'' @ X @ '','' @ B @ '':'' @ X),
             userCalendarRows = JUndefined \<rparr>
         = \<lparr> user_id = A, cal_id = X, source = ''env_map'' \<rparr>
           # (if normalizeText d \<noteq> [] \<and> normalizeText d \<noteq> X
             then [\<lparr> user_id = [], cal_id = normalizeText d, source = ''default'' \<rparr>] else []))"
    using targets_of_pairs[of A B X jp d] by simp
  have f: "(normalizeText raw = normalizedRaw \<and> normalizedRaw \<noteq> [] \<and> hd normalizedRaw = CHR ''{''
         \<and> jp normalizedRaw = Some (JObj [(A, JStr X), (B, JStr X)])
         \<and> trim A \<noteq> [] \<and> trim X \<noteq> [] \<longrightarrow>
         buildSyncCalendarTargets jp
           \<lparr> defaultCalId = d, userCalendarMapRaw = raw, userCalendarRows = JUndefined \<rparr>
         = \<lparr> user_id = trim A, cal_id = trim X, source = ''env_map'' \<rparr>
           # (if normalizeText d \<noteq> [] \<and> normalizeText d \<noteq> trim X
             then [\<lparr> user_id = [], cal_id = normalizeText d, source = ''default'' \<rparr>] else []))"
    using targets_of_json[of raw normalizedRaw jp "JObj [(A, JStr X), (B, JStr X)]" A X B d]
      json_object_rows[of X A B] by simp
  have g: "(normalizeText raw = normalizedRaw \<and> normalizedRaw \<noteq> [] \<and> hd normalizedRaw = CHR ''[''
         \<and> jp normalizedRaw = Some (JArr [JObj [(''user_id'', JStr A), (''cal_id'', JStr X)],
                                   JObj [(''user_id'', JStr B), (''cal_id'', JStr X)]])
         \<and> trim A \<noteq> [] \<and> trim X \<noteq> [] \<longrightarrow>
         buildSyncCalendarTargets jp
           \<lparr> defaultCalId = d, userCalendarMapRaw = raw, userCalendarRows = JUndefined \<rparr>
         = \<lparr> user_id = trim A, cal_id = trim X, source = ''env_map'' \<rparr>
           # (if normalizeText d \<noteq> [] \<and> normalizeText d \<noteq> trim X
             then [\<lparr> user_id = [], cal_id = normalizeText d, source = ''default'' \<rparr>] else []))"
    using targets_of_json[of raw normalizedRaw jp
        "JArr [JObj [(''user_id'', JStr A), (''cal_id'', JStr X)],
               JObj [(''user_id'', JStr B), (''cal_id'', JStr X)]]" A X B d]
      json_array_rows[of X A B] by simp
  have h: "(trim A \<noteq> [] \<and> trim X \<noteq> [] \<longrightarrow>
         buildSyncCalendarTargets jp
           \<lparr> defaultCalId = d, userCalendarMapRaw = JUndefined,
             userCalendarRows = JArr [JObj [(''user_id'', JStr A), (''cal_id'', JStr X)],
                                      JObj [(''user_id'', JStr B), (''cal_id'', JStr X)]] \<rparr>
         = \<lparr> user_id = trim A, cal_id = trim X, source = ''db'' \<rparr>
           # (if normalizeText d \<noteq> [] \<and> normalizeText d \<noteq> trim X
             then [\<lparr> user_id = [], cal_id = normalizeText d, source = ''default'' \<rparr>] else []))"
    using targets_of_rows[of A X jp d B] by simp
  from a b c d e f g h show ?thesis by blast
qed

text \<open>
  With \<open>A\<close> and \<open>B\<close> mapped to \<open>X\<close>, two stored mappings and the default calendar \<open>cal-a\<close>:
  the merged list has four entries, the result three; exactly one target is for \<open>X\<close> and
  exactly one for \<open>cal-a\<close>. The users \<open>zhang\<close> and \<open>li\<close> mapped to \<open>X\<close> in a JSON object, in
  a JSON array and in two stored rows leave the one target of \<open>zhang\<close>, and the default
  target \<open>main\<close> after it. A no-break space (U+00A0) after \<open>A:X,B:X\<close> is trimmed away. Stored
  rows under the other property names are read alike.
\<close>

theorem buildSyncCalendarTargets_dedup_witness:
  "buildSyncCalendarTargets noJson sampleOptions
     = [\<lparr> user_id = ''A'', cal_id = ''X'', source = ''env_map'' \<rparr>,
        \<lparr> user_id = ''zhangsan'', cal_id = ''cal-a'', source = ''db'' \<rparr>,
        \<lparr> user_id = ''lisi'', cal_id = ''cal-b'', source = ''db'' \<rparr>]
   \<and> length (filter (\<lambda>t. cal_id t = ''X'') (buildSyncCalendarTargets noJson sampleOptions)) = 1
   \<and> length (filter (\<lambda>t. cal_id t = ''cal-a'') (buildSyncCalendarTargets noJson sampleOptions)) = 1
   \<and> buildSyncCalendarTargets sampleJson
        \<lparr> defaultCalId = JStr ''main'', userCalendarMapRaw = JStr ('' '' @ objectText),
          userCalendarRows = JUndefined \<rparr>
       = [\<lparr> user_id = ''zhang'', cal_id = ''X'', source = ''env_map'' \<rparr>,
          \<lparr> user_id = [], cal_id = ''main'', source = ''default'' \<rparr>]
   \<and> buildSyncCalendarTargets sampleJson
        \<lparr> defaultCalId = JStr ''X'', userCalendarMapRaw = JStr arrayText,
          userCalendarRows = JUndefined \<rparr>
       = [\<lparr> user_id = ''zhang'', cal_id = ''X'', source = ''env_map'' \<rparr>]
   \<and> buildSyncCalendarTargets noJson
        \<lparr> defaultCalId = JStr ''main'', userCalendarMapRaw = JUndefined,
          userCalendarRows = JArr [JObj [(''user_id'', JStr ''zhang''), (''cal_id'', JStr ''X'')],
                                   JObj [(''user_id'', JStr ''li''), (''cal_id'', JStr ''X'')]] \<rparr>
       = [\<lparr> user_id = ''zhang'', cal_id = ''X'', source = ''db'' \<rparr>,
          \<lparr> user_id = [], cal_id = ''main'', source = ''default'' \<rparr>]
   \<and> buildSyncCalendarTargets noJson
        \<lparr> defaultCalId = JUndefined, userCalendarMapRaw = JStr (''zhang:X,li:X''),
          userCalendarRows = JUndefined \<rparr>
       = [\<lparr> user_id = ''zhang'', cal_id = ''X'', source = ''env_map'' \<rparr>]
   \<and> buildSyncCalendarTargets noJson
        \<lparr> defaultCalId = JUndefined, userCalendarMapRaw = JStr (''A:X,B:X'' @ [CHR 0xC2, CHR 0xA0]),
          userCalendarRows = JUndefined \<rparr>
       = [\<lparr> user_id = ''A'', cal_id = ''X'', source = ''env_map'' \<rparr>]
   \<and> buildSyncCalendarTargets noJson aliasOptions
       = [\<lparr> user_id = ''u1'', cal_id = ''c1'', source = ''db'' \<rparr>,
          \<lparr> user_id = ''u2'', cal_id = ''c2'', source = ''db'' \<rparr>,
          \<lparr> user_id = ''u3'', cal_id = ''c3'', source = ''db'' \<rparr>,
          \<lparr> user_id = ''u5'', cal_id = ''c5'', source = ''manual'' \<rparr>]"
proof -
  have m: "mergedByUser noJson sampleOptions
     = [\<lparr> user_id = ''A'', cal_id = ''X'', source = ''env_map'' \<rparr>,
        \<lparr> user_id = ''B'', cal_id = ''X'', source = ''env_map'' \<rparr>,
        \<lparr> user_id = ''zhangsan'', cal_id = ''cal-a'', source = ''db'' \<rparr>,
        \<lparr> user_id = ''lisi'', cal_id = ''cal-b'', source = ''db'' \<rparr>]"
    by code_simp
  have d: "normalizeText (defaultCalId sampleOptions) = ''cal-a''"
    by code_simp
  note th = buildSyncCalendarTargets_dedup [of noJson sampleOptions]
  have r: "buildSyncCalendarTargets noJson sampleOptions
     = [\<lparr> user_id = ''A'', cal_id = ''X'', source = ''env_map'' \<rparr>,
        \<lparr> user_id = ''zhangsan'', cal_id = ''cal-a'', source = ''db'' \<rparr>,
        \<lparr> user_id = ''lisi'', cal_id = ''cal-b'', source = ''db'' \<rparr>]"
    using th [THEN conjunct1] by (simp add: m d)
  have t: "trim ''zhang'' = ''zhang''" "trim ''X'' = ''X''" "trim ''main'' = ''main''"
    by (simp_all add: trim_plain)
  have ot: "normalizeText (JStr ('' '' @ objectText)) = objectText" "objectText \<noteq> []"
    "hd objectText = CHR ''{''"
    "sampleJson objectText = Some (JObj [(''zhang'', JStr ''X''), (''li'', JStr ''X'')])"
    by code_simp+
  have at: "normalizeText (JStr arrayText) = arrayText" "arrayText \<noteq> []"
    "hd arrayText = CHR ''[''"
    "sampleJson arrayText
       = Some (JArr [JObj [(''user_id'', JStr ''zhang''), (''cal_id'', JStr ''X'')],
                     JObj [(''user_id'', JStr ''li''), (''cal_id'', JStr ''X'')]])"
    by code_simp+
  have ids: "idText ''zhang''" "idText ''li''" "idText ''X''"
    by (simp_all add: idText_def id_char_def)
  have o: "buildSyncCalendarTargets sampleJson
        \<lparr> defaultCalId = JStr ''main'', userCalendarMapRaw = JStr ('' '' @ objectText),
          userCalendarRows = JUndefined \<rparr>
       = [\<lparr> user_id = ''zhang'', cal_id = ''X'', source = ''env_map'' \<rparr>,
          \<lparr> user_id = [], cal_id = ''main'', source = ''default'' \<rparr>]"
    using buildSyncCalendarTargets_dedup
            [of sampleJson sampleOptions "''zhang''" "''li''" "''X''" "JStr ''main''" "JStr ('' '' @ objectText)" objectText]
      ot by (simp add: t)
  have ar: "buildSyncCalendarTargets sampleJson
        \<lparr> defaultCalId = JStr ''X'', userCalendarMapRaw = JStr arrayText,
          userCalendarRows = JUndefined \<rparr>
       = [\<lparr> user_id = ''zhang'', cal_id = ''X'', source = ''env_map'' \<rparr>]"
    using buildSyncCalendarTargets_dedup
            [of sampleJson sampleOptions "''zhang''" "''li''" "''X''" "JStr ''X''" "JStr arrayText" arrayText]
      at by (simp add: t)
  have rw: "buildSyncCalendarTargets noJson
        \<lparr> defaultCalId = JStr ''main'', userCalendarMapRaw = JUndefined,
          userCalendarRows = JArr [JObj [(''user_id'', JStr ''zhang''), (''cal_id'', JStr ''X'')],
                                   JObj [(''user_id'', JStr ''li''), (''cal_id'', JStr ''X'')]] \<rparr>
       = [\<lparr> user_id = ''zhang'', cal_id = ''X'', source = ''db'' \<rparr>,
          \<lparr> user_id = [], cal_id = ''main'', source = ''default'' \<rparr>]"
    using buildSyncCalendarTargets_dedup
            [of noJson sampleOptions "''zhang''" "''li''" "''X''" "JStr ''main''"]
    by (simp add: t)
  have pr: "buildSyncCalendarTargets noJson
        \<lparr> defaultCalId = JUndefined, userCalendarMapRaw = JStr (''zhang:X,li:X''),
          userCalendarRows = JUndefined \<rparr>
       = [\<lparr> user_id = ''zhang'', cal_id = ''X'', source = ''env_map'' \<rparr>]"
    using buildSyncCalendarTargets_dedup [of noJson sampleOptions "''zhang''" "''li''" "''X''" JUndefined] ids
    by simp
  have nb: "buildSyncCalendarTargets noJson
        \<lparr> defaultCalId = JUndefined, userCalendarMapRaw = JStr (''A:X,B:X'' @ [CHR 0xC2, CHR 0xA0]),
          userCalendarRows = JUndefined \<rparr>
       = [\<lparr> user_id = ''A'', cal_id = ''X'', source = ''env_map'' \<rparr>]"
    by code_simp
  have al: "buildSyncCalendarTargets noJson aliasOptions
       = [\<lparr> user_id = ''u1'', cal_id = ''c1'', source = ''db'' \<rparr>,
          \<lparr> user_id = ''u2'', cal_id = ''c2'', source = ''db'' \<rparr>,
          \<lparr> user_id = ''u3'', cal_id = ''c3'', source = ''db'' \<rparr>,
          \<lparr> user_id = ''u5'', cal_id = ''c5'', source = ''manual'' \<rparr>]"
    by code_simp
  from r o ar rw pr nb al show ?thesis by simp
qed

section \<open>Reconciliation: picking the executor\<close>

text \<open>
  Claim C8, as the code has it. For every schedule payload, attendee entries whose
  normalized id is blank are passed over: the executor is the first listed attendee whose
  normalized id is not blank and differs from the organizer's, else the first attendee
  whose normalized id is not blank, else the organizer. Only for a schedule that is
  \<open>undefined\<close> or \<open>null\<close> there is no executor: the call throws. With the organizer and the
  attendees given as strings, the normalized ids are the trimmed strings. For organizer
  \<open>mgr\<close> and attendees \<open>mgr\<close>, \<open>exec1\<close> the executor is \<open>exec1\<close>.
\<close>

theorem pickExecutor_rule:
  "pickExecutor schedule =
     (if schedule = JUndefined \<or> schedule = JNull then Inl TypeError
      else Inr (case find (\<lambda>u. u \<noteq> [] \<and> u \<noteq> organizerOf schedule)
                       (map attendeeId (attendeesOf schedule)) of
                  Some u \<Rightarrow> u
                | None \<Rightarrow>
                    (case find (\<lambda>u. u \<noteq> []) (map attendeeId (attendeesOf schedule)) of
                       Some u \<Rightarrow> u
                     | None \<Rightarrow> organizerOf schedule)))
   \<and> pickExecutor (JObj [(''organizer'', JStr organizer), (''attendees'', JArr (map JStr attendees))])
       = Inr (case find (\<lambda>u. u \<noteq> [] \<and> u \<noteq> trim organizer) (map trim attendees) of
                Some u \<Rightarrow> u
              | None \<Rightarrow>
                  (case find (\<lambda>u. u \<noteq> []) (map trim attendees) of
                     Some u \<Rightarrow> u
                   | None \<Rightarrow> trim organizer))
   \<and> pickExecutor (JObj [(''organizer'', JStr ''mgr''),
                         (''attendees'', JArr [JStr ''mgr'', JStr ''exec1''])]) = Inr ''exec1''"
proof -
  let ?s = "JObj [(''organizer'', JStr organizer), (''attendees'', JArr (map JStr attendees))]"
  have a: "pickExecutor schedule =
     (if schedule = JUndefined \<or> schedule = JNull then Inl TypeError
      else Inr (case find (\<lambda>u. u \<noteq> [] \<and> u \<noteq> organizerOf schedule)
                       (map attendeeId (attendeesOf schedule)) of
                  Some u \<Rightarrow> u
                | None \<Rightarrow>
                    (case find (\<lambda>u. u \<noteq> []) (map attendeeId (attendeesOf schedule)) of
                       Some u \<Rightarrow> u
                     | None \<Rightarrow> organizerOf schedule)))"
    using executorOf_cases[of schedule] by (simp add: pickExecutor_def)
  have ids: "map attendeeId (map JStr attendees) = map trim attendees"
    by (simp add: attendeeId_text comp_def)
  have b: "pickExecutor ?s
       = Inr (case find (\<lambda>u. u \<noteq> [] \<and> u \<noteq> trim organizer) (map trim attendees) of
                Some u \<Rightarrow> u
              | None \<Rightarrow>
                  (case find (\<lambda>u. u \<noteq> []) (map trim attendees) of
                     Some u \<Rightarrow> u
                   | None \<Rightarrow> trim organizer))"
  proof -
    have "executorOf ?s
       = (case find (\<lambda>u. u \<noteq> [] \<and> u \<noteq> organizerOf ?s) (map attendeeId (attendeesOf ?s)) of
            Some u \<Rightarrow> u
          | None \<Rightarrow>
              (case find (\<lambda>u. u \<noteq> []) (map attendeeId (attendeesOf ?s)) of
                 Some u \<Rightarrow> u
               | None \<Rightarrow> organizerOf ?s))"
      by (rule executorOf_cases)
    then have "executorOf ?s
       = (case find (\<lambda>u. u \<noteq> [] \<and> u \<noteq> trim organizer) (map trim attendees) of
            Some u \<Rightarrow> u
          | None \<Rightarrow>
              (case find (\<lambda>u. u \<noteq> []) (map trim attendees) of
                 Some u \<Rightarrow> u
               | None \<Rightarrow> trim organizer))"
      by (simp only: organizerOf_text attendeesOf_text ids)
    then show ?thesis by (simp add: pickExecutor_def)
  qed
  have c: "pickExecutor (JObj [(''organizer'', JStr ''mgr''),
                         (''attendees'', JArr [JStr ''mgr'', JStr ''exec1''])]) = Inr ''exec1''"
    by (simp add: pickExecutor_def executorOf_def organizerOf_def attendeesOf_def attendeeId_def
          js_or_def js_and_def trim_plain Let_def str_or_def first_elem_def)
  from a b c show ?thesis by blast
qed

text \<open>
  With the organizer given as an object and the attendees as objects, the organizer
  listed first: the executor is again \<open>exec1\<close>, and the organizer alone is their own
  executor. An attendee entry that is an ideographic space (U+3000) is blank: with the
  organizer \<open>mgr\<close> listed after it, the executor is \<open>mgr\<close>. The attendees may come under
  \<open>attendee\<close> and the organizer under \<open>creator_userid\<close>. Without a schedule the call throws.
\<close>

theorem pickExecutor_rule_witness:
  "pickExecutor (JObj [(''organizer'', JObj [(''userid'', JStr ''mgr'')]),
                       (''attendees'', JArr [JObj [(''userid'', JStr ''mgr'')],
                                             JObj [(''userid'', JStr ''exec1'')]])]) = Inr ''exec1''
   \<and> pickExecutor (JObj [(''organizer'', JObj [(''userid'', JStr ''mgr'')]),
                         (''attendees'', JArr [JObj [(''userid'', JStr ''mgr'')]])]) = Inr ''mgr''
   \<and> pickExecutor (JObj [(''organizer'', JStr ''mgr''),
                         (''attendees'', JArr (map JStr [[CHR 0xE3, CHR 0x80, CHR 0x80], ''mgr'']))])
       = Inr ''mgr''
   \<and> pickExecutor (JObj [(''creator_userid'', JStr ''mgr''),
                         (''attendee'', JArr [JStr ''mgr'', JNum 7])]) = Inr ''7''
   \<and> pickExecutor (JObj [(''organizer'', JStr '' mgr '')]) = Inr ''mgr''
   \<and> pickExecutor JNull = Inl TypeError
   \<and> pickExecutor JUndefined = Inl TypeError"
proof -
  have seven: "digit_chars 7 = ''7''"
    by code_simp
  have mgr: "trim '' mgr '' = ''mgr''"
    by code_simp
  show ?thesis
    using
      pickExecutor_rule [of "JObj [(''organizer'', JObj [(''userid'', JStr ''mgr'')]),
                         (''attendees'', JArr [JObj [(''userid'', JStr ''mgr'')],
                                               JObj [(''userid'', JStr ''exec1'')]])]" "[]" "[]"]
      pickExecutor_rule [of "JObj [(''organizer'', JObj [(''userid'', JStr ''mgr'')]),
                           (''attendees'', JArr [JObj [(''userid'', JStr ''mgr'')]])]" "[]" "[]"]
      pickExecutor_rule [of JNull "''mgr''" "[[CHR 0xE3, CHR 0x80, CHR 0x80], ''mgr'']"]
      pickExecutor_rule [of "JObj [(''creator_userid'', JStr ''mgr''),
                           (''attendee'', JArr [JStr ''mgr'', JNum 7])]" "[]" "[]"]
      pickExecutor_rule [of "JObj [(''organizer'', JStr '' mgr '')]" "[]" "[]"]
      pickExecutor_rule [of JUndefined "[]" "[]"]
    by (simp add: organizerOf_def attendeesOf_def attendeeId_def js_or_def js_and_def trim_plain
          trim_blank seven mgr)
qed

text \<open>
  The claim as stated fails where a blank attendee entry comes first. For organizer \<open>mgr\<close>
  and the attendee entries \<open>{userid: " "}\<close>, \<open>{userid: "exec1"}\<close>, the first listed attendee
  whose normalized id differs from the organizer's is the blank one, so the claim's rule
  gives the empty id; the code picks \<open>exec1\<close>.
\<close>

theorem pickExecutor_blank_counterexample:
  "specExecutor (mgrSchedule [JObj [(''userid'', JStr '' '')], JObj [(''userid'', JStr ''exec1'')]]) = []
   \<and> pickExecutor (mgrSchedule [JObj [(''userid'', JStr '' '')], JObj [(''userid'', JStr ''exec1'')]])
       = Inr ''exec1''"
  by (simp add: specExecutor_def pickExecutor_def executorOf_def mgrSchedule_def organizerOf_def
        attendeesOf_def attendeeId_def js_or_def js_and_def trim_plain trim_blank Let_def str_or_def
        first_elem_def)

section \<open>Permission flags of the API row\<close>

text \<open>
  Claim C9. For every task row, current user, global-verifier list and time,
  \<open>mapTaskRowToApi\<close> never sets both \<open>can_complete\<close> and \<open>can_verify\<close>: \<open>can_complete\<close> is
  set only when the row's status reads PENDING, \<open>can_verify\<close> only when it reads
  WAITING_VERIFY, and the two status values differ.
\<close>

theorem mapTaskRowToApi_exclusive:
  "(can_complete (mapTaskRowToApi pd clock row options)
      \<longrightarrow> normalizeText (col (status row)) = TASK_STATUS_PENDING)
   \<and> (can_verify (mapTaskRowToApi pd clock row options)
      \<longrightarrow> normalizeText (col (status row)) = TASK_STATUS_WAITING_VERIFY)
   \<and> \<not> (can_complete (mapTaskRowToApi pd clock row options)
        \<and> can_verify (mapTaskRowToApi pd clock row options))"
proof -
  have c: "can_complete (mapTaskRowToApi pd clock row options)
             \<Longrightarrow> normalizeText (col (status row)) = TASK_STATUS_PENDING"
    by (simp add: mapTaskRowToApi_def Let_def canUserCompleteTask_status)
  have v: "can_verify (mapTaskRowToApi pd clock row options)
             \<Longrightarrow> normalizeText (col (status row)) = TASK_STATUS_WAITING_VERIFY"
    by (simp add: mapTaskRowToApi_def Let_def) (erule canUserVerifyTask_status)
  from c v pending_not_waiting show ?thesis by auto
qed

text \<open>
  The executor \<open>u1\<close> of a PENDING row, who is also a global verifier, may complete it and
  may not verify it.
\<close>

theorem mapTaskRowToApi_exclusive_witness:
  "can_complete (mapTaskRowToApi (\<lambda>s. None) 0
      (blankRow\<lparr> status := Some ''PENDING'', executor_userid := Some ''u1'' \<rparr>)
      \<lparr> opt_now = None, opt_currentUserId = JStr ''u1'', opt_globalVerifiers = JArr [JStr ''u1''] \<rparr>)
   \<and> \<not> can_verify (mapTaskRowToApi (\<lambda>s. None) 0
      (blankRow\<lparr> status := Some ''PENDING'', executor_userid := Some ''u1'' \<rparr>)
      \<lparr> opt_now = None, opt_currentUserId = JStr ''u1'', opt_globalVerifiers = JArr [JStr ''u1''] \<rparr>)"
  using mapTaskRowToApi_exclusive [of "\<lambda>s. None" 0
      "blankRow\<lparr> status := Some ''PENDING'', executor_userid := Some ''u1'' \<rparr>"
      "\<lparr> opt_now = None, opt_currentUserId = JStr ''u1'', opt_globalVerifiers = JArr [JStr ''u1''] \<rparr>"]
  by (simp add: mapTaskRowToApi_def Let_def canUserCompleteTask_def blankRow_def col_def trim_plain TASK_STATUS_PENDING_def)

section \<open>No reminder for a task that is not pending or has no end time\<close>

text \<open>
  Claim C10. For a task whose status does not read PENDING or whose end time does not
  parse, at every time: \<open>getReminderKind\<close> is NONE, \<open>shouldSendReminder\<close> is false for
  NONE, and \<open>dispatchTaskReminder\<close> returns \<open>{sent: false}\<close> and leaves the store and the
  outbox as they were: no card is sent and no reminder bookkeeping is stamped. The status
  is read through \<open>normalizeText\<close>, as everywhere in the lifecycle rules; the stored values
  WAITING_VERIFY, COMPLETED and NULL do not read PENDING.
\<close>

theorem dispatchTaskReminder_nothing_due:
  assumes "normalizeText (col (status t)) \<noteq> TASK_STATUS_PENDING
           \<or> toDateOrNull (date_parse e) (col (end_time t)) = None"
  shows "(\<forall>now. getReminderKind (date_parse e) (Some t) now = REMINDER_KIND_NONE)
         \<and> (\<forall>now. \<not> shouldSendReminder (date_parse e) (Some t) REMINDER_KIND_NONE now 12)
         \<and> dispatchTaskReminder e w t = (w, \<lparr> sent = False, kind = REMINDER_KIND_NONE \<rparr>)
         \<and> normalizeText (col (Some TASK_STATUS_WAITING_VERIFY)) \<noteq> TASK_STATUS_PENDING
         \<and> normalizeText (col (Some TASK_STATUS_COMPLETED)) \<noteq> TASK_STATUS_PENDING
         \<and> normalizeText (col None) \<noteq> TASK_STATUS_PENDING"
proof -
  have other: "normalizeText (col (Some TASK_STATUS_WAITING_VERIFY)) \<noteq> TASK_STATUS_PENDING"
    "normalizeText (col (Some TASK_STATUS_COMPLETED)) \<noteq> TASK_STATUS_PENDING"
    "normalizeText (col None) \<noteq> TASK_STATUS_PENDING"
    by (simp_all add: col_def trim_plain TASK_STATUS_WAITING_VERIFY_def
          TASK_STATUS_COMPLETED_def TASK_STATUS_PENDING_def)
  have k: "\<And>now. getReminderKind (date_parse e) (Some t) now = REMINDER_KIND_NONE"
    using assms by (rule getReminderKind_none)
  have "dispatchTaskReminder e w t = (w, \<lparr> sent = False, kind = REMINDER_KIND_NONE \<rparr>)"
    by (simp add: dispatchTaskReminder_def Let_def k shouldSendReminder_none)
  with k other show ?thesis by (simp add: shouldSendReminder_none)
qed

text \<open>
  A COMPLETED row and a PENDING row whose end time does not parse, each long past its end
  time: the store is returned as it was.
\<close>

theorem dispatchTaskReminder_nothing_due_witness:
  "normalizeText (col (status (blankRow\<lparr> status := Some ''COMPLETED'', end_time := Some ''T1'' \<rparr>)))
     \<noteq> TASK_STATUS_PENDING
   \<and> dispatchTaskReminder (fixedEnv (\<lambda>s. Some 0) 5)
        \<lparr> tasks = [blankRow\<lparr> status := Some ''COMPLETED'', end_time := Some ''T1'' \<rparr>],
          last_id = 1, outbox = [] \<rparr>
        (blankRow\<lparr> status := Some ''COMPLETED'', end_time := Some ''T1'' \<rparr>)
     = (\<lparr> tasks = [blankRow\<lparr> status := Some ''COMPLETED'', end_time := Some ''T1'' \<rparr>],
          last_id = 1, outbox = [] \<rparr>,
        \<lparr> sent = False, kind = ''NONE'' \<rparr>)
   \<and> toDateOrNull (date_parse (fixedEnv (\<lambda>s. None) 5))
        (col (end_time (blankRow\<lparr> status := Some ''PENDING'', end_time := Some ''soon'' \<rparr>))) = None
   \<and> dispatchTaskReminder (fixedEnv (\<lambda>s. None) 5)
        \<lparr> tasks = [blankRow\<lparr> status := Some ''PENDING'', end_time := Some ''soon'' \<rparr>],
          last_id = 1, outbox = [] \<rparr>
        (blankRow\<lparr> status := Some ''PENDING'', end_time := Some ''soon'' \<rparr>)
     = (\<lparr> tasks = [blankRow\<lparr> status := Some ''PENDING'', end_time := Some ''soon'' \<rparr>],
          last_id = 1, outbox = [] \<rparr>,
        \<lparr> sent = False, kind = ''NONE'' \<rparr>)"
  using
    dispatchTaskReminder_nothing_due [of
      "blankRow\<lparr> status := Some ''COMPLETED'', end_time := Some ''T1'' \<rparr>"
      "fixedEnv (\<lambda>s. Some 0) 5"
      "\<lparr> tasks = [blankRow\<lparr> status := Some ''COMPLETED'', end_time := Some ''T1'' \<rparr>],
         last_id = 1, outbox = [] \<rparr>"]
    dispatchTaskReminder_nothing_due [of
      "blankRow\<lparr> status := Some ''PENDING'', end_time := Some ''soon'' \<rparr>"
      "fixedEnv (\<lambda>s. None) 5"
      "\<lparr> tasks = [blankRow\<lparr> status := Some ''PENDING'', end_time := Some ''soon'' \<rparr>],
         last_id = 1, outbox = [] \<rparr>"]
  by (simp add: col_def trim_plain toDateOrNull_def fixedEnv_def blankRow_def
        TASK_STATUS_PENDING_def REMINDER_KIND_NONE_def)

end
